theory Spec2Isabelle
  imports Complex_Main
begin

section \<open>Errors, entities and the store\<close>

text \<open>
  A template literal such as \<^verbatim>\<open>`Movie with ID ${movieId} not found`\<close> is kept
  as the list of its parts, so that no rendering of numbers has to be chosen.
\<close>

datatype part = S string | N int

type_synonym message = "part list"

datatype error =
    NotFoundException message
  | ConflictException message
  | UnauthorizedException message
  | Error message

text \<open>
  The entities of \<^verbatim>\<open>src/entities\<close>. A JavaScript \<^verbatim>\<open>number\<close> that holds an
  identifier or a count is an \<open>int\<close>. A \<^verbatim>\<open>number\<close> that holds a rating or an
  average is the rational it denotes: the decimal of the request or of the
  column. Where the code computes with such numbers, the rounding of the
  IEEE doubles is written out (\<open>binary64\<close> below); where a \<^verbatim>\<open>decimal\<close> column
  stores one, the rounding and the range of the column are
  (\<open>decimal_column\<close>). A nullable column is an \<open>option\<close>. A date is kept as the
  string it was built from. The timestamps \<^verbatim>\<open>createdAt\<close> and \<^verbatim>\<open>updatedAt\<close>
  are not fields of the rows: a table lists its rows in the order of their
  insertion, which is the order of \<^verbatim>\<open>createdAt\<close>.
\<close>

record rating =
  id :: int
  rating :: rat
  review :: "string option"
  userId :: int
  movieId :: int

record movie =
  id :: int
  tmdbId :: int
  title :: string
  overview :: string
  posterPath :: string
  backdropPath :: string
  releaseDate :: "string option"
  voteAverage :: rat
  voteCount :: int
  popularity :: rat
  genreIds :: "int list"
  genres :: "(int \<times> string) list option"
  originalLanguage :: string
  originalTitle :: string
  adult :: bool
  video :: bool
  userRatingAverage :: "rat option"
  userRatingCount :: int

text \<open>
  The relations \<^verbatim>\<open>watchlist\<close> and \<^verbatim>\<open>favorites\<close> of a user are join tables
  of (userId, movieId); the loaded relation is the list of the joined movies,
  of which the services read the id only, so the row keeps the movie ids.
\<close>

record user =
  id :: int
  username :: string
  email :: string
  password :: string
  firstName :: "string option"
  lastName :: "string option"
  isActive :: bool
  watchlist :: "int list"
  favorites :: "int list"

text \<open>Every write a repository performs is recorded in the journal of the store.\<close>

datatype db_write =
    RatingSave int
  | RatingRemove int
  | MovieSave int
  | MovieUpdate int
  | MovieUpsert int
  | UserSave int

record db =
  movies :: "movie list"
  users :: "user list"
  ratings :: "rating list"
  journal :: "db_write list"

section \<open>The repositories\<close>

text \<open>
  \<^verbatim>\<open>@PrimaryGeneratedColumn\<close>: the store hands out an identifier above every
  identifier of the table.
\<close>

fun fresh_id :: "int list \<Rightarrow> int" where
  "fresh_id [] = 1"
| "fresh_id (x # xs) = max (x + 1) (fresh_id xs)"

text \<open>\<^verbatim>\<open>findOne({ where })\<close> is the first row that satisfies the condition.\<close>

definition ratingRepository_findOne :: "(rating \<Rightarrow> bool) \<Rightarrow> db \<Rightarrow> rating option" where
  "ratingRepository_findOne P d = find P (ratings d)"

definition movieRepository_findOne :: "(movie \<Rightarrow> bool) \<Rightarrow> db \<Rightarrow> movie option" where
  "movieRepository_findOne P d = find P (movies d)"

definition userRepository_findOne :: "(user \<Rightarrow> bool) \<Rightarrow> db \<Rightarrow> user option" where
  "userRepository_findOne P d = find P (users d)"

text \<open>\<^verbatim>\<open>find({ where })\<close> is every row that satisfies the condition.\<close>

definition ratingRepository_find :: "(rating \<Rightarrow> bool) \<Rightarrow> db \<Rightarrow> rating list" where
  "ratingRepository_find P d = filter P (ratings d)"

text \<open>
  A column \<^verbatim>\<open>decimal(p, 1)\<close> of PostgreSQL, the database of the configuration:
  a value written to it is rounded to one decimal, a half away from zero,
  and the write is refused (numeric field overflow) when the rounded value
  has \<open>p\<close> or more digits before the point. \<open>decimal_column p x\<close> is the value
  that the column keeps for \<open>x\<close>, and \<open>None\<close> when the write is refused.
\<close>

definition round_half_away :: "rat \<Rightarrow> int" where
  "round_half_away x = (if 0 \<le> x then \<lfloor>x + 1 / 2\<rfloor> else - \<lfloor>- x + 1 / 2\<rfloor>)"

definition decimal_column :: "nat \<Rightarrow> rat \<Rightarrow> rat option" where
  "decimal_column p x =
     (let n = round_half_away (x * 10)
      in if \<bar>n\<bar> < 10 ^ p then Some (of_int n / 10) else None)"

text \<open>
  \<^verbatim>\<open>save\<close> of an entity that carries an id writes the row of that id (and
  inserts it when the table has none); \<^verbatim>\<open>save\<close> of an entity made by
  \<^verbatim>\<open>create\<close>, which carries no id yet, inserts a row under a fresh id. The
  second one is \<open>insert\<close> here and ignores the id field of its argument. The
  column \<^verbatim>\<open>rating\<close> is \<^verbatim>\<open>decimal(2, 1)\<close> (rating.entity.ts): the row keeps the
  rounded value, and a value that the column refuses makes the save fail
  with nothing written. The entity that \<^verbatim>\<open>save\<close> answers is the one it was
  given, with its own value.
\<close>

definition ratingRepository_save :: "rating \<Rightarrow> db \<Rightarrow> (error + rating) \<times> db" where
  "ratingRepository_save r d =
     (case decimal_column 2 (rating.rating r) of
        None \<Rightarrow> (Inl (Error [S ''QueryFailedError: numeric field overflow'']), d)
      | Some v \<Rightarrow>
          (Inr r,
           d\<lparr>ratings :=
               (if rating.id r \<in> set (map rating.id (ratings d))
                then map (\<lambda>x. if rating.id x = rating.id r then r\<lparr>rating.rating := v\<rparr> else x)
                       (ratings d)
                else ratings d @ [r\<lparr>rating.rating := v\<rparr>]),
             journal := journal d @ [RatingSave (rating.id r)]\<rparr>))"

definition ratingRepository_insert :: "rating \<Rightarrow> db \<Rightarrow> (error + rating) \<times> db" where
  "ratingRepository_insert r d =
     (let r' = r\<lparr>rating.id := fresh_id (map rating.id (ratings d))\<rparr>
      in case decimal_column 2 (rating.rating r') of
           None \<Rightarrow> (Inl (Error [S ''QueryFailedError: numeric field overflow'']), d)
         | Some v \<Rightarrow>
             (Inr r',
              d\<lparr>ratings := ratings d @ [r'\<lparr>rating.rating := v\<rparr>],
                journal := journal d @ [RatingSave (rating.id r')]\<rparr>))"


text \<open>\<^verbatim>\<open>update(id, partial)\<close> changes the given columns of the rows of that id.\<close>

definition movieRepository_update :: "int \<Rightarrow> (movie \<Rightarrow> movie) \<Rightarrow> db \<Rightarrow> db" where
  "movieRepository_update i f d =
     d\<lparr>movies := map (\<lambda>m. if movie.id m = i then f m else m) (movies d),
       journal := journal d @ [MovieUpdate i]\<rparr>"

section \<open>The movie service: rating statistics of a movie\<close>

text \<open>
  \<^verbatim>\<open>MoviesService.findOne$\<close> (movies.service.ts, 98-119).
\<close>

definition movies_findOne :: "int \<Rightarrow> db \<Rightarrow> error + movie" where
  "movies_findOne i d =
     (case movieRepository_findOne (\<lambda>m. movie.id m = i) d of
        None \<Rightarrow> Inl (NotFoundException [S ''Movie with ID '', N i, S '' not found''])
      | Some m \<Rightarrow> Inr m)"

text \<open>
  The raw query of \<^verbatim>\<open>updateRatingStatistics$\<close> (347-355): the movie of the
  given id left-joined with its ratings, selecting \<^verbatim>\<open>movie.id\<close> beside the
  aggregates \<^verbatim>\<open>AVG(rating.rating)\<close> and \<^verbatim>\<open>COUNT(rating.id)\<close> with no
  \<^verbatim>\<open>GROUP BY\<close>. PostgreSQL refuses such a select list when it reads the query
  (a selected column must be grouped or aggregated), whatever the id and
  whatever the tables hold: the query answers no row and no average, it
  fails.
\<close>

definition getRawOne_stats :: "int \<Rightarrow> db \<Rightarrow> error + (rat option \<times> int) option" where
  "getRawOne_stats i d =
     Inl (Error [S ''QueryFailedError: column movie.id must appear in the GROUP BY clause or be used in an aggregate function''])"

text \<open>
  \<^verbatim>\<open>MoviesService.updateRatingStatistics$\<close> (movies.service.ts, 346-387);
  \<^verbatim>\<open>stats.avgRating || 0\<close> turns NULL into 0. \<^verbatim>\<open>catchError\<close> logs the error and
  throws it again.
\<close>

definition updateRatingStatistics :: "int \<Rightarrow> db \<Rightarrow> (error + movie) \<times> db" where
  "updateRatingStatistics movie_id d =
     (case getRawOne_stats movie_id d of
        Inl err \<Rightarrow> (Inl err, d)
      | Inr None \<Rightarrow>
          (Inl (NotFoundException [S ''Movie with ID '', N movie_id, S '' not found'']), d)
      | Inr (Some (avgRating, ratingCount)) \<Rightarrow>
          (let d' = movieRepository_update movie_id
                      (\<lambda>m. m\<lparr>userRatingAverage :=
                                 Some (case avgRating of None \<Rightarrow> 0 | Some a \<Rightarrow> a),
                               userRatingCount := ratingCount\<rparr>) d
           in (movies_findOne movie_id d', d')))"

section \<open>The rating service\<close>

record CreateRatingDto =
  rating :: rat
  review :: "string option"

text \<open>
  \<^verbatim>\<open>a || b\<close> on an optional string: the empty string and \<^verbatim>\<open>undefined\<close> are
  falsy.
\<close>

definition or_string :: "string option \<Rightarrow> string option \<Rightarrow> string option" where
  "or_string a b = (case a of None \<Rightarrow> b | Some s \<Rightarrow> if s = [] then b else Some s)"

text \<open>\<^verbatim>\<open>RatingsService.createOrUpdate$\<close> (ratings.service.ts, 107-169).\<close>

definition createOrUpdate ::
  "int \<Rightarrow> int \<Rightarrow> CreateRatingDto \<Rightarrow> db \<Rightarrow> (error + rating) \<times> db" where
  "createOrUpdate user_id movie_id createRatingDto d =
     (let movie = movieRepository_findOne (\<lambda>m. movie.id m = movie_id) d;
          user = userRepository_findOne (\<lambda>u. user.id u = user_id) d;
          existingRating =
            ratingRepository_findOne
              (\<lambda>r. rating.userId r = user_id \<and> rating.movieId r = movie_id) d
      in case movie of
           None \<Rightarrow>
             (Inl (NotFoundException [S ''Movie with ID '', N movie_id, S '' not found'']), d)
         | Some m \<Rightarrow>
            (case user of
               None \<Rightarrow>
                 (Inl (NotFoundException [S ''User with ID '', N user_id, S '' not found'']), d)
             | Some u \<Rightarrow>
                (case (case existingRating of
                         Some e \<Rightarrow>
                           ratingRepository_save
                             (e\<lparr>rating.rating := CreateRatingDto.rating createRatingDto,
                                rating.review :=
                                  or_string (CreateRatingDto.review createRatingDto)
                                    (rating.review e)\<rparr>) d
                       | None \<Rightarrow>
                           ratingRepository_insert
                             \<lparr>rating.id = 0,
                              rating.rating = CreateRatingDto.rating createRatingDto,
                              rating.review = CreateRatingDto.review createRatingDto,
                              rating.userId = user_id,
                              rating.movieId = movie_id\<rparr> d) of
                   (Inl err, d1) \<Rightarrow> (Inl err, d1)
                 | (Inr saved, d1) \<Rightarrow>
                     (case updateRatingStatistics movie_id d1 of
                        (Inl err, d2) \<Rightarrow> (Inl err, d2)
                      | (Inr _, d2) \<Rightarrow> (Inr saved, d2)))))"

text \<open>
  \<^verbatim>\<open>findByMovie$\<close> (174-195), with \<^verbatim>\<open>order: { createdAt: 'DESC' }\<close>: the rows
  of the movie, the one inserted last first.
\<close>

definition findByMovie :: "int \<Rightarrow> db \<Rightarrow> rating list" where
  "findByMovie movie_id d =
     rev (ratingRepository_find (\<lambda>r. rating.movieId r = movie_id) d)"


text \<open>
  \<^verbatim>\<open>UpdateRatingDto\<close> is declared in \<^verbatim>\<open>ratings/dto\<close>, which is not among the
  sources; \<^verbatim>\<open>update$\<close> reads its two optional fields \<^verbatim>\<open>rating\<close> and
  \<^verbatim>\<open>review\<close>, and \<open>None\<close> is \<^verbatim>\<open>undefined\<close>.
\<close>

record UpdateRatingDto =
  rating :: "rat option"
  review :: "string option"



text \<open>
  \<^verbatim>\<open>RatingStatsDto\<close> (rating-response.dto.ts, 3-12). The keys of the
  distribution are the strings \<^verbatim>\<open>Math.floor(...).toString()\<close>; a key is kept
  as the integer it prints.
\<close>

record RatingStatsDto =
  average :: rat
  count :: nat
  distribution :: "int \<rightharpoonup> nat"

text \<open>
  The numbers of JavaScript are IEEE doubles (binary64): 53 significant
  bits, and every operation answers the double nearest to the exact result,
  a tie going to the even significand. \<open>binary64 x\<close> is that double for the
  exact value \<open>x\<close>; \<open>exponent x\<close> is the integer \<open>e\<close> with
  \<open>2 ^ e \<le> x < 2 ^ (e + 1)\<close> for a positive \<open>x\<close>. The limits of the exponent
  (overflow, subnormal numbers) are out of reach of ratings and are left
  out.
\<close>

fun ilog2 :: "nat \<Rightarrow> nat" where
  "ilog2 n = (if n < 2 then 0 else Suc (ilog2 (n div 2)))"

declare ilog2.simps [simp del]

definition exponent :: "rat \<Rightarrow> int" where
  "exponent x =
     (if 1 \<le> x then int (ilog2 (nat \<lfloor>x\<rfloor>))
      else - int (Suc (ilog2 (nat (\<lceil>1 / x\<rceil> - 1)))))"

definition round_half_even :: "rat \<Rightarrow> int" where
  "round_half_even y =
     (let f = \<lfloor>y\<rfloor>; r = y - of_int f
      in if r < 1 / 2 then f else if 1 / 2 < r then f + 1 else if even f then f else f + 1)"

definition pow2 :: "int \<Rightarrow> rat" where
  "pow2 e = (if 0 \<le> e then 2 ^ nat e else 1 / 2 ^ nat (- e))"

definition binary64 :: "rat \<Rightarrow> rat" where
  "binary64 x =
     (if x = 0 then 0
      else (let ulp = pow2 (exponent \<bar>x\<bar> - 52)
            in of_int (round_half_even (x / ulp)) * ulp))"

text \<open>
  \<^verbatim>\<open>Math.round\<close> answers the integer nearest to a double, a half upwards;
  \<^verbatim>\<open>Math.floor\<close> is the floor.
\<close>

definition Math_round :: "rat \<Rightarrow> int" where
  "Math_round x = \<lfloor>x + 1 / 2\<rfloor>"

text \<open>
  The step of the second \<^verbatim>\<open>reduce\<close>: \<^verbatim>\<open>acc[key] = (acc[key] || 0) + 1\<close> with
  the key \<^verbatim>\<open>Math.floor(Number(rating.rating))\<close>. The driver answers a decimal
  column as the string of its value, and \<^verbatim>\<open>Number\<close> of it is the nearest
  double.
\<close>

definition tally :: "(int \<rightharpoonup> nat) \<Rightarrow> rating \<Rightarrow> (int \<rightharpoonup> nat)" where
  "tally acc r =
     (let key = \<lfloor>binary64 (rating.rating r)\<rfloor>
      in acc(key \<mapsto> (case acc key of None \<Rightarrow> 0 | Some c \<Rightarrow> c) + 1))"

text \<open>
  \<^verbatim>\<open>RatingsService.getMovieRatingStats$\<close> (359-400):
  \<^verbatim>\<open>sum = ratings.reduce((acc, r) => acc + Number(r.rating), 0)\<close>,
  \<^verbatim>\<open>average = sum / ratings.length\<close> and \<^verbatim>\<open>Math.round(average * 10) / 10\<close>, every
  operation on doubles. The \<^verbatim>\<open>catchError\<close> answers a failure of the query,
  which the store here does not have.
\<close>

definition getMovieRatingStats :: "int \<Rightarrow> db \<Rightarrow> RatingStatsDto" where
  "getMovieRatingStats movie_id d =
     (let rs = findByMovie movie_id d
      in if length rs = 0
         then \<lparr>average = 0, count = 0, distribution = Map.empty\<rparr>
         else
           (let sum = foldl (\<lambda>acc r. binary64 (acc + binary64 (rating.rating r))) 0 rs;
                average = binary64 (sum / of_nat (length rs));
                distribution = foldl tally Map.empty rs
            in \<lparr>average = binary64 (of_int (Math_round (binary64 (average * 10))) / 10),
                count = length rs,
                distribution = distribution\<rparr>))"

text \<open>
  The primary key of the table of ratings, and the constraint
  \<^verbatim>\<open>@Unique(['user', 'movie'])\<close> of the entity.
\<close>

definition ids_distinct :: "db \<Rightarrow> bool" where
  "ids_distinct d = distinct (map rating.id (ratings d))"

definition one_rating_per_pair :: "db \<Rightarrow> bool" where
  "one_rating_per_pair d = distinct (map (\<lambda>r. (rating.userId r, rating.movieId r)) (ratings d))"

text \<open>
  The row of a rating after \<^verbatim>\<open>update$\<close> has applied the fields that the
  request defines.
\<close>

definition apply_update :: "UpdateRatingDto \<Rightarrow> rating \<Rightarrow> rating" where
  "apply_update dto r =
     r\<lparr>rating.rating :=
         (case UpdateRatingDto.rating dto of None \<Rightarrow> rating.rating r | Some v \<Rightarrow> v),
       rating.review :=
         (case UpdateRatingDto.review dto of None \<Rightarrow> rating.review r | Some t \<Rightarrow> Some t)\<rparr>"

section \<open>The user service\<close>

text \<open>
  The hook \<^verbatim>\<open>hashPassword\<close> of the user entity (user.entity.ts, 70-76), run
  before an insert and before an update. \<^verbatim>\<open>bcrypt.hash(password, 10)\<close> is the
  parameter \<open>hash\<close>.
\<close>

definition hashPassword :: "(string \<Rightarrow> string) \<Rightarrow> user \<Rightarrow> user" where
  "hashPassword hash u =
     (if user.password u \<noteq> [] \<and> take 4 (user.password u) \<noteq> ''$2b$''
      then u\<lparr>user.password := hash (user.password u)\<rparr>
      else u)"

definition userRepository_save :: "(string \<Rightarrow> string) \<Rightarrow> user \<Rightarrow> db \<Rightarrow> user \<times> db" where
  "userRepository_save hash u d =
     (let u' = hashPassword hash u
      in (u', d\<lparr>users :=
                   (if user.id u' \<in> set (map user.id (users d))
                    then map (\<lambda>x. if user.id x = user.id u' then u' else x) (users d)
                    else users d @ [u']),
                 journal := journal d @ [UserSave (user.id u')]\<rparr>))"

definition userRepository_insert :: "(string \<Rightarrow> string) \<Rightarrow> user \<Rightarrow> db \<Rightarrow> user \<times> db" where
  "userRepository_insert hash u d =
     (let u' = (hashPassword hash u)\<lparr>user.id := fresh_id (map user.id (users d))\<rparr>
      in (u', d\<lparr>users := users d @ [u'],
                 journal := journal d @ [UserSave (user.id u')]\<rparr>))"

text \<open>\<^verbatim>\<open>CreateUserDto\<close> (create-user.dto.ts).\<close>

record CreateUserDto =
  username :: string
  email :: string
  password :: string
  firstName :: "string option"
  lastName :: "string option"

text \<open>
  \<^verbatim>\<open>UsersService.create$\<close> (users.service.ts, 51-87). The new entity has the
  fields of the request; \<^verbatim>\<open>isActive\<close> takes its column default and the two
  relations are empty.
\<close>

definition users_create ::
  "(string \<Rightarrow> string) \<Rightarrow> CreateUserDto \<Rightarrow> db \<Rightarrow> (error + user) \<times> db" where
  "users_create hash createUserDto d =
     (let existingUsername =
            userRepository_findOne
              (\<lambda>u. user.username u = CreateUserDto.username createUserDto) d;
          existingEmail =
            userRepository_findOne
              (\<lambda>u. user.email u = CreateUserDto.email createUserDto) d
      in if existingUsername \<noteq> None
         then (Inl (ConflictException [S ''Username already exists'']), d)
         else if existingEmail \<noteq> None
         then (Inl (ConflictException [S ''Email already exists'']), d)
         else
           (let (saved, d') =
                  userRepository_insert hash
                    \<lparr>user.id = 0,
                     user.username = CreateUserDto.username createUserDto,
                     user.email = CreateUserDto.email createUserDto,
                     user.password = CreateUserDto.password createUserDto,
                     user.firstName = CreateUserDto.firstName createUserDto,
                     user.lastName = CreateUserDto.lastName createUserDto,
                     user.isActive = True,
                     user.watchlist = [],
                     user.favorites = []\<rparr> d
            in (Inr saved, d')))"

text \<open>
  \<^verbatim>\<open>UsersService.findOne$\<close> (109-130); the relations are loaded, so the lists
  \<^verbatim>\<open>watchlist\<close> and \<^verbatim>\<open>favorites\<close> of the result are always defined, and the
  tests \<^verbatim>\<open>!user.watchlist\<close> and \<^verbatim>\<open>!user.favorites\<close> of the callers are never
  true.
\<close>

definition users_findOne :: "int \<Rightarrow> db \<Rightarrow> error + user" where
  "users_findOne i d =
     (case userRepository_findOne (\<lambda>u. user.id u = i) d of
        None \<Rightarrow> Inl (NotFoundException [S ''User with ID '', N i, S '' not found''])
      | Some u \<Rightarrow> Inr u)"

text \<open>\<^verbatim>\<open>UsersService.addToWatchlist$\<close> (255-292).\<close>

definition addToWatchlist ::
  "(string \<Rightarrow> string) \<Rightarrow> int \<Rightarrow> int \<Rightarrow> db \<Rightarrow> (error + user) \<times> db" where
  "addToWatchlist hash user_id movie_id d =
     (case users_findOne user_id d of
        Inl err \<Rightarrow> (Inl err, d)
      | Inr u \<Rightarrow>
          (case movieRepository_findOne (\<lambda>m. movie.id m = movie_id) d of
             None \<Rightarrow>
               (Inl (NotFoundException [S ''Movie with ID '', N movie_id, S '' not found'']), d)
           | Some m \<Rightarrow>
               (let isInWatchlist = (\<exists>x\<in>set (user.watchlist u). x = movie_id)
                in if isInWatchlist then (Inr u, d)
                   else
                     (let (saved, d') =
                            userRepository_save hash
                              (u\<lparr>user.watchlist := user.watchlist u @ [movie.id m]\<rparr>) d
                      in (Inr saved, d')))))"

text \<open>\<^verbatim>\<open>UsersService.removeFromWatchlist$\<close> (297-319).\<close>

definition removeFromWatchlist ::
  "(string \<Rightarrow> string) \<Rightarrow> int \<Rightarrow> int \<Rightarrow> db \<Rightarrow> (error + user) \<times> db" where
  "removeFromWatchlist hash user_id movie_id d =
     (case users_findOne user_id d of
        Inl err \<Rightarrow> (Inl err, d)
      | Inr u \<Rightarrow>
          (let (saved, d') =
                 userRepository_save hash
                   (u\<lparr>user.watchlist := filter (\<lambda>x. x \<noteq> movie_id) (user.watchlist u)\<rparr>) d
           in (Inr saved, d')))"

text \<open>\<^verbatim>\<open>UsersService.addToFavorites$\<close> (342-379).\<close>

definition addToFavorites ::
  "(string \<Rightarrow> string) \<Rightarrow> int \<Rightarrow> int \<Rightarrow> db \<Rightarrow> (error + user) \<times> db" where
  "addToFavorites hash user_id movie_id d =
     (case users_findOne user_id d of
        Inl err \<Rightarrow> (Inl err, d)
      | Inr u \<Rightarrow>
          (case movieRepository_findOne (\<lambda>m. movie.id m = movie_id) d of
             None \<Rightarrow>
               (Inl (NotFoundException [S ''Movie with ID '', N movie_id, S '' not found'']), d)
           | Some m \<Rightarrow>
               (let isInFavorites = (\<exists>x\<in>set (user.favorites u). x = movie_id)
                in if isInFavorites then (Inr u, d)
                   else
                     (let (saved, d') =
                            userRepository_save hash
                              (u\<lparr>user.favorites := user.favorites u @ [movie.id m]\<rparr>) d
                      in (Inr saved, d')))))"

text \<open>\<^verbatim>\<open>UsersService.removeFromFavorites$\<close> (384-406).\<close>

definition removeFromFavorites ::
  "(string \<Rightarrow> string) \<Rightarrow> int \<Rightarrow> int \<Rightarrow> db \<Rightarrow> (error + user) \<times> db" where
  "removeFromFavorites hash user_id movie_id d =
     (case users_findOne user_id d of
        Inl err \<Rightarrow> (Inl err, d)
      | Inr u \<Rightarrow>
          (let (saved, d') =
                 userRepository_save hash
                   (u\<lparr>user.favorites := filter (\<lambda>x. x \<noteq> movie_id) (user.favorites u)\<rparr>) d
           in (Inr saved, d')))"

text \<open>
  A JavaScript object as the list of its own properties. The user entity
  that \<^verbatim>\<open>getOne\<close> loads has its columns as properties (the relations are not
  loaded, the methods live on the prototype); the two timestamps are left out
  as everywhere.
\<close>

datatype js = JNum int | JStr string | JBool bool | JNull

type_synonym object = "(string \<times> js) list"

definition js_of_option :: "string option \<Rightarrow> js" where
  "js_of_option x = (case x of None \<Rightarrow> JNull | Some t \<Rightarrow> JStr t)"

definition user_object :: "user \<Rightarrow> object" where
  "user_object u =
     [(''id'', JNum (user.id u)),
      (''username'', JStr (user.username u)),
      (''email'', JStr (user.email u)),
      (''password'', JStr (user.password u)),
      (''firstName'', js_of_option (user.firstName u)),
      (''lastName'', js_of_option (user.lastName u)),
      (''isActive'', JBool (user.isActive u))]"

text \<open>The rest pattern \<^verbatim>\<open>const { key: _, ...rest } = obj\<close>.\<close>

definition rest_without :: "string \<Rightarrow> object \<Rightarrow> object" where
  "rest_without key obj = filter (\<lambda>(k, v). k \<noteq> key) obj"

text \<open>\<^verbatim>\<open>UsersService.findByUsernameOrEmail$\<close> (135-160).\<close>

definition findByUsernameOrEmail :: "string \<Rightarrow> db \<Rightarrow> error + user" where
  "findByUsernameOrEmail usernameOrEmail d =
     (case userRepository_findOne
             (\<lambda>u. user.username u = usernameOrEmail \<or> user.email u = usernameOrEmail) d of
        None \<Rightarrow> Inl (NotFoundException [S ''User not found''])
      | Some u \<Rightarrow> Inr u)"

text \<open>
  \<^verbatim>\<open>UsersService.validateUser$\<close> (199-219); \<^verbatim>\<open>bcrypt.compare\<close> is the parameter
  \<open>compare\<close>. Every error becomes \<^verbatim>\<open>UnauthorizedException('Invalid credentials')\<close>.
\<close>

definition validateUser ::
  "(string \<Rightarrow> string \<Rightarrow> bool) \<Rightarrow> string \<Rightarrow> string \<Rightarrow> db \<Rightarrow> error + user" where
  "validateUser compare name pw d =
     (case findByUsernameOrEmail name d of
        Inl err \<Rightarrow> Inl (UnauthorizedException [S ''Invalid credentials''])
      | Inr u \<Rightarrow>
          (let isValid = compare pw (user.password u)
           in if \<not> isValid then Inl (UnauthorizedException [S ''Invalid credentials''])
              else Inr u))"

record AuthResponse =
  user :: object
  accessToken :: string

text \<open>
  \<^verbatim>\<open>UsersService.login$\<close> (224-250); \<^verbatim>\<open>jwtService.sign\<close> is the parameter \<open>sign\<close>.
\<close>

definition login ::
  "(object \<Rightarrow> string) \<Rightarrow> (string \<Rightarrow> string \<Rightarrow> bool) \<Rightarrow> string \<Rightarrow> string \<Rightarrow> db
     \<Rightarrow> error + AuthResponse" where
  "login sign compare name pw d =
     (case validateUser compare name pw d of
        Inl err \<Rightarrow> Inl err
      | Inr u \<Rightarrow>
          (let payload = [(''sub'', JNum (user.id u)),
                          (''username'', JStr (user.username u)),
                          (''email'', JStr (user.email u))];
               accessToken = sign payload;
               userWithoutPassword = rest_without ''password'' (user_object u)
           in Inr \<lparr>user = userWithoutPassword, accessToken = accessToken\<rparr>))"

section \<open>The TMDB client\<close>

text \<open>
  What a run of the client or of the sync job does besides computing its
  result: the HTTP requests (numbered from 0 within one fetch), the waits,
  the lines of the logger, and the saves of the sync job.
\<close>

datatype event =
    Request nat
  | Delay nat
  | LogInfo message
  | LogWarn message
  | LogError message
  | LogDebug message
  | SaveStart int
  | SaveEnd int bool

text \<open>
  The operator \<^verbatim>\<open>retry({ count, delay })\<close> of RxJS around a source that emits one
  value or fails: the source is subscribed again after a failure while fewer
  than \<open>count\<close> failures have been seen, after waiting for
  \<^verbatim>\<open>delay(error, retryCount)\<close>, where \<open>retryCount\<close> is the number of failures so
  far; otherwise the error goes on. \<open>source n\<close> is the outcome of the
  subscription number \<open>n\<close>, \<open>left\<close> the number of retries that remain and
  \<open>soFar\<close> the number of failures seen.
\<close>

fun retry ::
  "nat \<Rightarrow> (nat \<Rightarrow> event list) \<Rightarrow> (nat \<Rightarrow> event list \<times> ('e + 'a)) \<Rightarrow> nat
     \<Rightarrow> event list \<times> ('e + 'a)" where
  "retry 0 delay source soFar = source soFar"
| "retry (Suc left) delay source soFar =
     (case source soFar of
        (ev, Inr v) \<Rightarrow> (ev, Inr v)
      | (ev, Inl err) \<Rightarrow>
          (let (ev', res) = retry left delay source (Suc soFar)
           in (ev @ delay (Suc soFar) @ ev', res)))"

text \<open>
  The shape shared by the fetch operations of \<^verbatim>\<open>TmdbService\<close>
  (tmdb.service.ts, 87-307):
  \<^verbatim>\<open>httpService.get(...).pipe(map, tap(log), retry({ count: 3, delay }), catchError(log; rethrow))\<close>.
  \<open>http n\<close> is the outcome of the request number \<open>n\<close>, \<open>fetched\<close> the line logged
  for a response, \<open>warn\<close> the warnings that the delay callback logs before it
  returns \<^verbatim>\<open>timer(1000 * retryCount)\<close>, and \<open>failed\<close> the line logged by
  \<^verbatim>\<open>catchError\<close>.
\<close>

definition tmdb_fetch ::
  "('a \<Rightarrow> message) \<Rightarrow> (nat \<Rightarrow> message list) \<Rightarrow> message \<Rightarrow> (nat \<Rightarrow> 'e + 'a)
     \<Rightarrow> event list \<times> ('e + 'a)" where
  "tmdb_fetch fetched warn failed http =
     (let source = (\<lambda>n. case http n of
                          Inr v \<Rightarrow> ([Request n, LogInfo (fetched v)], Inr v)
                        | Inl err \<Rightarrow> ([Request n], Inl err));
          (ev, res) = retry 3 (\<lambda>retryCount. map LogWarn (warn retryCount) @ [Delay (1000 * retryCount)])
                        source 0
      in case res of
           Inr v \<Rightarrow> (ev, Inr v)
         | Inl err \<Rightarrow> (ev @ [LogError failed], Inl err))"

text \<open>
  The movie of the TMDB interface (tmdb.service.ts, 31-63). \<^verbatim>\<open>TmdbMovieDetails\<close>
  extends \<^verbatim>\<open>TmdbMovie\<close>; of what it adds the services read \<^verbatim>\<open>genres\<close> only,
  which is \<open>None\<close> in a plain \<^verbatim>\<open>TmdbMovie\<close>. \<^verbatim>\<open>genre_ids\<close> is optional because
  the code provides for its absence.
\<close>

record TmdbMovie =
  id :: int
  title :: string
  overview :: string
  poster_path :: string
  backdrop_path :: string
  release_date :: string
  vote_average :: rat
  vote_count :: int
  popularity :: rat
  genre_ids :: "int list option"
  original_language :: string
  original_title :: string
  adult :: bool
  video :: bool
  genres :: "(int \<times> string) list option"

record TmdbResponse =
  page :: int
  results :: "TmdbMovie list"
  total_pages :: int
  total_results :: int

text \<open>
  The fetch operations. The first argument is the server: the outcome of the
  request number \<open>n\<close> of the operation with the given parameters.
\<close>

definition getPopularMovies ::
  "(int \<Rightarrow> nat \<Rightarrow> 'e + TmdbResponse) \<Rightarrow> int \<Rightarrow> event list \<times> ('e + TmdbResponse)" where
  "getPopularMovies http pg =
     tmdb_fetch
       (\<lambda>data. [S ''Fetched '', N (int (length (results data))), S '' popular movies''])
       (\<lambda>retryCount. [[S ''Retry attempt '', N (int retryCount), S '' for popular movies'']])
       [S ''Error fetching popular movies''] (http pg)"

definition getTopRatedMovies ::
  "(int \<Rightarrow> nat \<Rightarrow> 'e + TmdbResponse) \<Rightarrow> int \<Rightarrow> event list \<times> ('e + TmdbResponse)" where
  "getTopRatedMovies http pg =
     tmdb_fetch
       (\<lambda>data. [S ''Fetched '', N (int (length (results data))), S '' top-rated movies''])
       (\<lambda>retryCount. [])
       [S ''Error fetching top-rated movies''] (http pg)"

definition getNowPlayingMovies ::
  "(int \<Rightarrow> nat \<Rightarrow> 'e + TmdbResponse) \<Rightarrow> int \<Rightarrow> event list \<times> ('e + TmdbResponse)" where
  "getNowPlayingMovies http pg =
     tmdb_fetch
       (\<lambda>data. [S ''Fetched '', N (int (length (results data))), S '' now playing movies''])
       (\<lambda>retryCount. [])
       [S ''Error fetching now playing movies''] (http pg)"

definition getUpcomingMovies ::
  "(int \<Rightarrow> nat \<Rightarrow> 'e + TmdbResponse) \<Rightarrow> int \<Rightarrow> event list \<times> ('e + TmdbResponse)" where
  "getUpcomingMovies http pg =
     tmdb_fetch
       (\<lambda>data. [S ''Fetched '', N (int (length (results data))), S '' upcoming movies''])
       (\<lambda>retryCount. [])
       [S ''Error fetching upcoming movies''] (http pg)"

definition getMovieDetails ::
  "(int \<Rightarrow> nat \<Rightarrow> 'e + TmdbMovie) \<Rightarrow> int \<Rightarrow> event list \<times> ('e + TmdbMovie)" where
  "getMovieDetails http movie_id =
     tmdb_fetch
       (\<lambda>movie. [S ''Fetched details for movie: '', S (TmdbMovie.title movie)])
       (\<lambda>retryCount. [])
       [S ''Error fetching movie '', N movie_id, S '' details''] (http movie_id)"

definition searchMovies ::
  "(string \<Rightarrow> int \<Rightarrow> nat \<Rightarrow> 'e + TmdbResponse) \<Rightarrow> string \<Rightarrow> int
     \<Rightarrow> event list \<times> ('e + TmdbResponse)" where
  "searchMovies http query pg =
     tmdb_fetch
       (\<lambda>data. [S ''Found '', N (total_results data), S '' movies for query: '', S query])
       (\<lambda>retryCount. [])
       [S ''Error searching movies for query: '', S query] (http query pg)"

definition discoverMovies ::
  "('p \<Rightarrow> nat \<Rightarrow> 'e + TmdbResponse) \<Rightarrow> 'p \<Rightarrow> event list \<times> ('e + TmdbResponse)" where
  "discoverMovies http params =
     tmdb_fetch
       (\<lambda>data. [S ''Discovered '', N (int (length (results data))), S '' movies''])
       (\<lambda>retryCount. [])
       [S ''Error discovering movies''] (http params)"

definition getGenres ::
  "(nat \<Rightarrow> 'e + (int \<times> string) list) \<Rightarrow> event list \<times> ('e + (int \<times> string) list)" where
  "getGenres http =
     tmdb_fetch
       (\<lambda>genres. [S ''Fetched '', N (int (length genres)), S '' genres''])
       (\<lambda>retryCount. [])
       [S ''Error fetching genres''] http"

text \<open>The waits of a run.\<close>

fun delays :: "event list \<Rightarrow> nat list" where
  "delays [] = []"
| "delays (Delay ms # es) = ms # delays es"
| "delays (e # es) = delays es"

text \<open>
  The requests and the waits of a run together, in the order in which they
  happen, and the lines that a run logs as errors.
\<close>

definition timeline :: "event list \<Rightarrow> event list" where
  "timeline ev =
     filter (\<lambda>e. case e of Request n \<Rightarrow> True | Delay ms \<Rightarrow> True | _ \<Rightarrow> False) ev"

definition logged_errors :: "event list \<Rightarrow> message list" where
  "logged_errors ev = concat (map (\<lambda>e. case e of LogError m \<Rightarrow> [m] | _ \<Rightarrow> []) ev)"

text \<open>
  Retry with linear backoff as the specification words it, for a server
  \<open>http\<close> and a run of a fetch operation. \<open>retries http\<close> is the number of
  retries that the server asks for: one for each failure before the first
  success, and 3 at most. \<open>backoff k\<close> is the first request followed by \<open>k\<close>
  retries, the retry number \<open>j\<close> right after a wait of \<open>j * 1000\<close> ms.
  \<open>spec_retry_backoff\<close> says that the requests and the waits of the run are
  those and no others, that the outcome of the run is the outcome of the
  last request, and that when this one has failed too (the retries are
  exhausted) the run ends with the line \<open>failed\<close> of the logger, the only
  error it logs, while a run that succeeds logs no error.
\<close>

definition retries :: "(nat \<Rightarrow> 'e + 'a) \<Rightarrow> nat" where
  "retries http =
     (if \<not> isl (http 0) then 0
      else if \<not> isl (http 1) then 1
      else if \<not> isl (http 2) then 2 else 3)"

definition backoff :: "nat \<Rightarrow> event list" where
  "backoff k = Request 0 # concat (map (\<lambda>j. [Delay (j * 1000), Request j]) [1..<Suc k])"

definition spec_retry_backoff ::
  "message \<Rightarrow> (nat \<Rightarrow> 'e + 'a) \<Rightarrow> event list \<times> ('e + 'a) \<Rightarrow> bool" where
  "spec_retry_backoff failed http run =
     (timeline (fst run) = backoff (retries http) \<and>
      snd run = http (retries http) \<and>
      (isl (http (retries http)) \<longrightarrow>
         logged_errors (fst run) = [failed] \<and> last (fst run) = LogError failed) \<and>
      (\<not> isl (http (retries http)) \<longrightarrow> logged_errors (fst run) = []))"

section \<open>The sync service\<close>

text \<open>
  The columns \<^verbatim>\<open>voteAverage\<close>, \<^verbatim>\<open>popularity\<close> and \<^verbatim>\<open>userRatingAverage\<close> of a
  movie are \<^verbatim>\<open>decimal(3, 1)\<close> (movie.entity.ts): \<open>decimal_columns m\<close> is the row
  as these columns keep it, and \<open>None\<close> when one of them refuses its value.
\<close>

definition decimal_columns :: "movie \<Rightarrow> movie option" where
  "decimal_columns m =
     (case decimal_column 3 (movie.voteAverage m) of
        None \<Rightarrow> None
      | Some va \<Rightarrow>
          (case decimal_column 3 (movie.popularity m) of
             None \<Rightarrow> None
           | Some po \<Rightarrow>
               (case movie.userRatingAverage m of
                  None \<Rightarrow> Some (m\<lparr>movie.voteAverage := va, movie.popularity := po\<rparr>)
                | Some a \<Rightarrow>
                    (case decimal_column 3 a of
                       None \<Rightarrow> None
                     | Some ua \<Rightarrow>
                         Some (m\<lparr>movie.voteAverage := va, movie.popularity := po,
                                  movie.userRatingAverage := Some ua\<rparr>)))))"

text \<open>
  The store may refuse a row of a movie for a reason that the rows do not
  show (a lost connection, say): \<open>rejects\<close> says which rows; it also refuses
  a value that a decimal column cannot keep, and an insert of a \<^verbatim>\<open>tmdbId\<close>
  that the table has (the column is unique). A save that fails writes
  nothing. In the object given to \<^verbatim>\<open>save\<close> the release date \<open>None\<close> is
  \<^verbatim>\<open>undefined\<close>, and a property that is \<^verbatim>\<open>undefined\<close> leaves its column as it
  is. \<^verbatim>\<open>save\<close> answers the object it was given, with the generated id after
  an insert.
\<close>

definition movieRepository_save ::
  "(movie \<Rightarrow> bool) \<Rightarrow> movie \<Rightarrow> db \<Rightarrow> (error + movie) \<times> db" where
  "movieRepository_save rejects m d =
     (if rejects m then (Inl (Error [S ''QueryFailedError'']), d)
      else case decimal_columns m of
             None \<Rightarrow> (Inl (Error [S ''QueryFailedError: numeric field overflow'']), d)
           | Some row \<Rightarrow>
               (Inr m,
                d\<lparr>movies :=
                    (if movie.id m \<in> set (map movie.id (movies d))
                     then map (\<lambda>x. if movie.id x = movie.id m
                                   then row\<lparr>movie.releaseDate :=
                                              (case movie.releaseDate m of
                                                 None \<Rightarrow> movie.releaseDate x
                                               | Some date \<Rightarrow> Some date)\<rparr>
                                   else x) (movies d)
                     else movies d @ [row]),
                  journal := journal d @ [MovieSave (movie.id m)]\<rparr>))"

definition movieRepository_insert ::
  "(movie \<Rightarrow> bool) \<Rightarrow> movie \<Rightarrow> db \<Rightarrow> (error + movie) \<times> db" where
  "movieRepository_insert rejects m d =
     (let m' = m\<lparr>movie.id := fresh_id (map movie.id (movies d))\<rparr>
      in if rejects m' then (Inl (Error [S ''QueryFailedError'']), d)
         else if movie.tmdbId m' \<in> set (map movie.tmdbId (movies d))
         then (Inl (Error [S ''QueryFailedError: duplicate key value'']), d)
         else case decimal_columns m' of
                None \<Rightarrow> (Inl (Error [S ''QueryFailedError: numeric field overflow'']), d)
              | Some row \<Rightarrow>
                  (Inr m', d\<lparr>movies := movies d @ [row],
                            journal := journal d @ [MovieSave (movie.id m')]\<rparr>))"

text \<open>
  \<^verbatim>\<open>upsert(values, ['tmdbId'])\<close>: an insert that, when the table has a row of
  that \<^verbatim>\<open>tmdbId\<close>, updates it instead, in the columns whose value is defined
  in \<open>values\<close>. These are the columns that \<^verbatim>\<open>syncFromTmdb$\<close> gives; the release
  date and the genres may be \<^verbatim>\<open>undefined\<close> (\<open>None\<close>) there.
\<close>

definition movieRepository_upsert ::
  "(movie \<Rightarrow> bool) \<Rightarrow> movie \<Rightarrow> db \<Rightarrow> (error + unit) \<times> db" where
  "movieRepository_upsert rejects m d =
     (if rejects m then (Inl (Error [S ''QueryFailedError'']), d)
      else case decimal_columns m of
             None \<Rightarrow> (Inl (Error [S ''QueryFailedError: numeric field overflow'']), d)
           | Some row \<Rightarrow>
               (Inr (),
                d\<lparr>movies :=
                    (if movie.tmdbId m \<in> set (map movie.tmdbId (movies d))
                     then map (\<lambda>x. if movie.tmdbId x = movie.tmdbId m
                                   then x\<lparr>movie.title := movie.title row,
                                          movie.overview := movie.overview row,
                                          movie.posterPath := movie.posterPath row,
                                          movie.backdropPath := movie.backdropPath row,
                                          movie.releaseDate :=
                                            (case movie.releaseDate row of
                                               None \<Rightarrow> movie.releaseDate x
                                             | Some date \<Rightarrow> Some date),
                                          movie.voteAverage := movie.voteAverage row,
                                          movie.voteCount := movie.voteCount row,
                                          movie.popularity := movie.popularity row,
                                          movie.genreIds := movie.genreIds row,
                                          movie.genres :=
                                            (case movie.genres row of
                                               None \<Rightarrow> movie.genres x
                                             | Some g \<Rightarrow> Some g),
                                          movie.originalLanguage := movie.originalLanguage row,
                                          movie.originalTitle := movie.originalTitle row,
                                          movie.adult := movie.adult row,
                                          movie.video := movie.video row\<rparr>
                                   else x) (movies d)
                     else movies d @ [row\<lparr>movie.id := fresh_id (map movie.id (movies d))\<rparr>]),
                  journal := journal d @ [MovieUpsert (movie.tmdbId m)]\<rparr>))"

text \<open>
  \<^verbatim>\<open>TmdbSyncService.saveMovie\<close> (tmdb-sync.service.ts, 125-178). The object
  saved for a movie that exists is \<^verbatim>\<open>{...existingMovie, ...movieData, ...}\<close>:
  its release date is \<^verbatim>\<open>undefined\<close> when TMDB gives none, and its genres are
  those of the existing movie when the TMDB movie has none. A new movie
  takes the column defaults for the user rating fields.
\<close>

definition saveMovie ::
  "(movie \<Rightarrow> bool) \<Rightarrow> TmdbMovie \<Rightarrow> db \<Rightarrow> (error + movie) \<times> db" where
  "saveMovie rejects tmdbMovie d =
     (case movieRepository_findOne (\<lambda>m. movie.tmdbId m = TmdbMovie.id tmdbMovie) d of
        Some existingMovie \<Rightarrow>
          movieRepository_save rejects
            (existingMovie
               \<lparr>movie.tmdbId := TmdbMovie.id tmdbMovie,
                movie.title := TmdbMovie.title tmdbMovie,
                movie.overview := TmdbMovie.overview tmdbMovie,
                movie.posterPath := poster_path tmdbMovie,
                movie.backdropPath := backdrop_path tmdbMovie,
                movie.releaseDate :=
                  (if release_date tmdbMovie \<noteq> [] then Some (release_date tmdbMovie)
                   else None),
                movie.voteAverage := vote_average tmdbMovie,
                movie.voteCount := vote_count tmdbMovie,
                movie.popularity := TmdbMovie.popularity tmdbMovie,
                movie.genreIds := (case genre_ids tmdbMovie of None \<Rightarrow> [] | Some g \<Rightarrow> g),
                movie.originalLanguage := original_language tmdbMovie,
                movie.originalTitle := original_title tmdbMovie,
                movie.adult := TmdbMovie.adult tmdbMovie,
                movie.video := TmdbMovie.video tmdbMovie,
                movie.genres :=
                  (case TmdbMovie.genres tmdbMovie of
                     None \<Rightarrow> movie.genres existingMovie
                   | Some g \<Rightarrow> Some g),
                movie.userRatingAverage := movie.userRatingAverage existingMovie,
                movie.userRatingCount := movie.userRatingCount existingMovie\<rparr>) d
      | None \<Rightarrow>
          movieRepository_insert rejects
            \<lparr>movie.id = 0,
             movie.tmdbId = TmdbMovie.id tmdbMovie,
             movie.title = TmdbMovie.title tmdbMovie,
             movie.overview = TmdbMovie.overview tmdbMovie,
             movie.posterPath = poster_path tmdbMovie,
             movie.backdropPath = backdrop_path tmdbMovie,
             movie.releaseDate =
               (if release_date tmdbMovie \<noteq> [] then Some (release_date tmdbMovie) else None),
             movie.voteAverage = vote_average tmdbMovie,
             movie.voteCount = vote_count tmdbMovie,
             movie.popularity = TmdbMovie.popularity tmdbMovie,
             movie.genreIds = (case genre_ids tmdbMovie of None \<Rightarrow> [] | Some g \<Rightarrow> g),
             movie.genres = TmdbMovie.genres tmdbMovie,
             movie.originalLanguage = original_language tmdbMovie,
             movie.originalTitle = original_title tmdbMovie,
             movie.adult = TmdbMovie.adult tmdbMovie,
             movie.video = TmdbMovie.video tmdbMovie,
             movie.userRatingAverage = None,
             movie.userRatingCount = 0\<rparr> d)"

text \<open>
  The loop of \<^verbatim>\<open>syncInitialMovies\<close> (95-109) and of \<^verbatim>\<open>syncPopularMovies\<close>
  (188-199):
  \<^verbatim>\<open>from(movies).pipe(concatMap(m => saveMovie(m).pipe(delay(100), catchError(log; of(null)))), toArray())\<close>.
  \<^verbatim>\<open>concatMap\<close> subscribes to the save of a movie when the one before has
  completed; \<^verbatim>\<open>delay\<close> holds back a value and lets an error through at once.
  \<open>failed\<close> is the line that \<^verbatim>\<open>catchError\<close> logs.
\<close>

fun sync_movies ::
  "(movie \<Rightarrow> bool) \<Rightarrow> (int \<Rightarrow> message) \<Rightarrow> TmdbMovie list \<Rightarrow> db
     \<Rightarrow> (event list \<times> movie option list) \<times> db" where
  "sync_movies rejects failed [] d = (([], []), d)"
| "sync_movies rejects failed (t # ts) d =
     (case saveMovie rejects t d of
        (Inr m, d1) \<Rightarrow>
          (case sync_movies rejects failed ts d1 of
             ((ev, out), d2) \<Rightarrow>
               (([SaveStart (TmdbMovie.id t), SaveEnd (TmdbMovie.id t) True,
                  LogDebug [S ''Saved/Updated movie: '', S (movie.title m)],
                  Delay 100] @ ev,
                 Some m # out), d2))
      | (Inl err, d1) \<Rightarrow>
          (case sync_movies rejects failed ts d1 of
             ((ev, out), d2) \<Rightarrow>
               (([SaveStart (TmdbMovie.id t), SaveEnd (TmdbMovie.id t) False,
                  LogError (failed (TmdbMovie.id t))] @ ev,
                 None # out), d2)))"

text \<open>
  \<^verbatim>\<open>movieMap.set(movie.id, movie)\<close> on a \<^verbatim>\<open>Map\<close>: a key keeps the place of its
  first insertion and takes the last value.
\<close>

fun Map_set :: "(int \<times> 'v) list \<Rightarrow> int \<Rightarrow> 'v \<Rightarrow> (int \<times> 'v) list" where
  "Map_set [] k v = [(k, v)]"
| "Map_set ((k', v') # kvs) k v =
     (if k' = k then (k, v) # kvs else (k', v') # Map_set kvs k v)"

record categories =
  popular :: "TmdbMovie list"
  topRated :: "TmdbMovie list"
  nowPlaying :: "TmdbMovie list"
  upcoming :: "TmdbMovie list"

text \<open>
  \<^verbatim>\<open>syncInitialMovies\<close> (85-120), from the categories that
  \<^verbatim>\<open>fetchMultipleCategories$(3)\<close> has fetched.
\<close>

definition syncInitialMovies ::
  "(movie \<Rightarrow> bool) \<Rightarrow> categories \<Rightarrow> db \<Rightarrow> event list \<times> db" where
  "syncInitialMovies rejects cs d =
     (let movieMap = foldl (\<lambda>mp m. Map_set mp (TmdbMovie.id m) m) []
                       (popular cs @ topRated cs @ nowPlaying cs @ upcoming cs);
          ((ev, savedMovies), d') =
             sync_movies rejects (\<lambda>i. [S ''Error saving movie '', N i]) (map snd movieMap) d
      in (ev @ [LogInfo [S ''Initial sync completed. Saved '',
                         N (int (length (filter (\<lambda>m. m \<noteq> None) savedMovies))),
                         S '' movies'']], d'))"

text \<open>\<^verbatim>\<open>syncPopularMovies\<close> (183-208).\<close>

definition syncPopularMovies ::
  "(movie \<Rightarrow> bool) \<Rightarrow> (int \<Rightarrow> nat \<Rightarrow> error + TmdbResponse) \<Rightarrow> db
     \<Rightarrow> (event list \<times> (error + unit)) \<times> db" where
  "syncPopularMovies rejects http d =
     (case getPopularMovies http 1 of
        (ev0, Inl err) \<Rightarrow>
          ((LogInfo [S ''Starting scheduled popular movies sync...''] # ev0, Inl err), d)
      | (ev0, Inr response) \<Rightarrow>
          (case sync_movies rejects (\<lambda>i. [S ''Error syncing movie '', N i])
                  (results response) d of
             ((ev, synced), d') \<Rightarrow>
               ((LogInfo [S ''Starting scheduled popular movies sync...''] # ev0 @ ev @
                 [LogInfo [S ''Synced '',
                           N (int (length (filter (\<lambda>m. m \<noteq> None) synced))),
                           S '' popular movies'']], Inr ()), d')))"

text \<open>\<^verbatim>\<open>syncMovieDetails\<close> (213-224).\<close>

definition syncMovieDetails ::
  "(movie \<Rightarrow> bool) \<Rightarrow> (int \<Rightarrow> nat \<Rightarrow> error + TmdbMovie) \<Rightarrow> int \<Rightarrow> db
     \<Rightarrow> (event list \<times> (error + movie)) \<times> db" where
  "syncMovieDetails rejects http movie_id d =
     (case getMovieDetails http movie_id of
        (ev0, Inl err) \<Rightarrow>
          ((ev0 @ [LogError [S ''Error syncing movie details '', N movie_id]], Inl err), d)
      | (ev0, Inr movieDetails) \<Rightarrow>
          (case saveMovie rejects movieDetails d of
             (Inl err, d') \<Rightarrow>
               ((ev0 @ [LogError [S ''Error syncing movie details '', N movie_id]], Inl err), d')
           | (Inr m, d') \<Rightarrow>
               ((ev0 @ [LogDebug [S ''Saved/Updated movie: '', S (movie.title m)],
                        LogInfo [S ''Synced detailed data for movie: '', S (movie.title m)]],
                 Inr m), d')))"

text \<open>\<^verbatim>\<open>batchSyncMovies\<close> (229-243).\<close>

fun batchSyncMovies_loop ::
  "(movie \<Rightarrow> bool) \<Rightarrow> (int \<Rightarrow> nat \<Rightarrow> error + TmdbMovie) \<Rightarrow> int list \<Rightarrow> db
     \<Rightarrow> (event list \<times> movie list) \<times> db" where
  "batchSyncMovies_loop rejects http [] d = (([], []), d)"
| "batchSyncMovies_loop rejects http (i # is) d =
     (case syncMovieDetails rejects http i d of
        ((ev0, Inr m), d1) \<Rightarrow>
          (case batchSyncMovies_loop rejects http is d1 of
             ((ev, out), d2) \<Rightarrow> ((ev0 @ [Delay 250] @ ev, m # out), d2))
      | ((ev0, Inl err), d1) \<Rightarrow>
          (case batchSyncMovies_loop rejects http is d1 of
             ((ev, out), d2) \<Rightarrow> ((ev0 @ ev, out), d2)))"

definition batchSyncMovies ::
  "(movie \<Rightarrow> bool) \<Rightarrow> (int \<Rightarrow> nat \<Rightarrow> error + TmdbMovie) \<Rightarrow> int list \<Rightarrow> db
     \<Rightarrow> (event list \<times> movie list) \<times> db" where
  "batchSyncMovies rejects http movieIds d =
     (case batchSyncMovies_loop rejects http movieIds d of
        ((ev, synced), d') \<Rightarrow>
          ((ev @ [LogInfo [S ''Batch synced '', N (int (length synced)), S '' movies'']],
            synced), d'))"

text \<open>\<^verbatim>\<open>MoviesService.fetchAndSaveFromTmdb$\<close> (movies.service.ts, 392-417).\<close>

definition fetchAndSaveFromTmdb ::
  "(movie \<Rightarrow> bool) \<Rightarrow> (int \<Rightarrow> nat \<Rightarrow> error + TmdbMovie) \<Rightarrow> int \<Rightarrow> db
     \<Rightarrow> (event list \<times> (error + movie)) \<times> db" where
  "fetchAndSaveFromTmdb rejects http tmdb_id d =
     (case getMovieDetails http tmdb_id of
        (ev, Inl err) \<Rightarrow> ((ev, Inl err), d)
      | (ev, Inr tmdbMovie) \<Rightarrow>
          (case movieRepository_insert rejects
                  \<lparr>movie.id = 0,
                   movie.tmdbId = TmdbMovie.id tmdbMovie,
                   movie.title = TmdbMovie.title tmdbMovie,
                   movie.overview = TmdbMovie.overview tmdbMovie,
                   movie.posterPath = poster_path tmdbMovie,
                   movie.backdropPath = backdrop_path tmdbMovie,
                   movie.releaseDate =
                     (if release_date tmdbMovie \<noteq> [] then Some (release_date tmdbMovie)
                      else None),
                   movie.voteAverage = vote_average tmdbMovie,
                   movie.voteCount = vote_count tmdbMovie,
                   movie.popularity = TmdbMovie.popularity tmdbMovie,
                   movie.genreIds = (case genre_ids tmdbMovie of None \<Rightarrow> [] | Some g \<Rightarrow> g),
                   movie.genres = TmdbMovie.genres tmdbMovie,
                   movie.originalLanguage = original_language tmdbMovie,
                   movie.originalTitle = original_title tmdbMovie,
                   movie.adult = TmdbMovie.adult tmdbMovie,
                   movie.video = TmdbMovie.video tmdbMovie,
                   movie.userRatingAverage = None,
                   movie.userRatingCount = 0\<rparr> d of
             (Inl err, d') \<Rightarrow> ((ev, Inl err), d')
           | (Inr m, d') \<Rightarrow> ((ev, Inr m), d')))"

text \<open>\<^verbatim>\<open>MoviesService.findByTmdbId$\<close> (movies.service.ts, 123-145).\<close>

definition findByTmdbId ::
  "(movie \<Rightarrow> bool) \<Rightarrow> (int \<Rightarrow> nat \<Rightarrow> error + TmdbMovie) \<Rightarrow> int \<Rightarrow> db
     \<Rightarrow> (event list \<times> (error + movie)) \<times> db" where
  "findByTmdbId rejects http tmdb_id d =
     (case movieRepository_findOne (\<lambda>m. movie.tmdbId m = tmdb_id) d of
        Some m \<Rightarrow>
          (([LogInfo [S ''Fetched movie by TMDB ID: '', S (movie.title m)]], Inr m), d)
      | None \<Rightarrow>
          (case fetchAndSaveFromTmdb rejects http tmdb_id d of
             ((ev, Inl err), d') \<Rightarrow>
               ((ev @ [LogError [S ''Error fetching movie by TMDB ID '', N tmdb_id]], Inl err), d')
           | ((ev, Inr m), d') \<Rightarrow>
               ((ev @ [LogInfo [S ''Fetched movie by TMDB ID: '', S (movie.title m)]], Inr m),
                d')))"

text \<open>
  \<^verbatim>\<open>MoviesService.syncFromTmdb$\<close> (movies.service.ts, 295-329): the details of
  the movie are fetched and upserted on \<^verbatim>\<open>tmdbId\<close>, then the movie is read by
  \<^verbatim>\<open>findByTmdbId$\<close>, which fetches and inserts it when it finds none. \<open>http\<close> is
  the server at the first fetch and \<open>http'\<close> the server at the second.
\<close>

definition syncFromTmdb ::
  "(movie \<Rightarrow> bool) \<Rightarrow> (int \<Rightarrow> nat \<Rightarrow> error + TmdbMovie)
     \<Rightarrow> (int \<Rightarrow> nat \<Rightarrow> error + TmdbMovie) \<Rightarrow> int \<Rightarrow> db
     \<Rightarrow> (event list \<times> (error + movie)) \<times> db" where
  "syncFromTmdb rejects http http' tmdb_id d =
     (case getMovieDetails http tmdb_id of
        (ev, Inl err) \<Rightarrow>
          ((ev @ [LogError [S ''Error syncing movie from TMDB '', N tmdb_id]], Inl err), d)
      | (ev, Inr tmdbMovie) \<Rightarrow>
          (case movieRepository_upsert rejects
                  \<lparr>movie.id = 0,
                   movie.tmdbId = TmdbMovie.id tmdbMovie,
                   movie.title = TmdbMovie.title tmdbMovie,
                   movie.overview = TmdbMovie.overview tmdbMovie,
                   movie.posterPath = poster_path tmdbMovie,
                   movie.backdropPath = backdrop_path tmdbMovie,
                   movie.releaseDate =
                     (if release_date tmdbMovie \<noteq> [] then Some (release_date tmdbMovie)
                      else None),
                   movie.voteAverage = vote_average tmdbMovie,
                   movie.voteCount = vote_count tmdbMovie,
                   movie.popularity = TmdbMovie.popularity tmdbMovie,
                   movie.genreIds = (case genre_ids tmdbMovie of None \<Rightarrow> [] | Some g \<Rightarrow> g),
                   movie.genres = TmdbMovie.genres tmdbMovie,
                   movie.originalLanguage = original_language tmdbMovie,
                   movie.originalTitle = original_title tmdbMovie,
                   movie.adult = TmdbMovie.adult tmdbMovie,
                   movie.video = TmdbMovie.video tmdbMovie,
                   movie.userRatingAverage = None,
                   movie.userRatingCount = 0\<rparr> d of
             (Inl err, d1) \<Rightarrow>
               ((ev @ [LogError [S ''Error syncing movie from TMDB '', N tmdb_id]], Inl err), d1)
           | (Inr _, d1) \<Rightarrow>
               (case findByTmdbId rejects http' tmdb_id d1 of
                  ((ev', Inl err), d2) \<Rightarrow>
                    ((ev @ ev' @ [LogError [S ''Error syncing movie from TMDB '', N tmdb_id]],
                      Inl err), d2)
                | ((ev', Inr m), d2) \<Rightarrow>
                    ((ev @ ev' @ [LogInfo [S ''Synced movie from TMDB: '', S (movie.title m)]],
                      Inr m), d2))))"

text \<open>
  The user rating statistics of the movies of a store, row by row, and what
  it means that a later store has kept them. \<open>rating_averages_stored\<close> is
  the type of the column \<^verbatim>\<open>userRatingAverage\<close>: a value that a
  \<^verbatim>\<open>decimal(3, 1)\<close> keeps as it is.
\<close>

definition rating_averages_stored :: "db \<Rightarrow> bool" where
  "rating_averages_stored d =
     (\<forall>m\<in>set (movies d).
        case movie.userRatingAverage m of
          None \<Rightarrow> True
        | Some a \<Rightarrow> decimal_column 3 a = Some a)"

definition movie_ids_distinct :: "db \<Rightarrow> bool" where
  "movie_ids_distinct d = distinct (map movie.id (movies d))"

definition user_rating_stats :: "db \<Rightarrow> (int \<times> rat option \<times> int) list" where
  "user_rating_stats d =
     map (\<lambda>m. (movie.id m, movie.userRatingAverage m, movie.userRatingCount m)) (movies d)"

definition stats_kept :: "db \<Rightarrow> db \<Rightarrow> bool" where
  "stats_kept d d' =
     (length (movies d) \<le> length (movies d') \<and>
      take (length (movies d)) (user_rating_stats d') = user_rating_stats d)"

text \<open>
  The run of the loop as the specification words it: one movie after the
  other in the order of the input, each save on the store that the save
  before has left; a save that succeeded is followed by the wait of 100 ms,
  a save that failed by the line of the logger.
\<close>

definition sequential_store :: "(movie \<Rightarrow> bool) \<Rightarrow> TmdbMovie list \<Rightarrow> db \<Rightarrow> db" where
  "sequential_store rejects ts d = foldl (\<lambda>d' t. snd (saveMovie rejects t d')) d ts"

definition sync_block :: "(int \<Rightarrow> message) \<Rightarrow> TmdbMovie \<times> movie option \<Rightarrow> event list" where
  "sync_block failed tr =
     (case tr of
        (t, Some m) \<Rightarrow>
          [SaveStart (TmdbMovie.id t), SaveEnd (TmdbMovie.id t) True,
           LogDebug [S ''Saved/Updated movie: '', S (movie.title m)], Delay 100]
      | (t, None) \<Rightarrow>
          [SaveStart (TmdbMovie.id t), SaveEnd (TmdbMovie.id t) False,
           LogError (failed (TmdbMovie.id t))])"

fun starts :: "event list \<Rightarrow> int list" where
  "starts [] = []"
| "starts (SaveStart i # es) = i # starts es"
| "starts (e # es) = starts es"

section \<open>The movie service: pagination\<close>

text \<open>\<^verbatim>\<open>QueryMovieDto\<close> with its enumerations (query-movie.dto.ts).\<close>

datatype SortBy = TITLE | RELEASE_DATE | POPULARITY | VOTE_AVERAGE | USER_RATING | CREATED_AT

datatype SortOrder = ASC | DESC

record QueryMovieDto =
  page :: "int option"
  limit :: "int option"
  search :: "string option"
  genreIds :: "int list option"
  yearFrom :: "int option"
  yearTo :: "int option"
  minRating :: "rat option"
  maxRating :: "rat option"
  sortBy :: "SortBy option"
  sortOrder :: "SortOrder option"
  language :: "string option"
  includeAdult :: "bool option"

text \<open>
  A query as the query builder holds it before the database runs it: the
  conditions, the order, and the offset and the limit set by \<^verbatim>\<open>skip\<close> and
  \<^verbatim>\<open>take\<close>.
\<close>

datatype date_bound = Jan_1 int | Dec_31 int | Date_1900_01_01 | Now

datatype cond =
    TitleOrOriginalTitleILike string
  | GenreIdsOverlap "int list"
  | ReleaseDateBetween date_bound date_bound
  | VoteAverageAtLeast rat
  | VoteAverageAtMost rat
  | OriginalLanguageIs string
  | NotAdult
  | TitleILike string
  | GenreIdAmong int

record SelectQueryBuilder =
  wheres :: "cond list"
  orderBy :: "SortBy option \<times> SortOrder option"
  skip_n :: int
  take_n :: int

text \<open>\<^verbatim>\<open>n || d\<close> on an optional number: \<^verbatim>\<open>undefined\<close> and 0 are falsy.\<close>

definition or_number :: "int option \<Rightarrow> int \<Rightarrow> int" where
  "or_number n d = (case n of None \<Rightarrow> d | Some k \<Rightarrow> if k = 0 then d else k)"

definition truthy_number :: "int option \<Rightarrow> bool" where
  "truthy_number n = (case n of None \<Rightarrow> False | Some k \<Rightarrow> k \<noteq> 0)"

definition truthy_string :: "string option \<Rightarrow> bool" where
  "truthy_string t = (case t of None \<Rightarrow> False | Some x \<Rightarrow> x \<noteq> [])"

text \<open>
  The instance of \<^verbatim>\<open>QueryMovieDto\<close> that the controller hands to \<^verbatim>\<open>findAll$\<close>
  has passed the validation of the class (query-movie.dto.ts): the
  properties with an initializer (\<^verbatim>\<open>page\<close>, \<^verbatim>\<open>limit\<close>, \<^verbatim>\<open>sortBy\<close>,
  \<^verbatim>\<open>sortOrder\<close>, \<^verbatim>\<open>includeAdult\<close>) are defined, and the decorators \<^verbatim>\<open>@Min\<close> and
  \<^verbatim>\<open>@Max\<close> hold.
\<close>

definition validated :: "QueryMovieDto \<Rightarrow> bool" where
  "validated query =
     ((case QueryMovieDto.page query of None \<Rightarrow> False | Some p \<Rightarrow> 1 \<le> p) \<and>
      (case QueryMovieDto.limit query of None \<Rightarrow> False | Some l \<Rightarrow> 1 \<le> l \<and> l \<le> 100) \<and>
      (case yearFrom query of None \<Rightarrow> True | Some y \<Rightarrow> 1900 \<le> y \<and> y \<le> 2100) \<and>
      (case yearTo query of None \<Rightarrow> True | Some y \<Rightarrow> 1900 \<le> y \<and> y \<le> 2100) \<and>
      (case minRating query of None \<Rightarrow> True | Some r \<Rightarrow> 0 \<le> r \<and> r \<le> 10) \<and>
      (case maxRating query of None \<Rightarrow> True | Some r \<Rightarrow> 0 \<le> r \<and> r \<le> 10) \<and>
      sortBy query \<noteq> None \<and> sortOrder query \<noteq> None \<and> includeAdult query \<noteq> None)"

text \<open>\<^verbatim>\<open>MoviesService.createQueryBuilder\<close> (movies.service.ts, 422-494).\<close>

definition createQueryBuilder :: "QueryMovieDto \<Rightarrow> SelectQueryBuilder" where
  "createQueryBuilder query =
     (let pageNum = or_number (QueryMovieDto.page query) 1;
          limitNum = or_number (QueryMovieDto.limit query) 10
      in \<lparr>wheres =
            (if truthy_string (search query)
             then [TitleOrOriginalTitleILike (the (search query))] else []) @
            (case QueryMovieDto.genreIds query of
               None \<Rightarrow> []
             | Some g \<Rightarrow> if length g > 0 then [GenreIdsOverlap g] else []) @
            (if truthy_number (yearFrom query) \<or> truthy_number (yearTo query)
             then [ReleaseDateBetween
                     (if truthy_number (yearFrom query) then Jan_1 (the (yearFrom query))
                      else Date_1900_01_01)
                     (if truthy_number (yearTo query) then Dec_31 (the (yearTo query))
                      else Now)]
             else []) @
            (case minRating query of None \<Rightarrow> [] | Some r \<Rightarrow> [VoteAverageAtLeast r]) @
            (case maxRating query of None \<Rightarrow> [] | Some r \<Rightarrow> [VoteAverageAtMost r]) @
            (if truthy_string (language query)
             then [OriginalLanguageIs (the (language query))] else []) @
            (if includeAdult query = Some True then [] else [NotAdult]),
          orderBy = (sortBy query, sortOrder query),
          skip_n = (pageNum - 1) * limitNum,
          take_n = limitNum\<rparr>)"

text \<open>
  \<^verbatim>\<open>getManyAndCount\<close> and \<^verbatim>\<open>findAndCount\<close>: the database keeps the rows that
  satisfy every condition, orders them, and answers the rows from the offset
  on, at most as many as the limit, together with the number of all rows
  kept. What a condition means for a row and how an order sorts are the
  parameters \<open>holds\<close> and \<open>srt\<close>. The database refuses the query, and answers
  no row, when the offset or the limit is negative, when the order names no
  column (\<^verbatim>\<open>movie.${sortBy}\<close> with \<^verbatim>\<open>sortBy\<close> undefined), and when a condition
  treats the column \<^verbatim>\<open>genreIds\<close> as an array: \<^verbatim>\<open>simple-array\<close> keeps it as
  text, on which PostgreSQL has neither \<^verbatim>\<open>&&\<close> nor \<^verbatim>\<open>= ANY(...)\<close>.
\<close>

definition refused :: "cond \<Rightarrow> bool" where
  "refused c = (case c of GenreIdsOverlap g \<Rightarrow> True | GenreIdAmong g \<Rightarrow> True | _ \<Rightarrow> False)"

definition matching ::
  "(cond \<Rightarrow> movie \<Rightarrow> bool) \<Rightarrow> (SortBy option \<times> SortOrder option \<Rightarrow> movie list \<Rightarrow> movie list)
     \<Rightarrow> SelectQueryBuilder \<Rightarrow> db \<Rightarrow> movie list" where
  "matching holds srt qb d =
     srt (orderBy qb) (filter (\<lambda>m. \<forall>c\<in>set (wheres qb). holds c m) (movies d))"

definition getManyAndCount ::
  "(cond \<Rightarrow> movie \<Rightarrow> bool) \<Rightarrow> (SortBy option \<times> SortOrder option \<Rightarrow> movie list \<Rightarrow> movie list)
     \<Rightarrow> SelectQueryBuilder \<Rightarrow> db \<Rightarrow> error + movie list \<times> int" where
  "getManyAndCount holds srt qb d =
     (if (\<exists>c\<in>set (wheres qb). refused c) \<or> fst (orderBy qb) = None
         \<or> skip_n qb < 0 \<or> take_n qb < 0
      then Inl (Error [S ''QueryFailedError''])
      else Inr (take (nat (take_n qb)) (drop (nat (skip_n qb)) (matching holds srt qb d)),
                int (length (matching holds srt qb d))))"

text \<open>
  Modelled from the spec: the class \<^verbatim>\<open>PaginatedResponseDto\<close> of \<^verbatim>\<open>movies/dto\<close>
  is not among the sources. The services call its constructor with the rows,
  the total, the page and the limit, and read \<^verbatim>\<open>data\<close> and
  \<^verbatim>\<open>meta.totalPages\<close>; the tests show \<^verbatim>\<open>meta\<close> with \<^verbatim>\<open>page\<close>, \<^verbatim>\<open>limit\<close>,
  \<^verbatim>\<open>totalItems\<close> and \<^verbatim>\<open>totalPages\<close>. The specification says that
  \<^verbatim>\<open>totalPages\<close> is computed from the total record count and the limit, and
  not how: the computation is the parameter \<open>totalPagesOf\<close>.
\<close>

record PaginationMeta =
  page :: int
  limit :: int
  totalItems :: int
  totalPages :: int

record PaginatedResponseDto =
  data :: "movie list"
  meta :: PaginationMeta

definition new_PaginatedResponseDto ::
  "(int \<Rightarrow> int \<Rightarrow> int) \<Rightarrow> movie list \<Rightarrow> int \<Rightarrow> int \<Rightarrow> int \<Rightarrow> PaginatedResponseDto" where
  "new_PaginatedResponseDto totalPagesOf rows total_n page_n limit_n =
     \<lparr>data = rows,
      meta = \<lparr>page = page_n, limit = limit_n, totalItems = total_n,
              totalPages = totalPagesOf total_n limit_n\<rparr>\<rparr>"

text \<open>\<^verbatim>\<open>MoviesService.findAll$\<close> (76-93).\<close>

definition findAll ::
  "(int \<Rightarrow> int \<Rightarrow> int) \<Rightarrow> (cond \<Rightarrow> movie \<Rightarrow> bool)
     \<Rightarrow> (SortBy option \<times> SortOrder option \<Rightarrow> movie list \<Rightarrow> movie list)
     \<Rightarrow> QueryMovieDto \<Rightarrow> db \<Rightarrow> error + PaginatedResponseDto" where
  "findAll totalPagesOf holds srt query d =
     (case getManyAndCount holds srt (createQueryBuilder query) d of
        Inl err \<Rightarrow> Inl err
      | Inr (rows, total_n) \<Rightarrow>
          Inr (new_PaginatedResponseDto totalPagesOf rows total_n
                 (or_number (QueryMovieDto.page query) 1)
                 (or_number (QueryMovieDto.limit query) 10)))"

text \<open>\<^verbatim>\<open>MoviesService.search$\<close> (189-216).\<close>

definition movies_search ::
  "(int \<Rightarrow> int \<Rightarrow> int) \<Rightarrow> (cond \<Rightarrow> movie \<Rightarrow> bool)
     \<Rightarrow> (SortBy option \<times> SortOrder option \<Rightarrow> movie list \<Rightarrow> movie list)
     \<Rightarrow> string \<Rightarrow> int \<Rightarrow> int \<Rightarrow> db \<Rightarrow> error + PaginatedResponseDto" where
  "movies_search totalPagesOf holds srt query page_n limit_n d =
     (case getManyAndCount holds srt
             \<lparr>wheres = [TitleILike query], orderBy = (Some POPULARITY, Some DESC),
              skip_n = (page_n - 1) * limit_n, take_n = limit_n\<rparr> d of
        Inl err \<Rightarrow> Inl err
      | Inr (rows, total_n) \<Rightarrow> Inr (new_PaginatedResponseDto totalPagesOf rows total_n page_n limit_n))"

text \<open>\<^verbatim>\<open>MoviesService.findByGenre$\<close> (221-249).\<close>

definition findByGenre ::
  "(int \<Rightarrow> int \<Rightarrow> int) \<Rightarrow> (cond \<Rightarrow> movie \<Rightarrow> bool)
     \<Rightarrow> (SortBy option \<times> SortOrder option \<Rightarrow> movie list \<Rightarrow> movie list)
     \<Rightarrow> int \<Rightarrow> int \<Rightarrow> int \<Rightarrow> db \<Rightarrow> error + PaginatedResponseDto" where
  "findByGenre totalPagesOf holds srt genreId page_n limit_n d =
     (case getManyAndCount holds srt
             \<lparr>wheres = [GenreIdAmong genreId], orderBy = (Some POPULARITY, Some DESC),
              skip_n = (page_n - 1) * limit_n, take_n = limit_n\<rparr> d of
        Inl err \<Rightarrow> Inl err
      | Inr (rows, total_n) \<Rightarrow> Inr (new_PaginatedResponseDto totalPagesOf rows total_n page_n limit_n))"

section \<open>Sample data\<close>

text \<open>
  Stores, requests, servers and parameters on which the properties below are
  instantiated.
\<close>

definition store0 :: db where
  "store0 = \<lparr>movies = [], users = [],
     ratings =
       [\<lparr>rating.id = 1, rating.rating = 15 / 2, rating.review = None,
         rating.userId = 1, rating.movieId = 1\<rparr>,
        \<lparr>rating.id = 2, rating.rating = 8, rating.review = None,
         rating.userId = 2, rating.movieId = 1\<rparr>,
        \<lparr>rating.id = 3, rating.rating = 42 / 5, rating.review = None,
         rating.userId = 3, rating.movieId = 1\<rparr>,
        \<lparr>rating.id = 4, rating.rating = 2, rating.review = None,
         rating.userId = 3, rating.movieId = 2\<rparr>],
     journal = []\<rparr>"

definition movie1 :: movie where
  "movie1 =
     \<lparr>movie.id = 1, movie.tmdbId = 550, movie.title = ''Fight Club'',
      movie.overview = ''An office worker'', movie.posterPath = ''/p.jpg'',
      movie.backdropPath = ''/b.jpg'', movie.releaseDate = Some ''1999-10-15'',
      movie.voteAverage = 84 / 10, movie.voteCount = 26000, movie.popularity = 61,
      movie.genreIds = [18], movie.genres = None, movie.originalLanguage = ''en'',
      movie.originalTitle = ''Fight Club'', movie.adult = False, movie.video = False,
      movie.userRatingAverage = Some 8, movie.userRatingCount = 3\<rparr>"

definition user1 :: user where
  "user1 =
     \<lparr>user.id = 1, user.username = ''ann'', user.email = ''ann@example.com'',
      user.password = ''$2b$10$abc'', user.firstName = None, user.lastName = None,
      user.isActive = True, user.watchlist = [1], user.favorites = []\<rparr>"

definition store1 :: db where
  "store1 =
     store0
       \<lparr>movies :=
          [movie1,
           movie1\<lparr>movie.id := 2, movie.tmdbId := 551, movie.userRatingAverage := Some 2,
                  movie.userRatingCount := 1\<rparr>],
        users :=
          [user1,
           user1\<lparr>user.id := 2, user.username := ''bob'', user.email := ''bob@example.com'',
                 user.watchlist := []\<rparr>,
           user1\<lparr>user.id := 3, user.username := ''cy'', user.email := ''cy@example.com'',
                 user.watchlist := []\<rparr>]\<rparr>"

definition dto9 :: CreateRatingDto where
  "dto9 = \<lparr>CreateRatingDto.rating = 9, CreateRatingDto.review = Some ''great''\<rparr>"


definition dto10 :: CreateRatingDto where
  "dto10 = \<lparr>CreateRatingDto.rating = 10, CreateRatingDto.review = None\<rparr>"

definition dto845 :: CreateRatingDto where
  "dto845 = \<lparr>CreateRatingDto.rating = 169 / 20, CreateRatingDto.review = None\<rparr>"

definition store2 :: db where
  "store2 =
     store1
       \<lparr>db.ratings :=
          [\<lparr>rating.id = 1, rating.rating = 81 / 10, rating.review = None,
            rating.userId = 1, rating.movieId = 1\<rparr>,
           \<lparr>rating.id = 2, rating.rating = 82 / 10, rating.review = None,
            rating.userId = 2, rating.movieId = 1\<rparr>]\<rparr>"

definition sample_hash :: "string \<Rightarrow> string" where
  "sample_hash p = ''$2b$10$'' @ rev p"

definition dto_ann :: CreateUserDto where
  "dto_ann = \<lparr>CreateUserDto.username = ''ann'', CreateUserDto.email = ''ann@example.com'',
     CreateUserDto.password = ''Secret1!x'', CreateUserDto.firstName = None,
     CreateUserDto.lastName = None\<rparr>"

definition dto_dan :: CreateUserDto where
  "dto_dan = \<lparr>CreateUserDto.username = ''dan'', CreateUserDto.email = ''dan@example.com'',
     CreateUserDto.password = ''Secret1!x'', CreateUserDto.firstName = None,
     CreateUserDto.lastName = None\<rparr>"

definition sample_sign :: "object \<Rightarrow> string" where
  "sample_sign payload = concat (map (\<lambda>(k, v). k @ '';'') payload)"

definition sample_compare :: "string \<Rightarrow> string \<Rightarrow> bool" where
  "sample_compare pw hashed = (hashed = ''$2b$10$'' @ pw)"

definition tmdb1 :: TmdbMovie where
  "tmdb1 =
     \<lparr>TmdbMovie.id = 550, TmdbMovie.title = ''Fight Club (1999)'',
      TmdbMovie.overview = ''Insomnia'', TmdbMovie.poster_path = ''/p2.jpg'',
      TmdbMovie.backdrop_path = ''/b2.jpg'', TmdbMovie.release_date = [],
      TmdbMovie.vote_average = 85 / 10, TmdbMovie.vote_count = 27000,
      TmdbMovie.popularity = 70, TmdbMovie.genre_ids = None,
      TmdbMovie.original_language = ''en'', TmdbMovie.original_title = ''Fight Club'',
      TmdbMovie.adult = False, TmdbMovie.video = False,
      TmdbMovie.genres = Some [(18, ''Drama'')]\<rparr>"

definition flaky :: "int \<Rightarrow> nat \<Rightarrow> string + TmdbMovie" where
  "flaky movie_id n = (if n < 2 then Inl ''ECONNRESET'' else Inr tmdb1)"

definition down :: "int \<Rightarrow> nat \<Rightarrow> string + TmdbResponse" where
  "down pg n = Inl (''ETIMEDOUT'' @ replicate n CHR ''!'')"

definition response1 :: TmdbResponse where
  "response1 =
     \<lparr>TmdbResponse.page = 1, TmdbResponse.results = [tmdb1],
      TmdbResponse.total_pages = 1, TmdbResponse.total_results = 1\<rparr>"

definition slow :: "int \<Rightarrow> nat \<Rightarrow> string + TmdbResponse" where
  "slow pg n = (if n < 1 then Inl ''ECONNRESET'' else Inr response1)"

definition genres_up :: "nat \<Rightarrow> string + (int \<times> string) list" where
  "genres_up n = Inr [(18, ''Drama'')]"

definition details_up :: "int \<Rightarrow> nat \<Rightarrow> error + TmdbMovie" where
  "details_up movie_id n = Inr tmdb1"

definition tmdb2 :: TmdbMovie where
  "tmdb2 = tmdb1\<lparr>TmdbMovie.id := 999, TmdbMovie.title := ''Refused''\<rparr>"

definition tmdb3 :: TmdbMovie where
  "tmdb3 = tmdb1\<lparr>TmdbMovie.id := 1000, TmdbMovie.title := ''New''\<rparr>"

definition rejects999 :: "movie \<Rightarrow> bool" where
  "rejects999 m = (movie.tmdbId m = 999)"

definition sync_failed_line :: "int \<Rightarrow> message" where
  "sync_failed_line i = [S ''Error syncing movie '', N i]"

definition sample_holds :: "cond \<Rightarrow> movie \<Rightarrow> bool" where
  "sample_holds c m = (case c of NotAdult \<Rightarrow> \<not> movie.adult m | _ \<Rightarrow> True)"

definition sample_sort :: "SortBy option \<times> SortOrder option \<Rightarrow> movie list \<Rightarrow> movie list" where
  "sample_sort ob ms = ms"

definition sample_pages :: "int \<Rightarrow> int \<Rightarrow> int" where
  "sample_pages total_n limit_n = (total_n + limit_n - 1) div limit_n"

definition query21 :: QueryMovieDto where
  "query21 =
     \<lparr>QueryMovieDto.page = Some 2, QueryMovieDto.limit = Some 1,
      QueryMovieDto.search = None, QueryMovieDto.genreIds = None,
      QueryMovieDto.yearFrom = None, QueryMovieDto.yearTo = None,
      QueryMovieDto.minRating = None, QueryMovieDto.maxRating = None,
      QueryMovieDto.sortBy = Some POPULARITY, QueryMovieDto.sortOrder = Some DESC,
      QueryMovieDto.language = None, QueryMovieDto.includeAdult = Some False\<rparr>"

definition query_genres :: QueryMovieDto where
  "query_genres = query21\<lparr>QueryMovieDto.genreIds := Some [18, 28]\<rparr>"

section \<open>Properties of the services\<close>

subsection \<open>Rating statistics\<close>

text \<open>
  C2. \<^verbatim>\<open>getMovieRatingStats$\<close> adds and divides doubles, and the average it
  answers is not always the arithmetic mean rounded to one decimal place.
  Movie 1 of \<open>store2\<close> has the two ratings 8.1 and 8.2. Their mean is 8.15,
  which rounded to one decimal place is 8.2. The sum of the two doubles is
  16.299999999999997, its half times 10 is 81.49999999999999, which
  \<^verbatim>\<open>Math.round\<close> takes to 81: the average answered is the double of 8.1,
  more than one twentieth below the mean. The count is 2 and the
  distribution has the two ratings under the floor 8 and nothing else; a
  movie without ratings has average 0, count 0 and the empty distribution.
\<close>

theorem getMovieRatingStats_doubles:
  "map rating.rating (findByMovie 1 store2) = [82 / 10, 81 / 10] \<and>
   sum_list (map rating.rating (findByMovie 1 store2))
     / of_nat (length (findByMovie 1 store2)) = 163 / 20 \<and>
   of_int (Math_round (163 / 20 * 10)) / 10 = (82 / 10 :: rat) \<and>
   average (getMovieRatingStats 1 store2) = binary64 (81 / 10) \<and>
   binary64 (81 / 10) = 4559894622712627 / 562949953421312 \<and>
   binary64 (82 / 10) = 2308094809027379 / 281474976710656 \<and>
   1 / 20 < \<bar>163 / 20 - average (getMovieRatingStats 1 store2)\<bar> \<and>
   count (getMovieRatingStats 1 store2) = 2 \<and>
   distribution (getMovieRatingStats 1 store2) 8 = Some 2 \<and>
   distribution (getMovieRatingStats 1 store2) 9 = None \<and>
   getMovieRatingStats 3 store2 = \<lparr>average = 0, count = 0, distribution = Map.empty\<rparr>"
proof -
  have rs: "findByMovie 1 store2 =
          [\<lparr>rating.id = 2, rating.rating = 82 / 10, rating.review = None,
            rating.userId = 2, rating.movieId = 1\<rparr>,
           \<lparr>rating.id = 1, rating.rating = 81 / 10, rating.review = None,
            rating.userId = 1, rating.movieId = 1\<rparr>]"
    by (simp add: findByMovie_def ratingRepository_find_def store2_def store1_def store0_def)
  have none: "findByMovie 3 store2 = []"
    by (simp add: findByMovie_def ratingRepository_find_def store2_def store1_def store0_def)
  have b81: "binary64 (81 / 10) = 4559894622712627 / 562949953421312"
    by code_simp
  have b82: "binary64 (82 / 10) = 2308094809027379 / 281474976710656"
    by code_simp
  have av: "average (getMovieRatingStats 1 store2) = 4559894622712627 / 562949953421312"
    unfolding getMovieRatingStats_def rs by code_simp
  have mr: "of_int (Math_round (163 / 20 * 10)) / 10 = (82 / 10 :: rat)"
    by (simp add: Math_round_def floor_eq_iff)
  have cn: "count (getMovieRatingStats 1 store2) = 2"
    unfolding getMovieRatingStats_def rs by simp
  have d8: "distribution (getMovieRatingStats 1 store2) 8 = Some 2"
    unfolding getMovieRatingStats_def rs by code_simp
  have d9: "distribution (getMovieRatingStats 1 store2) 9 = None"
    unfolding getMovieRatingStats_def rs by code_simp
  have z: "getMovieRatingStats 3 store2 = \<lparr>average = 0, count = 0, distribution = Map.empty\<rparr>"
    unfolding getMovieRatingStats_def none by simp
  show ?thesis
    unfolding av b81 b82 using mr cn d8 d9 z by (simp add: rs)
qed

subsection \<open>Create or update a rating\<close>

lemma fresh_id_above: "x \<in> set xs \<Longrightarrow> x < fresh_id xs"
  by (induction xs) auto

lemma fresh_id_notin: "fresh_id xs \<notin> set xs"
  using fresh_id_above by blast

lemmas sample_defs = store0_def store1_def movie1_def user1_def dto9_def

lemma updateRatingStatistics_fails:
  "\<exists>msg. updateRatingStatistics m d = (Inl (Error msg), d)"
  by (simp add: updateRatingStatistics_def getRawOne_stats_def)

lemma createOrUpdate_missing:
  assumes "find (\<lambda>x. movie.id x = m) (movies d) = None \<or> find (\<lambda>x. user.id x = u) (users d) = None"
  shows "\<exists>msg. createOrUpdate u m dto d = (Inl (NotFoundException msg), d)"
  using assms
  by (auto simp: createOrUpdate_def movieRepository_findOne_def userRepository_findOne_def Let_def
      split: option.splits)

lemma createOrUpdate_overflow:
  assumes mv: "find (\<lambda>x. movie.id x = m) (movies d) = Some mv"
    and us: "find (\<lambda>x. user.id x = u) (users d) = Some usr"
    and ov: "decimal_column 2 (CreateRatingDto.rating dto) = None"
  shows "createOrUpdate u m dto d =
           (Inl (Error [S ''QueryFailedError: numeric field overflow'']), d)"
  using assms
  by (simp add: createOrUpdate_def movieRepository_findOne_def userRepository_findOne_def
      ratingRepository_findOne_def ratingRepository_save_def ratingRepository_insert_def Let_def
      split: option.splits)

lemma createOrUpdate_existing:
  assumes mv: "find (\<lambda>x. movie.id x = m) (movies d) = Some mv"
    and us: "find (\<lambda>x. user.id x = u) (users d) = Some usr"
    and fits: "decimal_column 2 (CreateRatingDto.rating dto) = Some v"
    and ex: "find (\<lambda>r. rating.userId r = u \<and> rating.movieId r = m) (ratings d) = Some e"
  shows "\<exists>msg. fst (createOrUpdate u m dto d) = Inl (Error msg)"
    and "ratings (snd (createOrUpdate u m dto d)) =
            map (\<lambda>x. if rating.id x = rating.id e
                      then e\<lparr>rating.rating := v,
                             rating.review := or_string (CreateRatingDto.review dto) (rating.review e)\<rparr>
                      else x) (ratings d)"
    and "journal (snd (createOrUpdate u m dto d)) = journal d @ [RatingSave (rating.id e)]"
proof -
  let ?e' = "e\<lparr>rating.rating := CreateRatingDto.rating dto,
                   rating.review := or_string (CreateRatingDto.review dto) (rating.review e)\<rparr>"
  have mem: "e \<in> set (ratings d)" using ex by (auto simp: find_Some_iff)
  define d1 where "d1 = snd (ratingRepository_save ?e' d)"
  have d1: "ratingRepository_save ?e' d = (Inr ?e', d1)"
    using fits by (simp add: d1_def ratingRepository_save_def)
  obtain msg where st: "updateRatingStatistics m d1 = (Inl (Error msg), d1)"
    using updateRatingStatistics_fails by blast
  have co: "createOrUpdate u m dto d = (Inl (Error msg), d1)"
    using mv us ex d1 st
    by (simp add: createOrUpdate_def movieRepository_findOne_def userRepository_findOne_def
        ratingRepository_findOne_def Let_def)
  show "\<exists>msg. fst (createOrUpdate u m dto d) = Inl (Error msg)" by (simp add: co)
  show "ratings (snd (createOrUpdate u m dto d)) =
            map (\<lambda>x. if rating.id x = rating.id e
                      then e\<lparr>rating.rating := v,
                             rating.review := or_string (CreateRatingDto.review dto) (rating.review e)\<rparr>
                      else x) (ratings d)"
    using fits mem by (auto simp: co d1_def ratingRepository_save_def)
  show "journal (snd (createOrUpdate u m dto d)) = journal d @ [RatingSave (rating.id e)]"
    using fits by (simp add: co d1_def ratingRepository_save_def)
qed

lemma createOrUpdate_new:
  assumes mv: "find (\<lambda>x. movie.id x = m) (movies d) = Some mv"
    and us: "find (\<lambda>x. user.id x = u) (users d) = Some usr"
    and fits: "decimal_column 2 (CreateRatingDto.rating dto) = Some v"
    and ex: "find (\<lambda>r. rating.userId r = u \<and> rating.movieId r = m) (ratings d) = None"
  shows "\<exists>msg. fst (createOrUpdate u m dto d) = Inl (Error msg)"
    and "ratings (snd (createOrUpdate u m dto d)) =
            ratings d @ [\<lparr>rating.id = fresh_id (map rating.id (ratings d)),
                 rating.rating = v,
                 rating.review = CreateRatingDto.review dto,
                 rating.userId = u, rating.movieId = m\<rparr>]"
proof -
  let ?n = "\<lparr>rating.id = fresh_id (map rating.id (ratings d)),
                 rating.rating = CreateRatingDto.rating dto,
                 rating.review = CreateRatingDto.review dto,
                 rating.userId = u, rating.movieId = m\<rparr>"
  let ?blank = "\<lparr>rating.id = 0,
                 rating.rating = CreateRatingDto.rating dto,
                 rating.review = CreateRatingDto.review dto,
                 rating.userId = u, rating.movieId = m\<rparr>"
  define d1 where "d1 = snd (ratingRepository_insert ?blank d)"
  have d1: "ratingRepository_insert ?blank d = (Inr ?n, d1)"
    using fits by (simp add: d1_def ratingRepository_insert_def Let_def)
  obtain msg where st: "updateRatingStatistics m d1 = (Inl (Error msg), d1)"
    using updateRatingStatistics_fails by blast
  have co: "createOrUpdate u m dto d = (Inl (Error msg), d1)"
    using mv us ex d1 st
    by (simp add: createOrUpdate_def movieRepository_findOne_def userRepository_findOne_def
        ratingRepository_findOne_def Let_def)
  show "\<exists>msg. fst (createOrUpdate u m dto d) = Inl (Error msg)" by (simp add: co)
  show "ratings (snd (createOrUpdate u m dto d)) =
            ratings d @ [\<lparr>rating.id = fresh_id (map rating.id (ratings d)),
                 rating.rating = v,
                 rating.review = CreateRatingDto.review dto,
                 rating.userId = u, rating.movieId = m\<rparr>]"
    using fits by (simp add: co d1_def ratingRepository_insert_def Let_def)
qed

lemma createOrUpdate_keeps_invariants:
  assumes inv: "ids_distinct d" "one_rating_per_pair d"
  shows "ids_distinct (snd (createOrUpdate u m dto d)) \<and>
         one_rating_per_pair (snd (createOrUpdate u m dto d))"
proof (cases "find (\<lambda>x. movie.id x = m) (movies d) = None \<or>
              find (\<lambda>x. user.id x = u) (users d) = None")
  case True
  from createOrUpdate_missing[OF True, of dto] inv show ?thesis by auto
next
  case False
  then obtain mv usr where mv: "find (\<lambda>x. movie.id x = m) (movies d) = Some mv"
    and us: "find (\<lambda>x. user.id x = u) (users d) = Some usr" by auto
  show ?thesis
  proof (cases "decimal_column 2 (CreateRatingDto.rating dto)")
    case None
    show ?thesis using inv by (simp add: createOrUpdate_overflow[OF mv us None])
  next
    case fits: (Some v)
    show ?thesis
    proof (cases "find (\<lambda>r. rating.userId r = u \<and> rating.movieId r = m) (ratings d)")
      case None
      have fresh: "fresh_id (map rating.id (ratings d)) \<notin> rating.id ` set (ratings d)"
        using fresh_id_notin[of "map rating.id (ratings d)"] by simp
      have nopair: "(u, m) \<notin> (\<lambda>r. (rating.userId r, rating.movieId r)) ` set (ratings d)"
        using None by (auto simp: find_None_iff)
      show ?thesis
        using inv fresh nopair
        by (simp add: createOrUpdate_new(2)[OF mv us fits None] ids_distinct_def
            one_rating_per_pair_def)
    next
      case (Some e)
      let ?e' = "e\<lparr>rating.rating := v,
                     rating.review := or_string (CreateRatingDto.review dto) (rating.review e)\<rparr>"
      have mem: "e \<in> set (ratings d)" using Some by (auto simp: find_Some_iff)
      have same: "\<And>x. x \<in> set (ratings d) \<Longrightarrow> rating.id x = rating.id e \<Longrightarrow> x = e"
        using inv(1) mem by (auto simp: ids_distinct_def distinct_map inj_on_def)
      have m1: "map rating.id (map (\<lambda>x. if rating.id x = rating.id e then ?e' else x) (ratings d))
                = map rating.id (ratings d)"
        by (induction "ratings d") auto
      have m2: "map (\<lambda>r. (rating.userId r, rating.movieId r))
                   (map (\<lambda>x. if rating.id x = rating.id e then ?e' else x) (ratings d))
                = map (\<lambda>r. (rating.userId r, rating.movieId r)) (ratings d)"
        using same by (auto simp: map_eq_conv)
      have r: "ratings (snd (createOrUpdate u m dto d)) =
                 map (\<lambda>x. if rating.id x = rating.id e then ?e' else x) (ratings d)"
        by (rule createOrUpdate_existing(2)[OF mv us fits Some])
      show ?thesis
        unfolding ids_distinct_def one_rating_per_pair_def r m1 m2
        using inv unfolding ids_distinct_def one_rating_per_pair_def by blast
    qed
  qed
qed

text \<open>
  C1. \<^verbatim>\<open>createOrUpdate$\<close> on the pair (user, movie). If the movie or the user
  does not exist, it fails with a NotFoundException and the store is left as
  it was. If both exist, the write depends on the column \<^verbatim>\<open>decimal(2, 1)\<close> of
  the rating. A value that the column refuses, as the value 10 that the
  request admits, makes the save fail: the operation fails with that error
  and no rating is written or changed. A value that the column keeps is
  written, rounded to one decimal: when the user has a rating of the movie,
  that row gets the value and is saved under its own id, and nothing else is
  written; when there is none, one row for (user, movie) with the value is
  added under a fresh id. After the write the refresh of the statistics of
  the movie fails, and the operation answers that error and not the rating.
  In every case a table with distinct ids and at most one rating per (user,
  movie) pair stays so.
\<close>

theorem createOrUpdate_decimal_column:
  "(movieRepository_findOne (\<lambda>x. movie.id x = m) d = None \<or>
    userRepository_findOne (\<lambda>x. user.id x = u) d = None \<longrightarrow>
      (\<exists>msg. createOrUpdate u m dto d = (Inl (NotFoundException msg), d))) \<and>
   (movieRepository_findOne (\<lambda>x. movie.id x = m) d \<noteq> None \<and>
    userRepository_findOne (\<lambda>x. user.id x = u) d \<noteq> None \<longrightarrow>
      (decimal_column 2 (CreateRatingDto.rating dto) = None \<longrightarrow>
         createOrUpdate u m dto d =
           (Inl (Error [S ''QueryFailedError: numeric field overflow'']), d)) \<and>
      (\<forall>v. decimal_column 2 (CreateRatingDto.rating dto) = Some v \<longrightarrow>
         (\<exists>msg. fst (createOrUpdate u m dto d) = Inl (Error msg)) \<and>
         (\<forall>e. ratingRepository_findOne (\<lambda>r. rating.userId r = u \<and> rating.movieId r = m) d = Some e \<longrightarrow>
            ratings (snd (createOrUpdate u m dto d)) =
              map (\<lambda>x. if rating.id x = rating.id e
                        then e\<lparr>rating.rating := v,
                               rating.review :=
                                 or_string (CreateRatingDto.review dto) (rating.review e)\<rparr>
                        else x) (ratings d) \<and>
            journal (snd (createOrUpdate u m dto d)) = journal d @ [RatingSave (rating.id e)]) \<and>
         (ratingRepository_findOne (\<lambda>r. rating.userId r = u \<and> rating.movieId r = m) d = None \<longrightarrow>
            (\<exists>new. ratings (snd (createOrUpdate u m dto d)) = ratings d @ [new] \<and>
               rating.userId new = u \<and> rating.movieId new = m \<and>
               rating.rating new = v \<and>
               rating.review new = CreateRatingDto.review dto \<and>
               rating.id new \<notin> rating.id ` set (ratings d))))) \<and>
   (ids_distinct d \<and> one_rating_per_pair d \<longrightarrow>
      ids_distinct (snd (createOrUpdate u m dto d)) \<and>
      one_rating_per_pair (snd (createOrUpdate u m dto d)))"
proof (intro conjI impI allI)
  assume "movieRepository_findOne (\<lambda>x. movie.id x = m) d = None \<or>
          userRepository_findOne (\<lambda>x. user.id x = u) d = None"
  then show "\<exists>msg. createOrUpdate u m dto d = (Inl (NotFoundException msg), d)"
    unfolding movieRepository_findOne_def userRepository_findOne_def
    by (rule createOrUpdate_missing)
next
  assume a: "movieRepository_findOne (\<lambda>x. movie.id x = m) d \<noteq> None \<and>
          userRepository_findOne (\<lambda>x. user.id x = u) d \<noteq> None"
    and ov: "decimal_column 2 (CreateRatingDto.rating dto) = None"
  from a obtain mv usr where mv: "find (\<lambda>x. movie.id x = m) (movies d) = Some mv"
    and us: "find (\<lambda>x. user.id x = u) (users d) = Some usr"
    by (auto simp: movieRepository_findOne_def userRepository_findOne_def)
  show "createOrUpdate u m dto d =
           (Inl (Error [S ''QueryFailedError: numeric field overflow'']), d)"
    by (rule createOrUpdate_overflow[OF mv us ov])
next
  fix v
  assume a: "movieRepository_findOne (\<lambda>x. movie.id x = m) d \<noteq> None \<and>
          userRepository_findOne (\<lambda>x. user.id x = u) d \<noteq> None"
    and fits: "decimal_column 2 (CreateRatingDto.rating dto) = Some v"
  from a obtain mv usr where mv: "find (\<lambda>x. movie.id x = m) (movies d) = Some mv"
    and us: "find (\<lambda>x. user.id x = u) (users d) = Some usr"
    by (auto simp: movieRepository_findOne_def userRepository_findOne_def)
  show "\<exists>msg. fst (createOrUpdate u m dto d) = Inl (Error msg)"
    using createOrUpdate_existing(1)[OF mv us fits] createOrUpdate_new(1)[OF mv us fits]
    by (cases "find (\<lambda>r. rating.userId r = u \<and> rating.movieId r = m) (ratings d)") blast+
next
  fix v e
  assume a: "movieRepository_findOne (\<lambda>x. movie.id x = m) d \<noteq> None \<and>
          userRepository_findOne (\<lambda>x. user.id x = u) d \<noteq> None"
    and fits: "decimal_column 2 (CreateRatingDto.rating dto) = Some v"
    and ex: "ratingRepository_findOne (\<lambda>r. rating.userId r = u \<and> rating.movieId r = m) d = Some e"
  from a obtain mv usr where mv: "find (\<lambda>x. movie.id x = m) (movies d) = Some mv"
    and us: "find (\<lambda>x. user.id x = u) (users d) = Some usr"
    by (auto simp: movieRepository_findOne_def userRepository_findOne_def)
  note ex' = ex[unfolded ratingRepository_findOne_def]
  note f = createOrUpdate_existing[OF mv us fits ex']
  show "ratings (snd (createOrUpdate u m dto d)) =
              map (\<lambda>x. if rating.id x = rating.id e
                        then e\<lparr>rating.rating := v,
                               rating.review :=
                                 or_string (CreateRatingDto.review dto) (rating.review e)\<rparr>
                        else x) (ratings d)"
    by (rule f(2))
  show "journal (snd (createOrUpdate u m dto d)) = journal d @ [RatingSave (rating.id e)]"
    by (rule f(3))
next
  fix v
  assume a: "movieRepository_findOne (\<lambda>x. movie.id x = m) d \<noteq> None \<and>
          userRepository_findOne (\<lambda>x. user.id x = u) d \<noteq> None"
    and fits: "decimal_column 2 (CreateRatingDto.rating dto) = Some v"
    and ex: "ratingRepository_findOne (\<lambda>r. rating.userId r = u \<and> rating.movieId r = m) d = None"
  from a obtain mv usr where mv: "find (\<lambda>x. movie.id x = m) (movies d) = Some mv"
    and us: "find (\<lambda>x. user.id x = u) (users d) = Some usr"
    by (auto simp: movieRepository_findOne_def userRepository_findOne_def)
  note ex' = ex[unfolded ratingRepository_findOne_def]
  note f = createOrUpdate_new[OF mv us fits ex']
  have "fresh_id (map rating.id (ratings d)) \<notin> rating.id ` set (ratings d)"
    using fresh_id_notin[of "map rating.id (ratings d)"] by simp
  then show "\<exists>new. ratings (snd (createOrUpdate u m dto d)) = ratings d @ [new] \<and>
               rating.userId new = u \<and> rating.movieId new = m \<and>
               rating.rating new = v \<and>
               rating.review new = CreateRatingDto.review dto \<and>
               rating.id new \<notin> rating.id ` set (ratings d)"
    using f(2) by simp
next
  assume "ids_distinct d \<and> one_rating_per_pair d"
  then show "ids_distinct (snd (createOrUpdate u m dto d))"
    and "one_rating_per_pair (snd (createOrUpdate u m dto d))"
    using createOrUpdate_keeps_invariants[of d u m dto] by blast+
qed

theorem createOrUpdate_decimal_column_witness:
  "ids_distinct store1 \<and> one_rating_per_pair store1 \<and>
   createOrUpdate 1 9 dto9 store1 =
     (Inl (NotFoundException [S ''Movie with ID '', N 9, S '' not found'']), store1) \<and>
   createOrUpdate 7 1 dto9 store1 =
     (Inl (NotFoundException [S ''User with ID '', N 7, S '' not found'']), store1) \<and>
   decimal_column 2 (CreateRatingDto.rating dto10) = None \<and>
   createOrUpdate 2 2 dto10 store1 =
     (Inl (Error [S ''QueryFailedError: numeric field overflow'']), store1) \<and>
   createOrUpdate 1 1 dto10 store1 =
     (Inl (Error [S ''QueryFailedError: numeric field overflow'']), store1) \<and>
   decimal_column 2 (CreateRatingDto.rating dto845) = Some (17 / 2) \<and>
   isl (fst (createOrUpdate 1 1 dto845 store1)) \<and>
   map rating.rating (ratings (snd (createOrUpdate 1 1 dto845 store1))) = [17 / 2, 8, 42 / 5, 2] \<and>
   isl (fst (createOrUpdate 2 2 dto9 store1)) \<and>
   map rating.rating (ratings (snd (createOrUpdate 2 2 dto9 store1))) = [15 / 2, 8, 42 / 5, 2, 9] \<and>
   one_rating_per_pair (snd (createOrUpdate 1 1 dto845 store1)) \<and>
   one_rating_per_pair (snd (createOrUpdate 2 2 dto9 store1))"
proof -
  have inv: "ids_distinct store1 \<and> one_rating_per_pair store1"
    by (simp add: ids_distinct_def one_rating_per_pair_def sample_defs)
  have mv: "movieRepository_findOne (\<lambda>x. movie.id x = 1) store1 \<noteq> None"
      "movieRepository_findOne (\<lambda>x. movie.id x = 2) store1 \<noteq> None"
      "movieRepository_findOne (\<lambda>x. movie.id x = 9) store1 = None"
    by (simp_all add: movieRepository_findOne_def sample_defs)
  have us: "userRepository_findOne (\<lambda>x. user.id x = 1) store1 \<noteq> None"
      "userRepository_findOne (\<lambda>x. user.id x = 2) store1 \<noteq> None"
      "userRepository_findOne (\<lambda>x. user.id x = 7) store1 = None"
    by (simp_all add: userRepository_findOne_def sample_defs)
  have ex: "ratingRepository_findOne (\<lambda>r. rating.userId r = 1 \<and> rating.movieId r = 1) store1
              = Some (hd (ratings store0))"
      "ratingRepository_findOne (\<lambda>r. rating.userId r = 2 \<and> rating.movieId r = 2) store1 = None"
    by (simp_all add: ratingRepository_findOne_def sample_defs)
  have dc: "decimal_column 2 (CreateRatingDto.rating dto10) = None"
    "decimal_column 2 (CreateRatingDto.rating dto845) = Some (17 / 2)"
    "decimal_column 2 (CreateRatingDto.rating dto9) = Some 9"
    by (simp_all add: dto10_def dto845_def dto9_def decimal_column_def round_half_away_def
        Let_def floor_eq_iff)
  have a: "createOrUpdate 1 9 dto9 store1 =
     (Inl (NotFoundException [S ''Movie with ID '', N 9, S '' not found'']), store1)"
    by (simp add: createOrUpdate_def mv)
  have b: "createOrUpdate 7 1 dto9 store1 =
     (Inl (NotFoundException [S ''User with ID '', N 7, S '' not found'']), store1)"
    using mv(1) by (auto simp add: createOrUpdate_def us split: option.splits)
  have o: "createOrUpdate 2 2 dto10 store1 =
             (Inl (Error [S ''QueryFailedError: numeric field overflow'']), store1)"
     "createOrUpdate 1 1 dto10 store1 =
             (Inl (Error [S ''QueryFailedError: numeric field overflow'']), store1)"
    using createOrUpdate_decimal_column[of 2 store1 2 dto10]
      createOrUpdate_decimal_column[of 1 store1 1 dto10] mv us dc(1) by blast+
  have "ratings (snd (createOrUpdate 1 1 dto845 store1)) =
           map (\<lambda>x. if rating.id x = rating.id (hd (ratings store0))
                     then (hd (ratings store0))\<lparr>rating.rating := 17 / 2,
                            rating.review :=
                              or_string (CreateRatingDto.review dto845)
                                (rating.review (hd (ratings store0)))\<rparr>
                     else x) (ratings store1)"
    using createOrUpdate_decimal_column[of 1 store1 1 dto845] mv(1) us(1) ex(1) dc(2) by blast
  then have c: "map rating.rating (ratings (snd (createOrUpdate 1 1 dto845 store1)))
                  = [17 / 2, 8, 42 / 5, 2]"
    by (simp add: sample_defs)
  obtain new where "ratings (snd (createOrUpdate 2 2 dto9 store1)) = ratings store1 @ [new]"
     "rating.rating new = 9"
    using createOrUpdate_decimal_column[of 2 store1 2 dto9] mv(2) us(2) ex(2) dc(3) by blast
  then have e: "map rating.rating (ratings (snd (createOrUpdate 2 2 dto9 store1)))
                  = [15 / 2, 8, 42 / 5, 2, 9]"
    by (simp add: sample_defs)
  have f: "isl (fst (createOrUpdate 1 1 dto845 store1))" "isl (fst (createOrUpdate 2 2 dto9 store1))"
    using createOrUpdate_decimal_column[of 1 store1 1 dto845]
      createOrUpdate_decimal_column[of 2 store1 2 dto9] mv us dc by (metis sum.disc(1))+
  show ?thesis
    using inv a b c e f o dc(1,2) createOrUpdate_decimal_column[of 1 store1 1 dto845]
      createOrUpdate_decimal_column[of 2 store1 2 dto9]
    by blast
qed

subsection \<open>Ownership of a rating\<close>

lemma apply_update_keys [simp]:
  "rating.id (apply_update dto r) = rating.id r"
  "rating.movieId (apply_update dto r) = rating.movieId r"
  "rating.userId (apply_update dto r) = rating.userId r"
  by (simp_all add: apply_update_def)









subsection \<open>Registration\<close>

text \<open>
  The claim C4 as it is written fails where both the username and the email
  are taken: the username is checked first, so the error is "Username
  already exists" and not "Email already exists".
\<close>

theorem users_create_counterexample:
  "user1 \<in> set (users store1) \<and>
   user.email user1 = CreateUserDto.email dto_ann \<and>
   users_create sample_hash dto_ann store1 =
     (Inl (ConflictException [S ''Username already exists'']), store1) \<and>
   fst (users_create sample_hash dto_ann store1) \<noteq>
     Inl (ConflictException [S ''Email already exists''])"
  by (simp add: users_create_def userRepository_findOne_def sample_defs dto_ann_def)

text \<open>
  C4, amended. \<^verbatim>\<open>create$\<close> checks uniqueness before the insert, the username
  first: it fails with the ConflictException "Username already exists" when
  a user with the requested username exists; it fails with the
  ConflictException "Email already exists" when no user has the requested
  username and a user with the requested email exists; in both cases the
  store is left as it was. When neither exists it saves one new user with
  the requested username and email under a fresh id, and it saves a user in
  no other case.
\<close>

theorem users_create_spec:
  "(userRepository_findOne (\<lambda>u. user.username u = CreateUserDto.username dto) d \<noteq> None \<longrightarrow>
      users_create hash dto d = (Inl (ConflictException [S ''Username already exists'']), d)) \<and>
   (userRepository_findOne (\<lambda>u. user.username u = CreateUserDto.username dto) d = None \<and>
    userRepository_findOne (\<lambda>u. user.email u = CreateUserDto.email dto) d \<noteq> None \<longrightarrow>
      users_create hash dto d = (Inl (ConflictException [S ''Email already exists'']), d)) \<and>
   (userRepository_findOne (\<lambda>u. user.username u = CreateUserDto.username dto) d = None \<and>
    userRepository_findOne (\<lambda>u. user.email u = CreateUserDto.email dto) d = None \<longrightarrow>
      (\<exists>new. fst (users_create hash dto d) = Inr new \<and>
         users (snd (users_create hash dto d)) = users d @ [new] \<and>
         journal (snd (users_create hash dto d)) = journal d @ [UserSave (user.id new)] \<and>
         user.username new = CreateUserDto.username dto \<and>
         user.email new = CreateUserDto.email dto \<and>
         user.id new \<notin> user.id ` set (users d))) \<and>
   (\<forall>new. fst (users_create hash dto d) = Inr new \<longrightarrow>
      userRepository_findOne (\<lambda>u. user.username u = CreateUserDto.username dto) d = None \<and>
      userRepository_findOne (\<lambda>u. user.email u = CreateUserDto.email dto) d = None)"
proof -
  have fresh: "fresh_id (map user.id (users d)) \<notin> user.id ` set (users d)"
    using fresh_id_notin[of "map user.id (users d)"] by simp
  show ?thesis
    using fresh
    by (auto simp: users_create_def userRepository_insert_def hashPassword_def Let_def)
qed

theorem users_create_witness:
  "userRepository_findOne (\<lambda>u. user.username u = CreateUserDto.username dto_ann) store1 \<noteq> None \<and>
   users_create sample_hash dto_ann store1 =
     (Inl (ConflictException [S ''Username already exists'']), store1) \<and>
   userRepository_findOne (\<lambda>u. user.username u = CreateUserDto.username dto_dan) store1 = None \<and>
   userRepository_findOne (\<lambda>u. user.email u = CreateUserDto.email dto_dan) store1 = None \<and>
   map user.username (users (snd (users_create sample_hash dto_dan store1)))
     = [''ann'', ''bob'', ''cy'', ''dan''] \<and>
   users_create sample_hash (dto_dan\<lparr>CreateUserDto.email := ''bob@example.com''\<rparr>) store1 =
     (Inl (ConflictException [S ''Email already exists'']), store1)"
proof -
  have a: "userRepository_findOne (\<lambda>u. user.username u = CreateUserDto.username dto_ann) store1 \<noteq> None"
    by (simp add: userRepository_findOne_def sample_defs dto_ann_def)
  have b: "userRepository_findOne (\<lambda>u. user.username u = CreateUserDto.username dto_dan) store1 = None"
      "userRepository_findOne (\<lambda>u. user.email u = CreateUserDto.email dto_dan) store1 = None"
    by (simp_all add: userRepository_findOne_def sample_defs dto_dan_def)
  have c: "userRepository_findOne (\<lambda>u. user.username u =
              CreateUserDto.username (dto_dan\<lparr>CreateUserDto.email := ''bob@example.com''\<rparr>)) store1 = None"
      "userRepository_findOne (\<lambda>u. user.email u =
              CreateUserDto.email (dto_dan\<lparr>CreateUserDto.email := ''bob@example.com''\<rparr>)) store1 \<noteq> None"
    by (simp_all add: userRepository_findOne_def sample_defs dto_dan_def)
  obtain new where n: "users (snd (users_create sample_hash dto_dan store1)) = users store1 @ [new]"
      "user.username new = CreateUserDto.username dto_dan"
    using users_create_spec[of dto_dan store1 sample_hash] b by blast
  have e: "map user.username (users (snd (users_create sample_hash dto_dan store1)))
     = [''ann'', ''bob'', ''cy'', ''dan'']"
    unfolding n(1) by (simp add: n(2)) (simp add: sample_defs dto_dan_def)
  show ?thesis
    using a b c e users_create_spec[of dto_ann store1 sample_hash]
      users_create_spec[of "dto_dan\<lparr>CreateUserDto.email := ''bob@example.com''\<rparr>" store1 sample_hash]
    by blast
qed

subsection \<open>Watchlist and favorites\<close>

lemma hashPassword_fields [simp]:
  "user.id (hashPassword h u) = user.id u"
  "user.watchlist (hashPassword h u) = user.watchlist u"
  "user.favorites (hashPassword h u) = user.favorites u"
  by (simp_all add: hashPassword_def)

lemma users_findOne_Inr:
  assumes "users_findOne i d = Inr u"
  shows "user.id u = i" and "u \<in> set (users d)"
  using assms
  by (auto simp: users_findOne_def userRepository_findOne_def find_Some_iff split: option.splits)

lemma find_replaced:
  assumes "find (\<lambda>x. user.id x = i) xs = Some u" and "user.id u' = i"
  shows "find (\<lambda>x. user.id x = i) (map (\<lambda>x. if user.id x = i then u' else x) xs) = Some u'"
  using assms by (induction xs) (auto split: if_splits)

lemma users_findOne_after_save:
  assumes "users_findOne i d = Inr u" and "user.id u' = i"
  shows "users_findOne i (snd (userRepository_save h u' d)) = Inr (hashPassword h u')"
proof -
  have f: "find (\<lambda>x. user.id x = i) (users d) = Some u"
    using assms(1) by (simp add: users_findOne_def userRepository_findOne_def split: option.splits)
  have "i \<in> user.id ` set (users d)"
    using users_findOne_Inr[OF assms(1)] by force
  then show ?thesis
    using find_replaced[OF f, of "hashPassword h u'"] assms(2)
    by (simp add: users_findOne_def userRepository_findOne_def userRepository_save_def Let_def)
qed

lemma movies_after_user_save [simp]:
  "movies (snd (userRepository_save h u d)) = movies d"
  by (simp add: userRepository_save_def Let_def)

lemma addToWatchlist_no_movie:
  assumes "movieRepository_findOne (\<lambda>m. movie.id m = movie_id) d = None"
  shows "\<exists>msg. addToWatchlist h user_id movie_id d = (Inl (NotFoundException msg), d)"
  using assms
  by (auto simp: addToWatchlist_def users_findOne_def split: option.splits sum.splits)

lemma addToWatchlist_present:
  assumes "users_findOne user_id d = Inr u" and "movie_id \<in> set (user.watchlist u)"
    and "movieRepository_findOne (\<lambda>m. movie.id m = movie_id) d \<noteq> None"
  shows "addToWatchlist h user_id movie_id d = (Inr u, d)"
  using assms by (auto simp: addToWatchlist_def)

lemma addToWatchlist_absent:
  assumes u: "users_findOne user_id d = Inr u" and n: "movie_id \<notin> set (user.watchlist u)"
    and m: "movieRepository_findOne (\<lambda>m. movie.id m = movie_id) d \<noteq> None"
  shows "addToWatchlist h user_id movie_id d =
           (Inr (hashPassword h (u\<lparr>user.watchlist := user.watchlist u @ [movie_id]\<rparr>)),
            snd (userRepository_save h (u\<lparr>user.watchlist := user.watchlist u @ [movie_id]\<rparr>) d))"
proof -
  from m obtain mv where mv: "movieRepository_findOne (\<lambda>m. movie.id m = movie_id) d = Some mv"
    by auto
  then have "movie.id mv = movie_id"
    by (auto simp: movieRepository_findOne_def find_Some_iff)
  then show ?thesis
    using u n mv
    by (simp add: addToWatchlist_def userRepository_save_def Let_def)
qed

lemma addToWatchlist_twice:
  "addToWatchlist h user_id movie_id (snd (addToWatchlist h user_id movie_id d))
     = addToWatchlist h user_id movie_id d"
proof (cases "users_findOne user_id d")
  case (Inl e)
  then show ?thesis by (simp add: addToWatchlist_def)
next
  case (Inr u)
  show ?thesis
  proof (cases "movieRepository_findOne (\<lambda>m. movie.id m = movie_id) d = None")
    case True
    then show ?thesis using Inr by (simp add: addToWatchlist_def)
  next
    case mv: False
    show ?thesis
    proof (cases "movie_id \<in> set (user.watchlist u)")
      case True
      then show ?thesis using addToWatchlist_present[OF Inr True mv] by simp
    next
      case False
      let ?u' = "u\<lparr>user.watchlist := user.watchlist u @ [movie_id]\<rparr>"
      let ?d' = "snd (userRepository_save h ?u' d)"
      have id: "user.id ?u' = user_id" using users_findOne_Inr(1)[OF Inr] by simp
      have f: "users_findOne user_id ?d' = Inr (hashPassword h ?u')"
        by (rule users_findOne_after_save[OF Inr id])
      have mv': "movieRepository_findOne (\<lambda>m. movie.id m = movie_id) ?d' \<noteq> None"
        using mv by (simp add: movieRepository_findOne_def)
      have "addToWatchlist h user_id movie_id ?d' = (Inr (hashPassword h ?u'), ?d')"
        by (rule addToWatchlist_present[OF f _ mv']) simp
      then show ?thesis
        by (simp add: addToWatchlist_absent[OF Inr False mv])
    qed
  qed
qed

lemma addToWatchlist_stored:
  assumes u: "users_findOne user_id d = Inr u"
    and m: "movieRepository_findOne (\<lambda>m. movie.id m = movie_id) d \<noteq> None"
  shows "\<exists>u'. fst (addToWatchlist h user_id movie_id d) = Inr u' \<and>
              users_findOne user_id (snd (addToWatchlist h user_id movie_id d)) = Inr u' \<and>
              user.watchlist u' =
                (if movie_id \<in> set (user.watchlist u) then user.watchlist u
                 else user.watchlist u @ [movie_id])"
proof (cases "movie_id \<in> set (user.watchlist u)")
  case True
  then show ?thesis using addToWatchlist_present[OF u True m] u by simp
next
  case False
  let ?u' = "u\<lparr>user.watchlist := user.watchlist u @ [movie_id]\<rparr>"
  have id: "user.id ?u' = user_id" using users_findOne_Inr(1)[OF u] by simp
  show ?thesis
    using False users_findOne_after_save[OF u id, of h]
    by (simp add: addToWatchlist_absent[OF u False m])
qed

lemma removeFromWatchlist_stored:
  assumes u: "users_findOne user_id d = Inr u"
  shows "\<exists>u'. fst (removeFromWatchlist h user_id movie_id d) = Inr u' \<and>
              users_findOne user_id (snd (removeFromWatchlist h user_id movie_id d)) = Inr u' \<and>
              user.watchlist u' = filter (\<lambda>x. x \<noteq> movie_id) (user.watchlist u)"
proof -
  let ?u' = "u\<lparr>user.watchlist := filter (\<lambda>x. x \<noteq> movie_id) (user.watchlist u)\<rparr>"
  have id: "user.id ?u' = user_id" using users_findOne_Inr(1)[OF u] by simp
  have r: "removeFromWatchlist h user_id movie_id d =
             (Inr (hashPassword h ?u'), snd (userRepository_save h ?u' d))"
    using u by (simp add: removeFromWatchlist_def userRepository_save_def Let_def)
  show ?thesis
    using users_findOne_after_save[OF u id, of h] by (simp add: r)
qed

lemma addToFavorites_no_movie:
  assumes "movieRepository_findOne (\<lambda>m. movie.id m = movie_id) d = None"
  shows "\<exists>msg. addToFavorites h user_id movie_id d = (Inl (NotFoundException msg), d)"
  using assms
  by (auto simp: addToFavorites_def users_findOne_def split: option.splits sum.splits)

lemma addToFavorites_present:
  assumes "users_findOne user_id d = Inr u" and "movie_id \<in> set (user.favorites u)"
    and "movieRepository_findOne (\<lambda>m. movie.id m = movie_id) d \<noteq> None"
  shows "addToFavorites h user_id movie_id d = (Inr u, d)"
  using assms by (auto simp: addToFavorites_def)

lemma addToFavorites_absent:
  assumes u: "users_findOne user_id d = Inr u" and n: "movie_id \<notin> set (user.favorites u)"
    and m: "movieRepository_findOne (\<lambda>m. movie.id m = movie_id) d \<noteq> None"
  shows "addToFavorites h user_id movie_id d =
           (Inr (hashPassword h (u\<lparr>user.favorites := user.favorites u @ [movie_id]\<rparr>)),
            snd (userRepository_save h (u\<lparr>user.favorites := user.favorites u @ [movie_id]\<rparr>) d))"
proof -
  from m obtain mv where mv: "movieRepository_findOne (\<lambda>m. movie.id m = movie_id) d = Some mv"
    by auto
  then have "movie.id mv = movie_id"
    by (auto simp: movieRepository_findOne_def find_Some_iff)
  then show ?thesis
    using u n mv
    by (simp add: addToFavorites_def userRepository_save_def Let_def)
qed

lemma addToFavorites_twice:
  "addToFavorites h user_id movie_id (snd (addToFavorites h user_id movie_id d))
     = addToFavorites h user_id movie_id d"
proof (cases "users_findOne user_id d")
  case (Inl e)
  then show ?thesis by (simp add: addToFavorites_def)
next
  case (Inr u)
  show ?thesis
  proof (cases "movieRepository_findOne (\<lambda>m. movie.id m = movie_id) d = None")
    case True
    then show ?thesis using Inr by (simp add: addToFavorites_def)
  next
    case mv: False
    show ?thesis
    proof (cases "movie_id \<in> set (user.favorites u)")
      case True
      then show ?thesis using addToFavorites_present[OF Inr True mv] by simp
    next
      case False
      let ?u' = "u\<lparr>user.favorites := user.favorites u @ [movie_id]\<rparr>"
      let ?d' = "snd (userRepository_save h ?u' d)"
      have id: "user.id ?u' = user_id" using users_findOne_Inr(1)[OF Inr] by simp
      have f: "users_findOne user_id ?d' = Inr (hashPassword h ?u')"
        by (rule users_findOne_after_save[OF Inr id])
      have mv': "movieRepository_findOne (\<lambda>m. movie.id m = movie_id) ?d' \<noteq> None"
        using mv by (simp add: movieRepository_findOne_def)
      have "addToFavorites h user_id movie_id ?d' = (Inr (hashPassword h ?u'), ?d')"
        by (rule addToFavorites_present[OF f _ mv']) simp
      then show ?thesis
        by (simp add: addToFavorites_absent[OF Inr False mv])
    qed
  qed
qed

lemma addToFavorites_stored:
  assumes u: "users_findOne user_id d = Inr u"
    and m: "movieRepository_findOne (\<lambda>m. movie.id m = movie_id) d \<noteq> None"
  shows "\<exists>u'. fst (addToFavorites h user_id movie_id d) = Inr u' \<and>
              users_findOne user_id (snd (addToFavorites h user_id movie_id d)) = Inr u' \<and>
              user.favorites u' =
                (if movie_id \<in> set (user.favorites u) then user.favorites u
                 else user.favorites u @ [movie_id])"
proof (cases "movie_id \<in> set (user.favorites u)")
  case True
  then show ?thesis using addToFavorites_present[OF u True m] u by simp
next
  case False
  let ?u' = "u\<lparr>user.favorites := user.favorites u @ [movie_id]\<rparr>"
  have id: "user.id ?u' = user_id" using users_findOne_Inr(1)[OF u] by simp
  show ?thesis
    using False users_findOne_after_save[OF u id, of h]
    by (simp add: addToFavorites_absent[OF u False m])
qed

lemma removeFromFavorites_stored:
  assumes u: "users_findOne user_id d = Inr u"
  shows "\<exists>u'. fst (removeFromFavorites h user_id movie_id d) = Inr u' \<and>
              users_findOne user_id (snd (removeFromFavorites h user_id movie_id d)) = Inr u' \<and>
              user.favorites u' = filter (\<lambda>x. x \<noteq> movie_id) (user.favorites u)"
proof -
  let ?u' = "u\<lparr>user.favorites := filter (\<lambda>x. x \<noteq> movie_id) (user.favorites u)\<rparr>"
  have id: "user.id ?u' = user_id" using users_findOne_Inr(1)[OF u] by simp
  have r: "removeFromFavorites h user_id movie_id d =
             (Inr (hashPassword h ?u'), snd (userRepository_save h ?u' d))"
    using u by (simp add: removeFromFavorites_def userRepository_save_def Let_def)
  show ?thesis
    using users_findOne_after_save[OF u id, of h] by (simp add: r)
qed

lemma watchlist_membership:
  "(movieRepository_findOne (\<lambda>m. movie.id m = movie_id) d = None \<longrightarrow>
      (\<exists>msg. addToWatchlist h user_id movie_id d = (Inl (NotFoundException msg), d))) \<and>
   (\<forall>u. users_findOne user_id d = Inr u \<and>
        movieRepository_findOne (\<lambda>m. movie.id m = movie_id) d \<noteq> None \<longrightarrow>
      (movie_id \<in> set (user.watchlist u) \<longrightarrow> addToWatchlist h user_id movie_id d = (Inr u, d)) \<and>
      (\<exists>u'. fst (addToWatchlist h user_id movie_id d) = Inr u' \<and>
            users_findOne user_id (snd (addToWatchlist h user_id movie_id d)) = Inr u' \<and>
            set (user.watchlist u') = insert movie_id (set (user.watchlist u)) \<and>
            (distinct (user.watchlist u) \<longrightarrow> distinct (user.watchlist u')))) \<and>
   addToWatchlist h user_id movie_id (snd (addToWatchlist h user_id movie_id d))
     = addToWatchlist h user_id movie_id d \<and>
   (\<forall>u. users_findOne user_id d = Inr u \<longrightarrow>
      (\<exists>u'. fst (removeFromWatchlist h user_id movie_id d) = Inr u' \<and>
            users_findOne user_id (snd (removeFromWatchlist h user_id movie_id d)) = Inr u' \<and>
            user.watchlist u' = filter (\<lambda>x. x \<noteq> movie_id) (user.watchlist u) \<and>
            movie_id \<notin> set (user.watchlist u')))"
proof (intro conjI impI allI)
  assume "movieRepository_findOne (\<lambda>m. movie.id m = movie_id) d = None"
  then show "\<exists>msg. addToWatchlist h user_id movie_id d = (Inl (NotFoundException msg), d)"
    by (rule addToWatchlist_no_movie)
next
  fix u
  assume a: "users_findOne user_id d = Inr u \<and>
        movieRepository_findOne (\<lambda>m. movie.id m = movie_id) d \<noteq> None"
  { assume "movie_id \<in> set (user.watchlist u)"
    then show "addToWatchlist h user_id movie_id d = (Inr u, d)"
      using addToWatchlist_present a by blast }
  from a addToWatchlist_stored[of user_id d u movie_id h]
  obtain u' where u': "fst (addToWatchlist h user_id movie_id d) = Inr u'"
      "users_findOne user_id (snd (addToWatchlist h user_id movie_id d)) = Inr u'"
      "user.watchlist u' = (if movie_id \<in> set (user.watchlist u) then user.watchlist u
                 else user.watchlist u @ [movie_id])"
    by blast
  have "set (user.watchlist u') = insert movie_id (set (user.watchlist u))"
    "distinct (user.watchlist u) \<longrightarrow> distinct (user.watchlist u')"
    using u'(3) by auto
  then show "\<exists>u'. fst (addToWatchlist h user_id movie_id d) = Inr u' \<and>
            users_findOne user_id (snd (addToWatchlist h user_id movie_id d)) = Inr u' \<and>
            set (user.watchlist u') = insert movie_id (set (user.watchlist u)) \<and>
            (distinct (user.watchlist u) \<longrightarrow> distinct (user.watchlist u'))"
    using u'(1,2) by blast
next
  show "addToWatchlist h user_id movie_id (snd (addToWatchlist h user_id movie_id d))
     = addToWatchlist h user_id movie_id d"
    by (rule addToWatchlist_twice)
next
  fix u
  assume "users_findOne user_id d = Inr u"
  from removeFromWatchlist_stored[OF this, of h movie_id]
  show "\<exists>u'. fst (removeFromWatchlist h user_id movie_id d) = Inr u' \<and>
            users_findOne user_id (snd (removeFromWatchlist h user_id movie_id d)) = Inr u' \<and>
            user.watchlist u' = filter (\<lambda>x. x \<noteq> movie_id) (user.watchlist u) \<and>
            movie_id \<notin> set (user.watchlist u')"
    by auto
qed

lemma favorites_membership:
  "(movieRepository_findOne (\<lambda>m. movie.id m = movie_id) d = None \<longrightarrow>
      (\<exists>msg. addToFavorites h user_id movie_id d = (Inl (NotFoundException msg), d))) \<and>
   (\<forall>u. users_findOne user_id d = Inr u \<and>
        movieRepository_findOne (\<lambda>m. movie.id m = movie_id) d \<noteq> None \<longrightarrow>
      (movie_id \<in> set (user.favorites u) \<longrightarrow> addToFavorites h user_id movie_id d = (Inr u, d)) \<and>
      (\<exists>u'. fst (addToFavorites h user_id movie_id d) = Inr u' \<and>
            users_findOne user_id (snd (addToFavorites h user_id movie_id d)) = Inr u' \<and>
            set (user.favorites u') = insert movie_id (set (user.favorites u)) \<and>
            (distinct (user.favorites u) \<longrightarrow> distinct (user.favorites u')))) \<and>
   addToFavorites h user_id movie_id (snd (addToFavorites h user_id movie_id d))
     = addToFavorites h user_id movie_id d \<and>
   (\<forall>u. users_findOne user_id d = Inr u \<longrightarrow>
      (\<exists>u'. fst (removeFromFavorites h user_id movie_id d) = Inr u' \<and>
            users_findOne user_id (snd (removeFromFavorites h user_id movie_id d)) = Inr u' \<and>
            user.favorites u' = filter (\<lambda>x. x \<noteq> movie_id) (user.favorites u) \<and>
            movie_id \<notin> set (user.favorites u')))"
proof (intro conjI impI allI)
  assume "movieRepository_findOne (\<lambda>m. movie.id m = movie_id) d = None"
  then show "\<exists>msg. addToFavorites h user_id movie_id d = (Inl (NotFoundException msg), d)"
    by (rule addToFavorites_no_movie)
next
  fix u
  assume a: "users_findOne user_id d = Inr u \<and>
        movieRepository_findOne (\<lambda>m. movie.id m = movie_id) d \<noteq> None"
  { assume "movie_id \<in> set (user.favorites u)"
    then show "addToFavorites h user_id movie_id d = (Inr u, d)"
      using addToFavorites_present a by blast }
  from a addToFavorites_stored[of user_id d u movie_id h]
  obtain u' where u': "fst (addToFavorites h user_id movie_id d) = Inr u'"
      "users_findOne user_id (snd (addToFavorites h user_id movie_id d)) = Inr u'"
      "user.favorites u' = (if movie_id \<in> set (user.favorites u) then user.favorites u
                 else user.favorites u @ [movie_id])"
    by blast
  have "set (user.favorites u') = insert movie_id (set (user.favorites u))"
    "distinct (user.favorites u) \<longrightarrow> distinct (user.favorites u')"
    using u'(3) by auto
  then show "\<exists>u'. fst (addToFavorites h user_id movie_id d) = Inr u' \<and>
            users_findOne user_id (snd (addToFavorites h user_id movie_id d)) = Inr u' \<and>
            set (user.favorites u') = insert movie_id (set (user.favorites u)) \<and>
            (distinct (user.favorites u) \<longrightarrow> distinct (user.favorites u'))"
    using u'(1,2) by blast
next
  show "addToFavorites h user_id movie_id (snd (addToFavorites h user_id movie_id d))
     = addToFavorites h user_id movie_id d"
    by (rule addToFavorites_twice)
next
  fix u
  assume "users_findOne user_id d = Inr u"
  from removeFromFavorites_stored[OF this, of h movie_id]
  show "\<exists>u'. fst (removeFromFavorites h user_id movie_id d) = Inr u' \<and>
            users_findOne user_id (snd (removeFromFavorites h user_id movie_id d)) = Inr u' \<and>
            user.favorites u' = filter (\<lambda>x. x \<noteq> movie_id) (user.favorites u) \<and>
            movie_id \<notin> set (user.favorites u')"
    by auto
qed

text \<open>
  C8. The watchlist of a user, and likewise the favorites, behaves as a set
  of movie ids. \<^verbatim>\<open>addToWatchlist$\<close> fails with a NotFoundException when the
  movie does not exist, and leaves the store as it was. For an existing user
  and movie: adding a movie that is already in the list returns the user
  unchanged and performs no save (the store, journal included, is the same);
  after an add the stored list holds the old ids and the added one, and a
  list without duplicates stays without duplicates. A second add of the same
  movie right after the first returns the same answer and the same store as
  the first. \<^verbatim>\<open>removeFromWatchlist$\<close> keeps the ids other than the given one,
  in order, and removes every occurrence of the given one.
\<close>

theorem watchlist_favorites_membership:
  "((movieRepository_findOne (\<lambda>m. movie.id m = movie_id) d = None \<longrightarrow>
      (\<exists>msg. addToWatchlist h user_id movie_id d = (Inl (NotFoundException msg), d))) \<and>
   (\<forall>u. users_findOne user_id d = Inr u \<and>
        movieRepository_findOne (\<lambda>m. movie.id m = movie_id) d \<noteq> None \<longrightarrow>
      (movie_id \<in> set (user.watchlist u) \<longrightarrow> addToWatchlist h user_id movie_id d = (Inr u, d)) \<and>
      (\<exists>u'. fst (addToWatchlist h user_id movie_id d) = Inr u' \<and>
            users_findOne user_id (snd (addToWatchlist h user_id movie_id d)) = Inr u' \<and>
            set (user.watchlist u') = insert movie_id (set (user.watchlist u)) \<and>
            (distinct (user.watchlist u) \<longrightarrow> distinct (user.watchlist u')))) \<and>
   addToWatchlist h user_id movie_id (snd (addToWatchlist h user_id movie_id d))
     = addToWatchlist h user_id movie_id d \<and>
   (\<forall>u. users_findOne user_id d = Inr u \<longrightarrow>
      (\<exists>u'. fst (removeFromWatchlist h user_id movie_id d) = Inr u' \<and>
            users_findOne user_id (snd (removeFromWatchlist h user_id movie_id d)) = Inr u' \<and>
            user.watchlist u' = filter (\<lambda>x. x \<noteq> movie_id) (user.watchlist u) \<and>
            movie_id \<notin> set (user.watchlist u')))) \<and>
   ((movieRepository_findOne (\<lambda>m. movie.id m = movie_id) d = None \<longrightarrow>
      (\<exists>msg. addToFavorites h user_id movie_id d = (Inl (NotFoundException msg), d))) \<and>
   (\<forall>u. users_findOne user_id d = Inr u \<and>
        movieRepository_findOne (\<lambda>m. movie.id m = movie_id) d \<noteq> None \<longrightarrow>
      (movie_id \<in> set (user.favorites u) \<longrightarrow> addToFavorites h user_id movie_id d = (Inr u, d)) \<and>
      (\<exists>u'. fst (addToFavorites h user_id movie_id d) = Inr u' \<and>
            users_findOne user_id (snd (addToFavorites h user_id movie_id d)) = Inr u' \<and>
            set (user.favorites u') = insert movie_id (set (user.favorites u)) \<and>
            (distinct (user.favorites u) \<longrightarrow> distinct (user.favorites u')))) \<and>
   addToFavorites h user_id movie_id (snd (addToFavorites h user_id movie_id d))
     = addToFavorites h user_id movie_id d \<and>
   (\<forall>u. users_findOne user_id d = Inr u \<longrightarrow>
      (\<exists>u'. fst (removeFromFavorites h user_id movie_id d) = Inr u' \<and>
            users_findOne user_id (snd (removeFromFavorites h user_id movie_id d)) = Inr u' \<and>
            user.favorites u' = filter (\<lambda>x. x \<noteq> movie_id) (user.favorites u) \<and>
            movie_id \<notin> set (user.favorites u'))))"
  using watchlist_membership[of movie_id d h user_id] favorites_membership[of movie_id d h user_id]
  by (rule conjI)

theorem watchlist_favorites_witness:
  "movieRepository_findOne (\<lambda>m. movie.id m = 9) store1 = None \<and>
   addToWatchlist sample_hash 2 9 store1 =
     (Inl (NotFoundException [S ''Movie with ID '', N 9, S '' not found'']), store1) \<and>
   users_findOne 1 store1 = Inr user1 \<and> 1 \<in> set (user.watchlist user1) \<and>
   distinct (user.watchlist user1) \<and>
   addToWatchlist sample_hash 1 1 store1 = (Inr user1, store1) \<and>
   fst (addToWatchlist sample_hash 1 2 store1) = Inr (user1\<lparr>user.watchlist := [1, 2]\<rparr>) \<and>
   fst (removeFromWatchlist sample_hash 1 1 store1) = Inr (user1\<lparr>user.watchlist := []\<rparr>) \<and>
   fst (addToFavorites sample_hash 1 2 store1) = Inr (user1\<lparr>user.favorites := [2]\<rparr>) \<and>
   addToFavorites sample_hash 1 2 (snd (addToFavorites sample_hash 1 2 store1))
     = addToFavorites sample_hash 1 2 store1"
proof -
  note spec = watchlist_favorites_membership
  have m9: "movieRepository_findOne (\<lambda>m. movie.id m = 9) store1 = None"
    by (simp add: movieRepository_findOne_def sample_defs)
  have m1: "movieRepository_findOne (\<lambda>m. movie.id m = 1) store1 \<noteq> None"
    by (simp add: movieRepository_findOne_def sample_defs)
  have u1: "users_findOne 1 store1 = Inr user1"
    by (simp add: users_findOne_def userRepository_findOne_def sample_defs)
  have w1: "1 \<in> set (user.watchlist user1)" "distinct (user.watchlist user1)"
    by (simp_all add: sample_defs)
  have a: "addToWatchlist sample_hash 2 9 store1 =
     (Inl (NotFoundException [S ''Movie with ID '', N 9, S '' not found'']), store1)"
    by (simp add: addToWatchlist_def users_findOne_def userRepository_findOne_def
        movieRepository_findOne_def sample_defs)
  have b: "addToWatchlist sample_hash 1 1 store1 = (Inr user1, store1)"
    using spec[of 1 store1 sample_hash 1] u1 m1 w1 by blast
  have c: "fst (addToWatchlist sample_hash 1 2 store1) = Inr (user1\<lparr>user.watchlist := [1, 2]\<rparr>)"
    by (simp add: addToWatchlist_def users_findOne_def userRepository_findOne_def
        movieRepository_findOne_def userRepository_save_def hashPassword_def Let_def sample_defs)
  have e: "fst (removeFromWatchlist sample_hash 1 1 store1) = Inr (user1\<lparr>user.watchlist := []\<rparr>)"
    by (simp add: removeFromWatchlist_def users_findOne_def userRepository_findOne_def
        userRepository_save_def hashPassword_def Let_def sample_defs)
  have f: "fst (addToFavorites sample_hash 1 2 store1) = Inr (user1\<lparr>user.favorites := [2]\<rparr>)"
    by (simp add: addToFavorites_def users_findOne_def userRepository_findOne_def
        movieRepository_findOne_def userRepository_save_def hashPassword_def Let_def sample_defs)
  have g: "addToFavorites sample_hash 1 2 (snd (addToFavorites sample_hash 1 2 store1))
     = addToFavorites sample_hash 1 2 store1"
    using spec[of 2 store1 sample_hash 1] by blast
  show ?thesis using m9 a u1 w1 b c e f g by blast
qed

subsection \<open>Login\<close>

text \<open>
  C10. When \<^verbatim>\<open>login$\<close> succeeds, the user object of the response has no
  property \<^verbatim>\<open>password\<close> (it has the other columns of the user that matched
  the name and whose stored hash matched the password), and the access token
  is the signature of a payload of exactly three claims: \<^verbatim>\<open>sub\<close> (the id of
  that user), \<^verbatim>\<open>username\<close> and \<^verbatim>\<open>email\<close>.
\<close>

theorem login_response:
  "login sign compare name pw d = Inr resp \<longrightarrow>
     ''password'' \<notin> fst ` set (AuthResponse.user resp) \<and>
     (\<exists>u\<in>set (users d).
        userRepository_findOne (\<lambda>u. user.username u = name \<or> user.email u = name) d = Some u \<and>
        compare pw (user.password u) \<and>
        accessToken resp =
          sign [(''sub'', JNum (user.id u)),
                (''username'', JStr (user.username u)),
                (''email'', JStr (user.email u))] \<and>
        AuthResponse.user resp =
          [(''id'', JNum (user.id u)),
           (''username'', JStr (user.username u)),
           (''email'', JStr (user.email u)),
           (''firstName'', js_of_option (user.firstName u)),
           (''lastName'', js_of_option (user.lastName u)),
           (''isActive'', JBool (user.isActive u))])"
  by (auto simp: login_def validateUser_def findByUsernameOrEmail_def userRepository_findOne_def
      rest_without_def user_object_def Let_def find_Some_iff
      split: sum.splits option.splits if_splits)

theorem login_response_witness:
  "login sample_sign sample_compare ''ann@example.com'' ''abc'' store1 =
     Inr \<lparr>user = [(''id'', JNum 1), (''username'', JStr ''ann''),
                  (''email'', JStr ''ann@example.com''), (''firstName'', JNull),
                  (''lastName'', JNull), (''isActive'', JBool True)],
          accessToken = ''sub;username;email;''\<rparr> \<and>
   ''password'' \<notin> fst ` set (AuthResponse.user
      \<lparr>user = [(''id'', JNum 1), (''username'', JStr ''ann''),
                  (''email'', JStr ''ann@example.com''), (''firstName'', JNull),
                  (''lastName'', JNull), (''isActive'', JBool True)],
          accessToken = ''sub;username;email;''\<rparr>)"
proof -
  have l: "login sample_sign sample_compare ''ann@example.com'' ''abc'' store1 =
     Inr \<lparr>user = [(''id'', JNum 1), (''username'', JStr ''ann''),
                  (''email'', JStr ''ann@example.com''), (''firstName'', JNull),
                  (''lastName'', JNull), (''isActive'', JBool True)],
          accessToken = ''sub;username;email;''\<rparr>"
    by (simp add: login_def validateUser_def findByUsernameOrEmail_def userRepository_findOne_def
      rest_without_def user_object_def js_of_option_def Let_def sample_sign_def sample_compare_def
      sample_defs)
  show ?thesis
    using l login_response[of sample_sign sample_compare "''ann@example.com''" "''abc''" store1]
    by blast
qed

subsection \<open>Retries of the TMDB client\<close>

lemma delays_append [simp]: "delays (xs @ ys) = delays xs @ delays ys"
  by (induction xs rule: delays.induct) simp_all

lemma timeline_append [simp]: "timeline (xs @ ys) = timeline xs @ timeline ys"
  by (simp add: timeline_def)

lemma timeline_LogWarn [simp]: "timeline (map LogWarn ws) = []"
  by (induction ws) (simp_all add: timeline_def)

lemma logged_errors_append [simp]: "logged_errors (xs @ ys) = logged_errors xs @ logged_errors ys"
  by (simp add: logged_errors_def)

lemma logged_errors_LogWarn [simp]: "logged_errors (map LogWarn ws) = []"
  by (induction ws) (simp_all add: logged_errors_def)

lemma timeline_simps [simp]:
  "timeline [] = []"
  "timeline (Request n # es) = Request n # timeline es"
  "timeline (Delay ms # es) = Delay ms # timeline es"
  "timeline (LogInfo m # es) = timeline es"
  "timeline (LogError m # es) = timeline es"
  by (simp_all add: timeline_def)

lemma logged_errors_simps [simp]:
  "logged_errors [] = []"
  "logged_errors (Request n # es) = logged_errors es"
  "logged_errors (Delay ms # es) = logged_errors es"
  "logged_errors (LogInfo m # es) = logged_errors es"
  "logged_errors (LogError m # es) = m # logged_errors es"
  by (simp_all add: logged_errors_def)

lemma backoff_Suc:
  "backoff 0 = [Request 0]"
  "backoff (Suc 0) = [Request 0, Delay 1000, Request (Suc 0)]"
  "backoff (Suc (Suc 0)) =
     [Request 0, Delay 1000, Request (Suc 0), Delay 2000, Request (Suc (Suc 0))]"
  "backoff (Suc (Suc (Suc 0))) =
     [Request 0, Delay 1000, Request (Suc 0), Delay 2000, Request (Suc (Suc 0)),
      Delay 3000, Request (Suc (Suc (Suc 0)))]"
  by (simp_all add: backoff_def upt_rec)

lemma tmdb_fetch_policy:
  "spec_retry_backoff failed http (tmdb_fetch fetched warn failed http)"
  unfolding spec_retry_backoff_def retries_def
  by (cases "http 0"; cases "http (Suc 0)"; cases "http (Suc (Suc 0))";
      cases "http (Suc (Suc (Suc 0)))")
     (simp_all add: tmdb_fetch_def Let_def numeral_2_eq_2 numeral_3_eq_3 backoff_Suc)

text \<open>
  C3. Every fetch operation of the TMDB client retries a failed request at
  most 3 times with linear backoff. For each of the eight operations
  (popular, top-rated, now playing and upcoming movies, the details of a
  movie, the search, the discovery and the genres) and every server: the
  run makes the first request and then one retry for each failure before
  the first success, 3 at most; the retry number \<open>k\<close> comes right after a
  wait of \<open>k * 1000\<close> ms, and the run has no other request and no other
  wait; the outcome of the run is the outcome of the last request; when
  that one has failed too, its error is the outcome and the run ends with
  the error line of the operation, the only error it logs; a run that
  succeeds logs no error.
\<close>

theorem fetch_operations_retry:
  "spec_retry_backoff [S ''Error fetching popular movies''] (http_popular pg1)
     (getPopularMovies http_popular pg1) \<and>
   spec_retry_backoff [S ''Error fetching top-rated movies''] (http_top pg2)
     (getTopRatedMovies http_top pg2) \<and>
   spec_retry_backoff [S ''Error fetching now playing movies''] (http_now pg3)
     (getNowPlayingMovies http_now pg3) \<and>
   spec_retry_backoff [S ''Error fetching upcoming movies''] (http_upcoming pg4)
     (getUpcomingMovies http_upcoming pg4) \<and>
   spec_retry_backoff [S ''Error fetching movie '', N movie_id, S '' details'']
     (http_details movie_id) (getMovieDetails http_details movie_id) \<and>
   spec_retry_backoff [S ''Error searching movies for query: '', S query] (http_search query pg5)
     (searchMovies http_search query pg5) \<and>
   spec_retry_backoff [S ''Error discovering movies''] (http_discover params)
     (discoverMovies http_discover params) \<and>
   spec_retry_backoff [S ''Error fetching genres''] http_genres (getGenres http_genres)"
  unfolding getPopularMovies_def getTopRatedMovies_def getNowPlayingMovies_def
    getUpcomingMovies_def getMovieDetails_def searchMovies_def discoverMovies_def getGenres_def
  by (intro conjI tmdb_fetch_policy)

theorem fetch_operations_retry_witness:
  "isl (down 1 0) \<and> isl (down 1 1) \<and> isl (down 1 2) \<and> isl (down 1 3) \<and>
   timeline (fst (getPopularMovies down 1)) =
     [Request 0, Delay 1000, Request 1, Delay 2000, Request 2, Delay 3000, Request 3] \<and>
   snd (getPopularMovies down 1) = Inl ''ETIMEDOUT!!!'' \<and>
   logged_errors (fst (getPopularMovies down 1)) = [[S ''Error fetching popular movies'']] \<and>
   last (fst (getPopularMovies down 1)) = LogError [S ''Error fetching popular movies''] \<and>
   timeline (fst (getTopRatedMovies down 2)) =
     [Request 0, Delay 1000, Request 1, Delay 2000, Request 2, Delay 3000, Request 3] \<and>
   snd (getTopRatedMovies down 2) = Inl ''ETIMEDOUT!!!'' \<and>
   last (fst (getTopRatedMovies down 2)) = LogError [S ''Error fetching top-rated movies''] \<and>
   isl (slow 1 0) \<and> \<not> isl (slow 1 1) \<and>
   timeline (fst (getNowPlayingMovies slow 1)) = [Request 0, Delay 1000, Request 1] \<and>
   snd (getNowPlayingMovies slow 1) = Inr response1 \<and>
   logged_errors (fst (getNowPlayingMovies slow 1)) = [] \<and>
   timeline (fst (getUpcomingMovies slow 1)) = [Request 0, Delay 1000, Request 1] \<and>
   snd (getUpcomingMovies slow 1) = Inr response1 \<and>
   isl (flaky 550 0) \<and> isl (flaky 550 1) \<and> \<not> isl (flaky 550 2) \<and>
   timeline (fst (getMovieDetails flaky 550)) =
     [Request 0, Delay 1000, Request 1, Delay 2000, Request 2] \<and>
   snd (getMovieDetails flaky 550) = Inr tmdb1 \<and>
   logged_errors (fst (getMovieDetails flaky 550)) = [] \<and>
   timeline (fst (searchMovies (\<lambda>q. down) ''club'' 1)) =
     [Request 0, Delay 1000, Request 1, Delay 2000, Request 2, Delay 3000, Request 3] \<and>
   last (fst (searchMovies (\<lambda>q. down) ''club'' 1)) =
     LogError [S ''Error searching movies for query: '', S ''club''] \<and>
   timeline (fst (discoverMovies slow 7)) = [Request 0, Delay 1000, Request 1] \<and>
   snd (discoverMovies slow 7) = Inr response1 \<and>
   \<not> isl (genres_up 0) \<and>
   timeline (fst (getGenres genres_up)) = [Request 0] \<and>
   snd (getGenres genres_up) = Inr [(18, ''Drama'')] \<and>
   logged_errors (fst (getGenres genres_up)) = []"
proof -
  have r: "retries (down 1) = 3" "retries (down 2) = 3" "retries (slow 1) = 1"
    "retries (flaky 550) = 2" "retries (slow 7) = 1" "retries genres_up = 0"
    by (simp_all add: retries_def down_def slow_def flaky_def genres_up_def)
  have o: "down 1 3 = Inl ''ETIMEDOUT!!!''" "down 2 3 = Inl ''ETIMEDOUT!!!''"
    "slow 1 1 = Inr response1" "slow 7 1 = Inr response1" "flaky 550 2 = Inr tmdb1"
    "genres_up 0 = Inr [(18, ''Drama'')]"
    by (simp_all add: down_def slow_def flaky_def genres_up_def numeral_3_eq_3)
  have i: "isl (down 1 0)" "isl (down 1 1)" "isl (down 1 2)" "isl (down 1 3)"
    "isl (slow 1 0)" "\<not> isl (slow 1 1)" "isl (flaky 550 0)" "isl (flaky 550 1)"
    "\<not> isl (flaky 550 2)" "\<not> isl (genres_up 0)"
    by (simp_all add: down_def slow_def flaky_def genres_up_def)
  have b: "backoff 0 = [Request 0]" "backoff 1 = [Request 0, Delay 1000, Request 1]"
    "backoff 2 = [Request 0, Delay 1000, Request 1, Delay 2000, Request 2]"
    "backoff 3 = [Request 0, Delay 1000, Request 1, Delay 2000, Request 2, Delay 3000, Request 3]"
    by (simp_all add: backoff_def upt_rec numeral_2_eq_2 numeral_3_eq_3)
  show ?thesis
    using fetch_operations_retry[where http_popular = down and ?pg1.0 = 1
        and http_top = down and ?pg2.0 = 2 and http_now = slow and ?pg3.0 = 1
        and http_upcoming = slow and ?pg4.0 = 1 and http_details = flaky and movie_id = 550
        and http_search = "\<lambda>q. down" and query = "''club''" and ?pg5.0 = 1
        and http_discover = slow and params = 7 and http_genres = genres_up]
    unfolding spec_retry_backoff_def r o b using i by simp
qed

subsection \<open>The sync service\<close>

lemma round_half_away_of_int: "round_half_away (of_int n) = n"
  unfolding round_half_away_def by (cases "0 \<le> n") (simp_all add: floor_eq_iff)

lemma decimal_column_idem:
  assumes "decimal_column p x = Some v"
  shows "decimal_column p v = Some v"
proof -
  define n where "n = round_half_away (x * 10)"
  have "\<bar>n\<bar> < 10 ^ p" and v: "v = of_int n / 10"
    using assms by (auto simp: decimal_column_def Let_def n_def split: if_splits)
  moreover have "round_half_away (v * 10) = n"
    unfolding v using round_half_away_of_int[of n] by simp
  ultimately show ?thesis by (simp add: decimal_column_def Let_def)
qed

lemma stats_kept_refl [simp]: "stats_kept d d"
  by (simp add: stats_kept_def user_rating_stats_def)

lemma stats_kept_trans:
  assumes "stats_kept a b" and "stats_kept b c"
  shows "stats_kept a c"
proof -
  have l: "length (movies a) \<le> length (movies b)" "length (movies b) \<le> length (movies c)"
    using assms by (simp_all add: stats_kept_def)
  have "take (length (movies a)) (user_rating_stats c)
        = take (length (movies a)) (take (length (movies b)) (user_rating_stats c))"
    using l by (simp add: min_def)
  also have "\<dots> = take (length (movies a)) (user_rating_stats b)"
    using assms(2) by (simp add: stats_kept_def)
  also have "\<dots> = user_rating_stats a"
    using assms(1) by (simp add: stats_kept_def)
  finally show ?thesis using l by (simp add: stats_kept_def)
qed

lemma stats_kept_append:
  "movies d' = movies d @ ms \<Longrightarrow> stats_kept d d'"
  by (simp add: stats_kept_def user_rating_stats_def)

lemma stats_kept_map:
  assumes "movies d' = map f (movies d)"
    and "\<And>x. x \<in> set (movies d) \<Longrightarrow>
           movie.id (f x) = movie.id x \<and> movie.userRatingAverage (f x) = movie.userRatingAverage x
           \<and> movie.userRatingCount (f x) = movie.userRatingCount x"
  shows "stats_kept d d'"
  using assms by (simp add: stats_kept_def user_rating_stats_def)

lemma movieRepository_findOne_mem:
  assumes "movieRepository_findOne P d = Some e"
  shows "e \<in> set (movies d)" and "P e"
  using assms by (auto simp: movieRepository_findOne_def find_Some_iff)

lemma decimal_columns_stored:
  assumes "decimal_columns m = Some row"
    and "case movie.userRatingAverage m of None \<Rightarrow> True | Some a \<Rightarrow> decimal_column 3 a = Some a"
  shows "\<exists>va po. decimal_column 3 (movie.voteAverage m) = Some va \<and>
           decimal_column 3 (movie.popularity m) = Some po \<and>
           row = m\<lparr>movie.voteAverage := va, movie.popularity := po\<rparr>"
  using assms by (auto simp: decimal_columns_def split: option.splits)

lemma decimal_columns_keeps:
  assumes "decimal_columns m = Some row"
  shows "movie.id row = movie.id m" and "movie.tmdbId row = movie.tmdbId m"
    and "movie.userRatingCount row = movie.userRatingCount m"
    and "case movie.userRatingAverage row of None \<Rightarrow> True | Some a \<Rightarrow> decimal_column 3 a = Some a"
    and "movie.userRatingAverage m = None \<Longrightarrow> movie.userRatingAverage row = None"
  using assms decimal_column_idem
  by (auto simp: decimal_columns_def split: option.splits)

lemma replace_kept:
  assumes dist: "movie_ids_distinct d" and st: "rating_averages_stored d"
    and mem: "e \<in> set (movies d)"
    and mv: "movies d' = map (\<lambda>x. if movie.id x = movie.id e then g x else x) (movies d)"
    and g: "movie.id (g e) = movie.id e" "movie.userRatingAverage (g e) = movie.userRatingAverage e"
      "movie.userRatingCount (g e) = movie.userRatingCount e"
  shows "stats_kept d d'" and "movie_ids_distinct d'" and "rating_averages_stored d'"
proof -
  have one: "\<And>x. x \<in> set (movies d) \<Longrightarrow> movie.id x = movie.id e \<Longrightarrow> x = e"
    using dist mem by (auto simp: movie_ids_distinct_def distinct_map inj_on_def)
  show "stats_kept d d'"
    by (rule stats_kept_map[OF mv]) (use one g in auto)
  have "map movie.id (movies d') = map movie.id (movies d)"
    unfolding mv using one g by (auto simp: map_eq_conv)
  then show "movie_ids_distinct d'" using dist by (simp add: movie_ids_distinct_def)
  show "rating_averages_stored d'"
    unfolding rating_averages_stored_def mv
  proof
    fix y
    assume "y \<in> set (map (\<lambda>x. if movie.id x = movie.id e then g x else x) (movies d))"
    then obtain x where x: "x \<in> set (movies d)"
      and y: "y = (if movie.id x = movie.id e then g x else x)" by auto
    show "case movie.userRatingAverage y of None \<Rightarrow> True | Some a \<Rightarrow> decimal_column 3 a = Some a"
    proof (cases "movie.id x = movie.id e")
      case True
      then have "x = e" using one x by blast
      then show ?thesis using st mem g(2) True y unfolding rating_averages_stored_def by auto
    next
      case False
      then show ?thesis using st x y unfolding rating_averages_stored_def by auto
    qed
  qed
qed

lemma append_kept:
  assumes dist: "movie_ids_distinct d" and st: "rating_averages_stored d"
    and mv: "movies d' = movies d @ [r]"
    and r: "movie.id r \<notin> movie.id ` set (movies d)" "movie.userRatingAverage r = None"
  shows "stats_kept d d'" and "movie_ids_distinct d'" and "rating_averages_stored d'"
proof -
  show "stats_kept d d'" by (rule stats_kept_append[OF mv])
  show "movie_ids_distinct d'" using dist r(1) by (simp add: movie_ids_distinct_def mv)
  show "rating_averages_stored d'" using st r(2) by (simp add: rating_averages_stored_def mv)
qed

lemma saveMovie_existing:
  assumes dist: "movie_ids_distinct d" and st: "rating_averages_stored d"
    and ex: "movieRepository_findOne (\<lambda>m. movie.tmdbId m = TmdbMovie.id t) d = Some e"
  shows "stats_kept d (snd (saveMovie rejects t d))"
    and "movie_ids_distinct (snd (saveMovie rejects t d))"
    and "rating_averages_stored (snd (saveMovie rejects t d))"
    and "\<And>m'. fst (saveMovie rejects t d) = Inr m' \<Longrightarrow>
           m' = e\<lparr>movie.tmdbId := TmdbMovie.id t,
                movie.title := TmdbMovie.title t,
                movie.overview := TmdbMovie.overview t,
                movie.posterPath := poster_path t,
                movie.backdropPath := backdrop_path t,
                movie.releaseDate :=
                  (if release_date t \<noteq> [] then Some (release_date t) else None),
                movie.voteAverage := vote_average t,
                movie.voteCount := vote_count t,
                movie.popularity := TmdbMovie.popularity t,
                movie.genreIds := (case genre_ids t of None \<Rightarrow> [] | Some g \<Rightarrow> g),
                movie.originalLanguage := original_language t,
                movie.originalTitle := original_title t,
                movie.adult := TmdbMovie.adult t,
                movie.video := TmdbMovie.video t,
                movie.genres :=
                  (case TmdbMovie.genres t of
                     None \<Rightarrow> movie.genres e
                   | Some g \<Rightarrow> Some g)\<rparr> \<and>
           (\<exists>va po. decimal_column 3 (vote_average t) = Some va \<and>
              decimal_column 3 (TmdbMovie.popularity t) = Some po \<and>
              movies (snd (saveMovie rejects t d)) =
                map (\<lambda>x. if movie.id x = movie.id e
                          then m'\<lparr>movie.voteAverage := va, movie.popularity := po,
                                  movie.releaseDate :=
                                    (if release_date t \<noteq> [] then Some (release_date t)
                                     else movie.releaseDate e)\<rparr>
                          else x) (movies d))"
proof -
  define m where "m = e
               \<lparr>movie.tmdbId := TmdbMovie.id t,
                movie.title := TmdbMovie.title t,
                movie.overview := TmdbMovie.overview t,
                movie.posterPath := poster_path t,
                movie.backdropPath := backdrop_path t,
                movie.releaseDate :=
                  (if release_date t \<noteq> [] then Some (release_date t) else None),
                movie.voteAverage := vote_average t,
                movie.voteCount := vote_count t,
                movie.popularity := TmdbMovie.popularity t,
                movie.genreIds := (case genre_ids t of None \<Rightarrow> [] | Some g \<Rightarrow> g),
                movie.originalLanguage := original_language t,
                movie.originalTitle := original_title t,
                movie.adult := TmdbMovie.adult t,
                movie.video := TmdbMovie.video t,
                movie.genres :=
                  (case TmdbMovie.genres t of
                     None \<Rightarrow> movie.genres e
                   | Some g \<Rightarrow> Some g)\<rparr>"
  let ?d' = "snd (saveMovie rejects t d)"
  let ?stored = "\<lambda>va po. m\<lparr>movie.voteAverage := va, movie.popularity := po,
                                  movie.releaseDate :=
                                    (if release_date t \<noteq> [] then Some (release_date t)
                                     else movie.releaseDate e)\<rparr>"
  have sv: "saveMovie rejects t d = movieRepository_save rejects m d"
    using ex by (simp add: saveMovie_def m_def)
  have f: "movie.id m = movie.id e" "movie.userRatingAverage m = movie.userRatingAverage e"
    "movie.userRatingCount m = movie.userRatingCount e"
    "movie.voteAverage m = vote_average t" "movie.popularity m = TmdbMovie.popularity t"
    "movie.releaseDate m = (if release_date t \<noteq> [] then Some (release_date t) else None)"
    by (simp_all add: m_def)
  note mem = movieRepository_findOne_mem(1)[OF ex]
  have inl: "movie.id e \<in> movie.id ` set (movies d)" using mem by blast
  have ste: "case movie.userRatingAverage m of None \<Rightarrow> True | Some a \<Rightarrow> decimal_column 3 a = Some a"
    using st mem unfolding f(2) rating_averages_stored_def by blast
  have one: "\<And>x. x \<in> set (movies d) \<Longrightarrow> movie.id x = movie.id e \<Longrightarrow> x = e"
    using dist mem by (auto simp: movie_ids_distinct_def distinct_map inj_on_def)
  have all: "stats_kept d ?d' \<and> movie_ids_distinct ?d' \<and> rating_averages_stored ?d' \<and>
        (\<forall>m'. fst (saveMovie rejects t d) = Inr m' \<longrightarrow>
           m' = m \<and>
           (\<exists>va po. decimal_column 3 (vote_average t) = Some va \<and>
              decimal_column 3 (TmdbMovie.popularity t) = Some po \<and>
              movies ?d' =
                map (\<lambda>x. if movie.id x = movie.id e then ?stored va po else x) (movies d)))"
  proof (cases "rejects m \<or> decimal_columns m = None")
    case True
    then have "saveMovie rejects t d = (Inl (Error [S ''QueryFailedError'']), d) \<or>
               saveMovie rejects t d
                 = (Inl (Error [S ''QueryFailedError: numeric field overflow'']), d)"
      by (auto simp: sv movieRepository_save_def)
    then show ?thesis using dist st by auto
  next
    case False
    then obtain row where nr: "\<not> rejects m" and row: "decimal_columns m = Some row" by auto
    from decimal_columns_stored[OF row ste] obtain va po where
      va: "decimal_column 3 (vote_average t) = Some va"
      and po: "decimal_column 3 (TmdbMovie.popularity t) = Some po"
      and roweq: "row = m\<lparr>movie.voteAverage := va, movie.popularity := po\<rparr>"
      unfolding f by blast
    have res: "fst (saveMovie rejects t d) = Inr m"
      using nr row by (simp add: sv movieRepository_save_def)
    have "movies ?d' =
            map (\<lambda>x. if movie.id x = movie.id e
                      then row\<lparr>movie.releaseDate :=
                                (case movie.releaseDate m of
                                   None \<Rightarrow> movie.releaseDate x
                                 | Some date \<Rightarrow> Some date)\<rparr>
                      else x) (movies d)"
      using nr row inl by (simp add: sv movieRepository_save_def f(1))
    also have "\<dots> = map (\<lambda>x. if movie.id x = movie.id e then ?stored va po else x) (movies d)"
      using one by (auto simp: map_eq_conv roweq f(6))
    finally have mv: "movies ?d' =
            map (\<lambda>x. if movie.id x = movie.id e then (\<lambda>x. ?stored va po) x else x) (movies d)" .
    have g: "movie.id (?stored va po) = movie.id e"
      "movie.userRatingAverage (?stored va po) = movie.userRatingAverage e"
      "movie.userRatingCount (?stored va po) = movie.userRatingCount e"
      by (simp_all add: m_def)
    note k = replace_kept[OF dist st mem mv g]
    show ?thesis using k va po mv unfolding res by auto
  qed
  from all show "stats_kept d ?d'" and "movie_ids_distinct ?d'" and "rating_averages_stored ?d'"
    by blast+
  fix m'
  assume "fst (saveMovie rejects t d) = Inr m'"
  with all have "m' = m \<and>
           (\<exists>va po. decimal_column 3 (vote_average t) = Some va \<and>
              decimal_column 3 (TmdbMovie.popularity t) = Some po \<and>
              movies ?d' =
                map (\<lambda>x. if movie.id x = movie.id e then ?stored va po else x) (movies d))"
    by blast
  then show "m' = e\<lparr>movie.tmdbId := TmdbMovie.id t,
                movie.title := TmdbMovie.title t,
                movie.overview := TmdbMovie.overview t,
                movie.posterPath := poster_path t,
                movie.backdropPath := backdrop_path t,
                movie.releaseDate :=
                  (if release_date t \<noteq> [] then Some (release_date t) else None),
                movie.voteAverage := vote_average t,
                movie.voteCount := vote_count t,
                movie.popularity := TmdbMovie.popularity t,
                movie.genreIds := (case genre_ids t of None \<Rightarrow> [] | Some g \<Rightarrow> g),
                movie.originalLanguage := original_language t,
                movie.originalTitle := original_title t,
                movie.adult := TmdbMovie.adult t,
                movie.video := TmdbMovie.video t,
                movie.genres :=
                  (case TmdbMovie.genres t of
                     None \<Rightarrow> movie.genres e
                   | Some g \<Rightarrow> Some g)\<rparr> \<and>
           (\<exists>va po. decimal_column 3 (vote_average t) = Some va \<and>
              decimal_column 3 (TmdbMovie.popularity t) = Some po \<and>
              movies (snd (saveMovie rejects t d)) =
                map (\<lambda>x. if movie.id x = movie.id e
                          then m'\<lparr>movie.voteAverage := va, movie.popularity := po,
                                  movie.releaseDate :=
                                    (if release_date t \<noteq> [] then Some (release_date t)
                                     else movie.releaseDate e)\<rparr>
                          else x) (movies d))"
    unfolding m_def by blast
qed

lemma insert_kept:
  assumes dist: "movie_ids_distinct d" and st: "rating_averages_stored d"
    and av: "movie.userRatingAverage m = None"
  shows "stats_kept d (snd (movieRepository_insert rejects m d))"
    and "movie_ids_distinct (snd (movieRepository_insert rejects m d))"
    and "rating_averages_stored (snd (movieRepository_insert rejects m d))"
proof -
  let ?m' = "m\<lparr>movie.id := fresh_id (map movie.id (movies d))\<rparr>"
  let ?d' = "snd (movieRepository_insert rejects m d)"
  have fresh: "fresh_id (map movie.id (movies d)) \<notin> movie.id ` set (movies d)"
    using fresh_id_notin[of "map movie.id (movies d)"] by simp
  have "stats_kept d ?d' \<and> movie_ids_distinct ?d' \<and> rating_averages_stored ?d'"
  proof (cases "decimal_columns ?m'")
    case None
    then have "?d' = d" by (simp add: movieRepository_insert_def Let_def)
    then show ?thesis using dist st by simp
  next
    case (Some row)
    show ?thesis
    proof (cases "rejects ?m' \<or> movie.tmdbId ?m' \<in> set (map movie.tmdbId (movies d))")
      case True
      then have "?d' = d" by (auto simp: movieRepository_insert_def Let_def)
      then show ?thesis using dist st by simp
    next
      case False
      then have mv: "movies ?d' = movies d @ [row]"
        using Some by (auto simp: movieRepository_insert_def Let_def)
      have r: "movie.id row \<notin> movie.id ` set (movies d)" "movie.userRatingAverage row = None"
        using decimal_columns_keeps(1,5)[OF Some] fresh av by simp_all
      show ?thesis using append_kept[OF dist st mv r] by blast
    qed
  qed
  then show "stats_kept d ?d'" and "movie_ids_distinct ?d'" and "rating_averages_stored ?d'"
    by blast+
qed

lemma saveMovie_new:
  assumes dist: "movie_ids_distinct d" and st: "rating_averages_stored d"
    and ex: "movieRepository_findOne (\<lambda>m. movie.tmdbId m = TmdbMovie.id t) d = None"
  shows "stats_kept d (snd (saveMovie rejects t d))"
    and "movie_ids_distinct (snd (saveMovie rejects t d))"
    and "rating_averages_stored (snd (saveMovie rejects t d))"
  using ex by (simp_all add: saveMovie_def insert_kept[OF dist st])

lemma saveMovie_kept:
  assumes "movie_ids_distinct d" and "rating_averages_stored d"
  shows "stats_kept d (snd (saveMovie rejects t d))"
    and "movie_ids_distinct (snd (saveMovie rejects t d))"
    and "rating_averages_stored (snd (saveMovie rejects t d))"
  using saveMovie_existing(1,2,3)[OF assms] saveMovie_new[OF assms]
  by (cases "movieRepository_findOne (\<lambda>m. movie.tmdbId m = TmdbMovie.id t) d"; blast)+

lemma sync_movies_kept:
  assumes "movie_ids_distinct d" and "rating_averages_stored d"
  shows "stats_kept d (snd (sync_movies rejects failed ts d)) \<and>
         movie_ids_distinct (snd (sync_movies rejects failed ts d)) \<and>
         rating_averages_stored (snd (sync_movies rejects failed ts d))"
  using assms
proof (induction ts arbitrary: d)
  case Nil
  then show ?case by simp
next
  case (Cons t ts)
  let ?d1 = "snd (saveMovie rejects t d)"
  note s = saveMovie_kept[OF Cons.prems, of rejects t]
  note ih = Cons.IH[OF s(2,3)]
  have "snd (sync_movies rejects failed (t # ts) d) = snd (sync_movies rejects failed ts ?d1)"
    by (simp split: prod.splits sum.splits)
  then show ?case using ih stats_kept_trans[OF s(1)] by simp
qed

lemma syncInitialMovies_snd:
  "snd (syncInitialMovies rejects cs d) =
     snd (sync_movies rejects (\<lambda>i. [S ''Error saving movie '', N i])
            (map snd (foldl (\<lambda>mp m. Map_set mp (TmdbMovie.id m) m) []
                        (popular cs @ topRated cs @ nowPlaying cs @ upcoming cs))) d)"
  by (simp add: syncInitialMovies_def Let_def split: prod.splits)

lemma syncPopularMovies_snd:
  "snd (syncPopularMovies rejects http d) =
     (case snd (getPopularMovies http 1) of
        Inl err \<Rightarrow> d
      | Inr response \<Rightarrow>
          snd (sync_movies rejects (\<lambda>i. [S ''Error syncing movie '', N i]) (results response) d))"
  by (simp add: syncPopularMovies_def split: prod.splits sum.splits)

lemma syncMovieDetails_snd:
  "snd (syncMovieDetails rejects http i d) =
     (case snd (getMovieDetails http i) of
        Inl err \<Rightarrow> d
      | Inr movieDetails \<Rightarrow> snd (saveMovie rejects movieDetails d))"
  by (simp add: syncMovieDetails_def split: prod.splits sum.splits)

lemma syncMovieDetails_kept:
  assumes "movie_ids_distinct d" and "rating_averages_stored d"
  shows "stats_kept d (snd (syncMovieDetails rejects http i d))"
    and "movie_ids_distinct (snd (syncMovieDetails rejects http i d))"
    and "rating_averages_stored (snd (syncMovieDetails rejects http i d))"
  using assms saveMovie_kept[OF assms, of rejects]
  by (simp_all add: syncMovieDetails_snd split: sum.splits)

lemma batchSyncMovies_loop_kept:
  assumes "movie_ids_distinct d" and "rating_averages_stored d"
  shows "stats_kept d (snd (batchSyncMovies_loop rejects http is d)) \<and>
         movie_ids_distinct (snd (batchSyncMovies_loop rejects http is d)) \<and>
         rating_averages_stored (snd (batchSyncMovies_loop rejects http is d))"
  using assms
proof (induction "is" arbitrary: d)
  case Nil
  then show ?case by simp
next
  case (Cons i "is")
  let ?d1 = "snd (syncMovieDetails rejects http i d)"
  note s = syncMovieDetails_kept[OF Cons.prems, of rejects http i]
  note ih = Cons.IH[OF s(2,3)]
  have "snd (batchSyncMovies_loop rejects http (i # is) d)
          = snd (batchSyncMovies_loop rejects http is ?d1)"
    by (simp split: prod.splits sum.splits)
  then show ?case using ih stats_kept_trans[OF s(1)] by simp
qed

lemma batchSyncMovies_snd:
  "snd (batchSyncMovies rejects http is d) = snd (batchSyncMovies_loop rejects http is d)"
  by (simp add: batchSyncMovies_def split: prod.splits)

lemma upsert_kept:
  assumes dist: "movie_ids_distinct d" and st: "rating_averages_stored d"
    and av: "movie.userRatingAverage m = None"
  shows "stats_kept d (snd (movieRepository_upsert rejects m d))"
    and "movie_ids_distinct (snd (movieRepository_upsert rejects m d))"
    and "rating_averages_stored (snd (movieRepository_upsert rejects m d))"
proof -
  let ?d' = "snd (movieRepository_upsert rejects m d)"
  have fresh: "fresh_id (map movie.id (movies d)) \<notin> movie.id ` set (movies d)"
    using fresh_id_notin[of "map movie.id (movies d)"] by simp
  have "stats_kept d ?d' \<and> movie_ids_distinct ?d' \<and> rating_averages_stored ?d'"
  proof (cases "rejects m \<or> decimal_columns m = None")
    case True
    then have "?d' = d" by (auto simp: movieRepository_upsert_def)
    then show ?thesis using dist st by simp
  next
    case False
    then obtain row where nr: "\<not> rejects m" and row: "decimal_columns m = Some row" by auto
    show ?thesis
    proof (cases "movie.tmdbId m \<in> set (map movie.tmdbId (movies d))")
      case True
      define f :: "movie \<Rightarrow> movie" where "f = (\<lambda>x. if movie.tmdbId x = movie.tmdbId m
                                   then x\<lparr>movie.title := movie.title row,
                                          movie.overview := movie.overview row,
                                          movie.posterPath := movie.posterPath row,
                                          movie.backdropPath := movie.backdropPath row,
                                          movie.releaseDate :=
                                            (case movie.releaseDate row of
                                               None \<Rightarrow> movie.releaseDate x
                                             | Some date \<Rightarrow> Some date),
                                          movie.voteAverage := movie.voteAverage row,
                                          movie.voteCount := movie.voteCount row,
                                          movie.popularity := movie.popularity row,
                                          movie.genreIds := movie.genreIds row,
                                          movie.genres :=
                                            (case movie.genres row of
                                               None \<Rightarrow> movie.genres x
                                             | Some g \<Rightarrow> Some g),
                                          movie.originalLanguage := movie.originalLanguage row,
                                          movie.originalTitle := movie.originalTitle row,
                                          movie.adult := movie.adult row,
                                          movie.video := movie.video row\<rparr>
                                   else x)"
      have mv: "movies ?d' = map f (movies d)"
        using nr row True by (simp add: movieRepository_upsert_def f_def)
      have k: "\<And>x. movie.id (f x) = movie.id x \<and>
                 movie.userRatingAverage (f x) = movie.userRatingAverage x \<and>
                 movie.userRatingCount (f x) = movie.userRatingCount x"
        by (simp add: f_def)
      have a: "stats_kept d ?d'" by (rule stats_kept_map[OF mv]) (simp add: k)
      have "map movie.id (movies ?d') = map movie.id (movies d)"
        unfolding mv by (simp add: k)
      then have b: "movie_ids_distinct ?d'" using dist by (simp add: movie_ids_distinct_def)
      have c: "rating_averages_stored ?d'"
        using st unfolding rating_averages_stored_def mv by (simp add: k)
      show ?thesis using a b c by blast
    next
      case False
      let ?r = "row\<lparr>movie.id := fresh_id (map movie.id (movies d))\<rparr>"
      have mv: "movies ?d' = movies d @ [?r]"
        using nr row False by (simp add: movieRepository_upsert_def)
      have r: "movie.id ?r \<notin> movie.id ` set (movies d)" "movie.userRatingAverage ?r = None"
        using decimal_columns_keeps(5)[OF row av] fresh by simp_all
      show ?thesis using append_kept[OF dist st mv r] by blast
    qed
  qed
  then show "stats_kept d ?d'" and "movie_ids_distinct ?d'" and "rating_averages_stored ?d'"
    by blast+
qed

lemma fetchAndSaveFromTmdb_kept:
  assumes "movie_ids_distinct d" and "rating_averages_stored d"
  shows "stats_kept d (snd (fetchAndSaveFromTmdb rejects http i d))"
    and "movie_ids_distinct (snd (fetchAndSaveFromTmdb rejects http i d))"
    and "rating_averages_stored (snd (fetchAndSaveFromTmdb rejects http i d))"
proof -
  have "snd (fetchAndSaveFromTmdb rejects http i d) = d \<or>
        (\<exists>obj. movie.userRatingAverage obj = None \<and>
           snd (fetchAndSaveFromTmdb rejects http i d) = snd (movieRepository_insert rejects obj d))"
  proof (cases "getMovieDetails http i")
    case (Pair ev res)
    show ?thesis
    proof (cases res)
      case (Inl err)
      then show ?thesis using Pair by (simp add: fetchAndSaveFromTmdb_def)
    next
      case (Inr t)
      define obj where "obj = \<lparr>movie.id = 0,
                   movie.tmdbId = TmdbMovie.id t,
                   movie.title = TmdbMovie.title t,
                   movie.overview = TmdbMovie.overview t,
                   movie.posterPath = poster_path t,
                   movie.backdropPath = backdrop_path t,
                   movie.releaseDate =
                     (if release_date t \<noteq> [] then Some (release_date t)
                      else None),
                   movie.voteAverage = vote_average t,
                   movie.voteCount = vote_count t,
                   movie.popularity = TmdbMovie.popularity t,
                   movie.genreIds = (case genre_ids t of None \<Rightarrow> [] | Some g \<Rightarrow> g),
                   movie.genres = TmdbMovie.genres t,
                   movie.originalLanguage = original_language t,
                   movie.originalTitle = original_title t,
                   movie.adult = TmdbMovie.adult t,
                   movie.video = TmdbMovie.video t,
                   movie.userRatingAverage = None,
                   movie.userRatingCount = 0\<rparr>"
      have "movie.userRatingAverage obj = None" by (simp add: obj_def)
      moreover have "snd (fetchAndSaveFromTmdb rejects http i d)
                       = snd (movieRepository_insert rejects obj d)"
        using Pair Inr
        by (simp add: fetchAndSaveFromTmdb_def obj_def split: prod.splits sum.splits
            split del: if_split)
      ultimately show ?thesis by blast
    qed
  qed
  then show "stats_kept d (snd (fetchAndSaveFromTmdb rejects http i d))"
    and "movie_ids_distinct (snd (fetchAndSaveFromTmdb rejects http i d))"
    and "rating_averages_stored (snd (fetchAndSaveFromTmdb rejects http i d))"
    using assms insert_kept[OF assms, of _ rejects] by auto
qed

lemma findByTmdbId_kept:
  assumes "movie_ids_distinct d" and "rating_averages_stored d"
  shows "stats_kept d (snd (findByTmdbId rejects http i d))"
    and "movie_ids_distinct (snd (findByTmdbId rejects http i d))"
    and "rating_averages_stored (snd (findByTmdbId rejects http i d))"
  using assms fetchAndSaveFromTmdb_kept[OF assms, of rejects http i]
  by (auto simp: findByTmdbId_def split: option.splits prod.splits sum.splits)

lemma syncFromTmdb_kept:
  assumes "movie_ids_distinct d" and "rating_averages_stored d"
  shows "stats_kept d (snd (syncFromTmdb rejects http http' i d))"
proof (cases "getMovieDetails http i")
  case (Pair ev res)
  show ?thesis
  proof (cases res)
    case (Inl err)
    then show ?thesis using Pair by (simp add: syncFromTmdb_def)
  next
    case (Inr t)
    define obj where "obj = \<lparr>movie.id = 0,
                   movie.tmdbId = TmdbMovie.id t,
                   movie.title = TmdbMovie.title t,
                   movie.overview = TmdbMovie.overview t,
                   movie.posterPath = poster_path t,
                   movie.backdropPath = backdrop_path t,
                   movie.releaseDate =
                     (if release_date t \<noteq> [] then Some (release_date t)
                      else None),
                   movie.voteAverage = vote_average t,
                   movie.voteCount = vote_count t,
                   movie.popularity = TmdbMovie.popularity t,
                   movie.genreIds = (case genre_ids t of None \<Rightarrow> [] | Some g \<Rightarrow> g),
                   movie.genres = TmdbMovie.genres t,
                   movie.originalLanguage = original_language t,
                   movie.originalTitle = original_title t,
                   movie.adult = TmdbMovie.adult t,
                   movie.video = TmdbMovie.video t,
                   movie.userRatingAverage = None,
                   movie.userRatingCount = 0\<rparr>"
    let ?d1 = "snd (movieRepository_upsert rejects obj d)"
    have av: "movie.userRatingAverage obj = None" by (simp add: obj_def)
    note u = upsert_kept[OF assms av, of rejects]
    note f = findByTmdbId_kept[OF u(2,3), of rejects http' i]
    have "snd (syncFromTmdb rejects http http' i d) = ?d1 \<or>
          snd (syncFromTmdb rejects http http' i d) = snd (findByTmdbId rejects http' i ?d1)"
      using Pair Inr
      by (simp add: syncFromTmdb_def obj_def split: prod.splits sum.splits
          split del: if_split)
    then show ?thesis using u(1) stats_kept_trans[OF u(1) f(1)] by auto
  qed
qed

text \<open>
  C9. In a store whose movies have distinct ids and user rating averages
  that their column keeps as they are: when \<^verbatim>\<open>saveMovie\<close> finds the movie by
  its \<^verbatim>\<open>tmdbId\<close> and saves it, the object it saves and answers has the id and
  the fields \<^verbatim>\<open>userRatingAverage\<close> and \<^verbatim>\<open>userRatingCount\<close> of the row it
  found, and every other field from TMDB: the tmdb id, title, overview, the
  two paths, the release date (\<^verbatim>\<open>undefined\<close> when TMDB gives none), vote
  average, vote count, popularity, genre ids (none when TMDB gives none),
  genres (those of the row when the TMDB movie has none), original language,
  original title and the flags adult and video. The row of that id, and no
  other row, is replaced by this object as the columns keep it: vote average
  and popularity rounded to one decimal, and the release date of the row
  kept when TMDB gives none. No path that synchronizes movies with TMDB
  (\<^verbatim>\<open>saveMovie\<close>, the loop of the initial and of the hourly sync,
  \<^verbatim>\<open>syncMovieDetails\<close>, \<^verbatim>\<open>batchSyncMovies\<close>, and of the movie service
  \<^verbatim>\<open>findByTmdbId$\<close>, which fetches a movie it does not find, and
  \<^verbatim>\<open>syncFromTmdb$\<close> with its upsert) alters the user rating statistics of a
  movie that was in the store: row by row they are the same afterwards.
\<close>

theorem saveMovie_keeps_user_ratings:
  "movie_ids_distinct d \<and> rating_averages_stored d \<longrightarrow>
     (\<forall>e m'. movieRepository_findOne (\<lambda>m. movie.tmdbId m = TmdbMovie.id t) d = Some e \<and>
             fst (saveMovie rejects t d) = Inr m' \<longrightarrow>
        movie.id m' = movie.id e \<and>
        movie.userRatingAverage m' = movie.userRatingAverage e \<and>
        movie.userRatingCount m' = movie.userRatingCount e \<and>
        movie.tmdbId m' = TmdbMovie.id t \<and>
        movie.title m' = TmdbMovie.title t \<and>
        movie.overview m' = TmdbMovie.overview t \<and>
        movie.posterPath m' = poster_path t \<and>
        movie.backdropPath m' = backdrop_path t \<and>
        movie.releaseDate m' = (if release_date t \<noteq> [] then Some (release_date t) else None) \<and>
        movie.voteAverage m' = vote_average t \<and>
        movie.voteCount m' = vote_count t \<and>
        movie.popularity m' = TmdbMovie.popularity t \<and>
        movie.genreIds m' = (case genre_ids t of None \<Rightarrow> [] | Some g \<Rightarrow> g) \<and>
        movie.genres m' =
          (case TmdbMovie.genres t of None \<Rightarrow> movie.genres e | Some g \<Rightarrow> Some g) \<and>
        movie.originalLanguage m' = original_language t \<and>
        movie.originalTitle m' = original_title t \<and>
        movie.adult m' = TmdbMovie.adult t \<and>
        movie.video m' = TmdbMovie.video t \<and>
        (\<exists>va po. decimal_column 3 (vote_average t) = Some va \<and>
           decimal_column 3 (TmdbMovie.popularity t) = Some po \<and>
           movies (snd (saveMovie rejects t d)) =
             map (\<lambda>x. if movie.id x = movie.id e
                       then m'\<lparr>movie.voteAverage := va, movie.popularity := po,
                               movie.releaseDate :=
                                 (if release_date t \<noteq> [] then Some (release_date t)
                                  else movie.releaseDate e)\<rparr>
                       else x) (movies d))) \<and>
     stats_kept d (snd (saveMovie rejects t d)) \<and>
     stats_kept d (snd (sync_movies rejects failed ts d)) \<and>
     stats_kept d (snd (syncInitialMovies rejects cs d)) \<and>
     stats_kept d (snd (syncPopularMovies rejects http_popular d)) \<and>
     stats_kept d (snd (syncMovieDetails rejects http_details i d)) \<and>
     stats_kept d (snd (batchSyncMovies rejects http_details is d)) \<and>
     stats_kept d (snd (findByTmdbId rejects http_details i d)) \<and>
     stats_kept d (snd (syncFromTmdb rejects http_details http_details' i d))"
proof (intro impI conjI allI)
  assume inv: "movie_ids_distinct d \<and> rating_averages_stored d"
  then have dist: "movie_ids_distinct d" and st: "rating_averages_stored d" by blast+
  { fix e m'
    assume "movieRepository_findOne (\<lambda>m. movie.tmdbId m = TmdbMovie.id t) d = Some e \<and>
             fst (saveMovie rejects t d) = Inr m'"
    then have a: "movieRepository_findOne (\<lambda>m. movie.tmdbId m = TmdbMovie.id t) d = Some e"
      and b: "fst (saveMovie rejects t d) = Inr m'" by blast+
    note r = saveMovie_existing(4)[OF dist st a b]
    from r have eq: "m' = e\<lparr>movie.tmdbId := TmdbMovie.id t,
                movie.title := TmdbMovie.title t,
                movie.overview := TmdbMovie.overview t,
                movie.posterPath := poster_path t,
                movie.backdropPath := backdrop_path t,
                movie.releaseDate :=
                  (if release_date t \<noteq> [] then Some (release_date t) else None),
                movie.voteAverage := vote_average t,
                movie.voteCount := vote_count t,
                movie.popularity := TmdbMovie.popularity t,
                movie.genreIds := (case genre_ids t of None \<Rightarrow> [] | Some g \<Rightarrow> g),
                movie.originalLanguage := original_language t,
                movie.originalTitle := original_title t,
                movie.adult := TmdbMovie.adult t,
                movie.video := TmdbMovie.video t,
                movie.genres :=
                  (case TmdbMovie.genres t of
                     None \<Rightarrow> movie.genres e
                   | Some g \<Rightarrow> Some g)\<rparr>" by blast
    show "movie.id m' = movie.id e" by (simp add: eq)
    show "movie.userRatingAverage m' = movie.userRatingAverage e" by (simp add: eq)
    show "movie.userRatingCount m' = movie.userRatingCount e" by (simp add: eq)
    show "movie.tmdbId m' = TmdbMovie.id t" by (simp add: eq)
    show "movie.title m' = TmdbMovie.title t" by (simp add: eq)
    show "movie.overview m' = TmdbMovie.overview t" by (simp add: eq)
    show "movie.posterPath m' = poster_path t" by (simp add: eq)
    show "movie.backdropPath m' = backdrop_path t" by (simp add: eq)
    show "movie.releaseDate m' = (if release_date t \<noteq> [] then Some (release_date t) else None)"
      by (simp add: eq)
    show "movie.voteAverage m' = vote_average t" by (simp add: eq)
    show "movie.voteCount m' = vote_count t" by (simp add: eq)
    show "movie.popularity m' = TmdbMovie.popularity t" by (simp add: eq)
    show "movie.genreIds m' = (case genre_ids t of None \<Rightarrow> [] | Some g \<Rightarrow> g)" by (simp add: eq)
    show "movie.genres m' =
          (case TmdbMovie.genres t of None \<Rightarrow> movie.genres e | Some g \<Rightarrow> Some g)"
      by (simp add: eq)
    show "movie.originalLanguage m' = original_language t" by (simp add: eq)
    show "movie.originalTitle m' = original_title t" by (simp add: eq)
    show "movie.adult m' = TmdbMovie.adult t" by (simp add: eq)
    show "movie.video m' = TmdbMovie.video t" by (simp add: eq)
    from r show "\<exists>va po. decimal_column 3 (vote_average t) = Some va \<and>
           decimal_column 3 (TmdbMovie.popularity t) = Some po \<and>
           movies (snd (saveMovie rejects t d)) =
             map (\<lambda>x. if movie.id x = movie.id e
                       then m'\<lparr>movie.voteAverage := va, movie.popularity := po,
                               movie.releaseDate :=
                                 (if release_date t \<noteq> [] then Some (release_date t)
                                  else movie.releaseDate e)\<rparr>
                       else x) (movies d)" by blast }
  show "stats_kept d (snd (saveMovie rejects t d))"
    by (rule saveMovie_kept(1)[OF dist st])
  show "stats_kept d (snd (sync_movies rejects failed ts d))"
    using sync_movies_kept[OF dist st] by blast
  show "stats_kept d (snd (syncInitialMovies rejects cs d))"
    unfolding syncInitialMovies_snd using sync_movies_kept[OF dist st] by blast
  show "stats_kept d (snd (syncPopularMovies rejects http_popular d))"
    unfolding syncPopularMovies_snd using sync_movies_kept[OF dist st]
    by (simp split: sum.splits)
  show "stats_kept d (snd (syncMovieDetails rejects http_details i d))"
    by (rule syncMovieDetails_kept(1)[OF dist st])
  show "stats_kept d (snd (batchSyncMovies rejects http_details is d))"
    unfolding batchSyncMovies_snd using batchSyncMovies_loop_kept[OF dist st] by blast
  show "stats_kept d (snd (findByTmdbId rejects http_details i d))"
    by (rule findByTmdbId_kept(1)[OF dist st])
  show "stats_kept d (snd (syncFromTmdb rejects http_details http_details' i d))"
    by (rule syncFromTmdb_kept[OF dist st])
qed

lemma decimal_column_samples:
  "decimal_column 3 8 = Some 8" "decimal_column 3 2 = Some 2"
  "decimal_column 3 (17 / 2) = Some (17 / 2)" "decimal_column 3 70 = Some 70"
  by (simp_all add: decimal_column_def round_half_away_def Let_def floor_eq_iff)

theorem saveMovie_keeps_user_ratings_witness:
  "movie_ids_distinct store1 \<and> rating_averages_stored store1 \<and>
   movieRepository_findOne (\<lambda>m. movie.tmdbId m = TmdbMovie.id tmdb1) store1 = Some movie1 \<and>
   isl (fst (saveMovie rejects999 tmdb1 store1)) = False \<and>
   movie.userRatingAverage (projr (fst (saveMovie rejects999 tmdb1 store1))) = Some 8 \<and>
   movie.userRatingCount (projr (fst (saveMovie rejects999 tmdb1 store1))) = 3 \<and>
   movie.title (projr (fst (saveMovie rejects999 tmdb1 store1))) = ''Fight Club (1999)'' \<and>
   movie.voteAverage (projr (fst (saveMovie rejects999 tmdb1 store1))) = 85 / 10 \<and>
   movie.releaseDate (projr (fst (saveMovie rejects999 tmdb1 store1))) = None \<and>
   map movie.releaseDate (movies (snd (saveMovie rejects999 tmdb1 store1)))
     = [Some ''1999-10-15'', Some ''1999-10-15''] \<and>
   map movie.title (movies (snd (saveMovie rejects999 tmdb1 store1)))
     = [''Fight Club (1999)'', ''Fight Club''] \<and>
   take 2 (user_rating_stats
             (snd (sync_movies rejects999 (\<lambda>i. [N i]) [tmdb1, tmdb2, tmdb3] store1)))
     = [(1, Some 8, 3), (2, Some 2, 1)] \<and>
   take 2 (user_rating_stats (snd (syncFromTmdb rejects999 details_up details_up 550 store1)))
     = [(1, Some 8, 3), (2, Some 2, 1)]"
proof -
  have a: "movie_ids_distinct store1" "rating_averages_stored store1"
    by (simp_all add: movie_ids_distinct_def rating_averages_stored_def sample_defs
        decimal_column_samples)
  have b: "movieRepository_findOne (\<lambda>m. movie.tmdbId m = TmdbMovie.id tmdb1) store1 = Some movie1"
    by (simp add: movieRepository_findOne_def sample_defs tmdb1_def tmdb2_def tmdb3_def rejects999_def)
  have c: "\<not> isl (fst (saveMovie rejects999 tmdb1 store1))"
    using b
    by (simp add: saveMovie_def movieRepository_save_def rejects999_def tmdb1_def movie1_def
        decimal_columns_def decimal_column_samples)
  then have c': "fst (saveMovie rejects999 tmdb1 store1)
                   = Inr (projr (fst (saveMovie rejects999 tmdb1 store1)))"
    by (cases "fst (saveMovie rejects999 tmdb1 store1)") simp_all
  note spec = saveMovie_keeps_user_ratings[where d = store1 and t = tmdb1
      and rejects = rejects999 and failed = "\<lambda>i. [N i]" and ts = "[tmdb1, tmdb2, tmdb3]"
      and http_details = details_up and http_details' = details_up and i = 550]
  define m where "m = projr (fst (saveMovie rejects999 tmdb1 store1))"
  note c'' = c'[folded m_def]
  have e: "movie.userRatingAverage m = movie.userRatingAverage movie1"
     "movie.userRatingCount m = movie.userRatingCount movie1"
     "movie.title m = TmdbMovie.title tmdb1"
     "movie.voteAverage m = vote_average tmdb1"
     "movie.releaseDate m = (if release_date tmdb1 \<noteq> [] then Some (release_date tmdb1) else None)"
    using spec a b c'' by blast+
  obtain va po where st: "movies (snd (saveMovie rejects999 tmdb1 store1)) =
             map (\<lambda>x. if movie.id x = movie.id movie1
                       then m\<lparr>movie.voteAverage := va, movie.popularity := po,
                               movie.releaseDate :=
                                 (if release_date tmdb1 \<noteq> [] then Some (release_date tmdb1)
                                  else movie.releaseDate movie1)\<rparr>
                       else x) (movies store1)"
    using spec a b c'' by blast
  have ti: "movie.title m = ''Fight Club (1999)''" using e(3) by (simp add: tmdb1_def)
  have rd: "release_date tmdb1 = []" by (simp add: tmdb1_def)
  have g: "map movie.releaseDate (movies (snd (saveMovie rejects999 tmdb1 store1)))
     = [Some ''1999-10-15'', Some ''1999-10-15'']"
    "map movie.title (movies (snd (saveMovie rejects999 tmdb1 store1)))
     = [''Fight Club (1999)'', ''Fight Club'']"
    unfolding st by (simp_all add: ti rd sample_defs)
  have len: "length (movies store1) = 2"
    "user_rating_stats store1 = [(1, Some 8, 3), (2, Some 2, 1)]"
    by (simp_all add: user_rating_stats_def sample_defs)
  have "stats_kept store1 (snd (sync_movies rejects999 (\<lambda>i. [N i]) [tmdb1, tmdb2, tmdb3] store1))"
    using spec a by blast
  then have f: "take 2 (user_rating_stats
             (snd (sync_movies rejects999 (\<lambda>i. [N i]) [tmdb1, tmdb2, tmdb3] store1)))
     = [(1, Some 8, 3), (2, Some 2, 1)]"
    using len unfolding stats_kept_def by metis
  have "stats_kept store1 (snd (syncFromTmdb rejects999 details_up details_up 550 store1))"
    using spec a by blast
  then have h: "take 2 (user_rating_stats
             (snd (syncFromTmdb rejects999 details_up details_up 550 store1)))
     = [(1, Some 8, 3), (2, Some 2, 1)]"
    using len unfolding stats_kept_def by metis
  show ?thesis
    using a b c e[unfolded m_def] f g h by (simp add: movie1_def tmdb1_def)
qed

lemma starts_append [simp]: "starts (xs @ ys) = starts xs @ starts ys"
  by (induction xs rule: starts.induct) simp_all

lemma sync_movies_Cons:
  "sync_movies rejects failed (t # ts) d =
     (let r = (case fst (saveMovie rejects t d) of Inr m \<Rightarrow> Some m | Inl err \<Rightarrow> None);
          rest = sync_movies rejects failed ts (snd (saveMovie rejects t d))
      in ((sync_block failed (t, r) @ fst (fst rest), r # snd (fst rest)), snd rest))"
  by (simp add: sync_block_def Let_def split: prod.splits sum.splits)

lemma sync_movies_store:
  "snd (sync_movies rejects failed ts d) = sequential_store rejects ts d"
  unfolding sequential_store_def
  by (induction ts arbitrary: d) (simp_all add: sync_movies_Cons Let_def del: sync_movies.simps(2))

lemma sync_movies_length:
  "length (snd (fst (sync_movies rejects failed ts d))) = length ts"
  by (induction ts arbitrary: d) (simp_all add: sync_movies_Cons Let_def del: sync_movies.simps(2))

lemma sync_movies_nth:
  "k < length ts \<Longrightarrow>
     snd (fst (sync_movies rejects failed ts d)) ! k =
       (case fst (saveMovie rejects (ts ! k) (sequential_store rejects (take k ts) d)) of
          Inr m \<Rightarrow> Some m
        | Inl err \<Rightarrow> None)"
proof (induction ts arbitrary: d k)
  case Nil
  then show ?case by simp
next
  case (Cons t ts)
  show ?case
  proof (cases k)
    case 0
    then show ?thesis
      by (simp add: sync_movies_Cons Let_def sequential_store_def del: sync_movies.simps(2))
  next
    case (Suc j)
    then have "j < length ts" using Cons.prems by simp
    from Cons.IH[OF this, of "snd (saveMovie rejects t d)"] Suc
    show ?thesis
      by (simp add: sync_movies_Cons Let_def sequential_store_def del: sync_movies.simps(2))
  qed
qed

lemma sync_movies_events:
  "fst (fst (sync_movies rejects failed ts d)) =
     concat (map (sync_block failed) (zip ts (snd (fst (sync_movies rejects failed ts d)))))"
  by (induction ts arbitrary: d) (simp_all add: sync_movies_Cons Let_def del: sync_movies.simps(2))

lemma starts_blocks:
  "length rs = length ts \<Longrightarrow>
     starts (concat (map (sync_block failed) (zip ts rs))) = map TmdbMovie.id ts"
proof (induction ts arbitrary: rs)
  case Nil
  then show ?case by simp
next
  case (Cons t ts)
  then obtain r rs' where "rs = r # rs'" "length rs' = length ts"
    by (cases rs) auto
  then show ?case using Cons.IH[of rs'] by (simp add: sync_block_def split: option.splits)
qed

lemma delays_blocks:
  "length rs = length ts \<Longrightarrow>
     delays (concat (map (sync_block failed) (zip ts rs)))
       = replicate (length (filter (\<lambda>r. r \<noteq> None) rs)) 100"
proof (induction ts arbitrary: rs)
  case Nil
  then show ?case by simp
next
  case (Cons t ts)
  then obtain r rs' where "rs = r # rs'" "length rs' = length ts"
    by (cases rs) auto
  then show ?case using Cons.IH[of rs'] by (simp add: sync_block_def split: option.splits)
qed

lemma rejects999_saveMovie:
  "TmdbMovie.id t = 999 \<Longrightarrow> isl (fst (saveMovie rejects999 t d))"
  by (simp add: saveMovie_def movieRepository_save_def movieRepository_insert_def Let_def
      rejects999_def split: option.splits)

lemma accepted_saveMovie:
  assumes id: "TmdbMovie.id t \<noteq> 999"
    and va: "decimal_column 3 (vote_average t) = Some va"
    and po: "decimal_column 3 (TmdbMovie.popularity t) = Some po"
    and st: "rating_averages_stored d"
  shows "\<not> isl (fst (saveMovie rejects999 t d))"
proof (cases "movieRepository_findOne (\<lambda>m. movie.tmdbId m = TmdbMovie.id t) d")
  case None
  then have "TmdbMovie.id t \<notin> movie.tmdbId ` set (movies d)"
    by (auto simp: movieRepository_findOne_def find_None_iff)
  then show ?thesis
    using None id va po
    by (simp add: saveMovie_def movieRepository_insert_def Let_def rejects999_def
        decimal_columns_def)
next
  case (Some e)
  have "case movie.userRatingAverage e of None \<Rightarrow> True | Some a \<Rightarrow> decimal_column 3 a = Some a"
    using st movieRepository_findOne_mem(1)[OF Some] unfolding rating_averages_stored_def
    by blast
  then show ?thesis
    using Some id va po
    by (cases "movie.userRatingAverage e")
       (simp_all add: saveMovie_def movieRepository_save_def rejects999_def decimal_columns_def)
qed

text \<open>
  The claim C7 as it is written fails at a save that fails: \<^verbatim>\<open>delay(100)\<close> lets
  the error through at once, so no wait follows that save.
\<close>

theorem sync_movies_counterexample:
  "fst (fst (sync_movies rejects999 sync_failed_line [tmdb2] store1)) =
     [SaveStart 999, SaveEnd 999 False, LogError [S ''Error syncing movie '', N 999]] \<and>
   delays (fst (fst (sync_movies rejects999 sync_failed_line [tmdb2] store1))) = []"
proof -
  have "isl (fst (saveMovie rejects999 tmdb2 store1))"
    by (simp add: rejects999_saveMovie tmdb2_def)
  then show ?thesis
    by (auto simp: sync_failed_line_def tmdb2_def isl_def split: prod.splits sum.splits)
qed

text \<open>
  C7, amended. The sync job is a sequential loop with a fixed delay. The
  store after the loop is the store after saving the movies one by one in
  the order of the input, each save starting from the store the save before
  has left. Every movie of the input is processed and has its answer at its
  place: the saved movie, or nothing when its save failed. The events of the
  run are the blocks of the movies in input order: the start and the end of
  the save, then the wait of 100 ms when the save succeeded, or the line of
  the logger when it failed; so the saves start in input order, every wait
  is 100 ms and there is one for each save that succeeds, and a failure does
  not stop the movies after it. \<^verbatim>\<open>syncInitialMovies\<close> runs this loop on the
  deduplicated categories and \<^verbatim>\<open>syncPopularMovies\<close> on the results of the
  first page.
\<close>

theorem sync_movies_sequential:
  "snd (sync_movies rejects failed ts d) = sequential_store rejects ts d \<and>
   length (snd (fst (sync_movies rejects failed ts d))) = length ts \<and>
   (\<forall>k<length ts.
      snd (fst (sync_movies rejects failed ts d)) ! k =
        (case fst (saveMovie rejects (ts ! k) (sequential_store rejects (take k ts) d)) of
           Inr m \<Rightarrow> Some m
         | Inl err \<Rightarrow> None)) \<and>
   fst (fst (sync_movies rejects failed ts d)) =
     concat (map (sync_block failed) (zip ts (snd (fst (sync_movies rejects failed ts d))))) \<and>
   starts (fst (fst (sync_movies rejects failed ts d))) = map TmdbMovie.id ts \<and>
   delays (fst (fst (sync_movies rejects failed ts d))) =
     replicate (length (filter (\<lambda>r. r \<noteq> None)
                          (snd (fst (sync_movies rejects failed ts d))))) 100 \<and>
   snd (syncInitialMovies rejects cs d) =
     sequential_store rejects
       (map snd (foldl (\<lambda>mp m. Map_set mp (TmdbMovie.id m) m) []
                   (popular cs @ topRated cs @ nowPlaying cs @ upcoming cs))) d \<and>
   (\<forall>response. snd (getPopularMovies http 1) = Inr response \<longrightarrow>
      snd (syncPopularMovies rejects http d) = sequential_store rejects (results response) d)"
proof -
  have "starts (fst (fst (sync_movies rejects failed ts d))) = map TmdbMovie.id ts"
    using sync_movies_events[of rejects failed ts d] starts_blocks[OF sync_movies_length]
    by metis
  moreover have "delays (fst (fst (sync_movies rejects failed ts d))) =
     replicate (length (filter (\<lambda>r. r \<noteq> None)
                          (snd (fst (sync_movies rejects failed ts d))))) 100"
    using sync_movies_events[of rejects failed ts d] delays_blocks[OF sync_movies_length]
    by metis
  ultimately show ?thesis
    using sync_movies_store sync_movies_length sync_movies_nth sync_movies_events
    by (simp add: syncInitialMovies_snd syncPopularMovies_snd)
qed

theorem sync_movies_sequential_witness:
  "length (snd (fst (sync_movies rejects999 (\<lambda>i. [S ''Error syncing movie '', N i])
                       [tmdb1, tmdb2, tmdb3] store1))) = 3 \<and>
   map (\<lambda>r. r = None)
       (snd (fst (sync_movies rejects999 (\<lambda>i. [S ''Error syncing movie '', N i])
                    [tmdb1, tmdb2, tmdb3] store1))) = [False, True, False] \<and>
   starts (fst (fst (sync_movies rejects999 (\<lambda>i. [S ''Error syncing movie '', N i])
                       [tmdb1, tmdb2, tmdb3] store1))) = [550, 999, 1000] \<and>
   delays (fst (fst (sync_movies rejects999 (\<lambda>i. [S ''Error syncing movie '', N i])
                       [tmdb1, tmdb2, tmdb3] store1))) = [100, 100] \<and>
   LogError [S ''Error syncing movie '', N 999]
     \<in> set (fst (fst (sync_movies rejects999 (\<lambda>i. [S ''Error syncing movie '', N i])
                         [tmdb1, tmdb2, tmdb3] store1)))"
proof -
  let ?f = "\<lambda>i. [S ''Error syncing movie '', N i]"
  define run where "run = sync_movies rejects999 ?f [tmdb1, tmdb2, tmdb3] store1"
  note spec = sync_movies_sequential[of rejects999 ?f "[tmdb1, tmdb2, tmdb3]" store1,
      folded run_def]
  have "length (snd (fst run)) = length [tmdb1, tmdb2, tmdb3]" using spec by blast
  then have len: "length (snd (fst run)) = 3" by simp
  then obtain a b c where out: "snd (fst run) = [a, b, c]"
    by (auto simp: length_Suc_conv numeral_3_eq_3)
  have nth: "\<And>k. k < 3 \<Longrightarrow> snd (fst run) ! k =
        (case fst (saveMovie rejects999 ([tmdb1, tmdb2, tmdb3] ! k)
                     (sequential_store rejects999 (take k [tmdb1, tmdb2, tmdb3]) store1)) of
           Inr m \<Rightarrow> Some m
         | Inl err \<Rightarrow> None)"
    using spec by (simp del: nth_Cons_numeral take_Cons_numeral)
  have ids: "TmdbMovie.id tmdb1 = 550" "TmdbMovie.id tmdb2 = 999" "TmdbMovie.id tmdb3 = 1000"
    by (simp_all add: tmdb1_def tmdb2_def tmdb3_def)
  have dc: "decimal_column 3 (vote_average tmdb1) = Some (17 / 2)"
    "decimal_column 3 (TmdbMovie.popularity tmdb1) = Some 70"
    "decimal_column 3 (vote_average tmdb3) = Some (17 / 2)"
    "decimal_column 3 (TmdbMovie.popularity tmdb3) = Some 70"
    by (simp_all add: tmdb1_def tmdb3_def decimal_column_samples)
  have inv: "movie_ids_distinct store1" "rating_averages_stored store1"
    by (simp_all add: movie_ids_distinct_def rating_averages_stored_def sample_defs
        decimal_column_samples)
  have inv2: "rating_averages_stored (sequential_store rejects999 [tmdb1, tmdb2] store1)"
    using sync_movies_kept[OF inv, of rejects999 ?f "[tmdb1, tmdb2]"]
    unfolding sync_movies_store by blast
  have ok1: "\<not> isl (fst (saveMovie rejects999 tmdb1 store1))"
    by (rule accepted_saveMovie[OF _ dc(1,2) inv(2)]) (simp add: ids)
  have ko2: "isl (fst (saveMovie rejects999 tmdb2 (sequential_store rejects999 [tmdb1] store1)))"
    by (rule rejects999_saveMovie) (simp add: ids)
  have ok3: "\<not> isl (fst (saveMovie rejects999 tmdb3
                             (sequential_store rejects999 [tmdb1, tmdb2] store1)))"
    by (rule accepted_saveMovie[OF _ dc(3,4) inv2]) (simp add: ids)
  have a: "a \<noteq> None" using nth[of 0] ok1
    by (simp add: out sequential_store_def split: sum.splits)
  have b: "b = None"
    using nth[of 1] ko2 by (simp add: out split: sum.splits)
  have c: "c \<noteq> None"
    using nth[of 2] ok3 by (simp add: out split: sum.splits)
  have ev: "fst (fst run) = concat (map (sync_block ?f) (zip [tmdb1, tmdb2, tmdb3] [a, b, c]))"
    using spec unfolding out by blast
  have "starts (fst (fst run)) = map TmdbMovie.id [tmdb1, tmdb2, tmdb3]"
    using spec by blast
  then have st: "starts (fst (fst run)) = [550, 999, 1000]"
    by (simp add: ids)
  have dl: "delays (fst (fst run)) = [100, 100]"
    using a b c unfolding ev by (subst delays_blocks) (simp_all add: numeral_2_eq_2)
  have lg: "LogError [S ''Error syncing movie '', N 999] \<in> set (fst (fst run))"
    unfolding ev using b ids by (simp add: sync_block_def)
  show ?thesis
    unfolding run_def[symmetric] using len a b c st dl lg unfolding out by simp
qed

subsection \<open>Pagination\<close>

lemma getManyAndCount_page:
  assumes "\<forall>c\<in>set (wheres qb). \<not> refused c" and "fst (orderBy qb) \<noteq> None"
    and "0 \<le> skip_n qb" and "0 \<le> take_n qb"
  shows "getManyAndCount holds srt qb d =
           Inr (take (nat (take_n qb)) (drop (nat (skip_n qb)) (matching holds srt qb d)),
                int (length (matching holds srt qb d)))"
  using assms by (auto simp: getManyAndCount_def)

lemma createQueryBuilder_wheres:
  "c \<in> set (wheres (createQueryBuilder query)) \<Longrightarrow> refused c \<Longrightarrow>
     (\<exists>gs. QueryMovieDto.genreIds query = Some gs \<and> gs \<noteq> [])"
  by (cases "QueryMovieDto.genreIds query")
     (auto simp: createQueryBuilder_def Let_def refused_def split: option.splits if_splits)

lemma createQueryBuilder_genres:
  "QueryMovieDto.genreIds query = Some gs \<Longrightarrow> gs \<noteq> [] \<Longrightarrow>
     \<exists>c\<in>set (wheres (createQueryBuilder query)). refused c"
  by (auto simp: createQueryBuilder_def Let_def refused_def)

text \<open>
  C6. Pagination by offset and limit. For a query that has passed the
  validation of \<^verbatim>\<open>QueryMovieDto\<close>, with page \<open>p\<close> and limit \<open>l\<close>: the query that
  \<^verbatim>\<open>findAll$\<close> builds has offset \<open>(p - 1) * l\<close> and limit \<open>l\<close>, and without a
  filter on genres \<^verbatim>\<open>findAll$\<close> answers the matching rows in their order
  without the first \<open>(p - 1) * l\<close>, cut after \<open>l\<close> rows, so at most \<open>l\<close>, with
  the count of all matching rows. With a filter on genres the database
  refuses the query of \<^verbatim>\<open>findAll$\<close>. \<^verbatim>\<open>search$\<close> answers such a page for a page
  and a limit that are at least 1, and its query is refused for a page below
  1, which nothing keeps from it. \<^verbatim>\<open>findByGenre$\<close> answers no page at all: the
  database refuses its query for every genre, page and limit.
\<close>

theorem pagination_offset_limit:
  "(validated query \<and> QueryMovieDto.page query = Some p \<and> QueryMovieDto.limit query = Some l \<longrightarrow>
      skip_n (createQueryBuilder query) = (p - 1) * l \<and>
      take_n (createQueryBuilder query) = l \<and>
      (QueryMovieDto.genreIds query = None \<or> QueryMovieDto.genreIds query = Some [] \<longrightarrow>
         (\<exists>resp. findAll totalPagesOf holds srt query d = Inr resp \<and>
            data resp =
              take (nat l) (drop (nat ((p - 1) * l))
                (matching holds srt (createQueryBuilder query) d)) \<and>
            int (length (data resp)) \<le> l \<and>
            totalItems (meta resp) =
              int (length (matching holds srt (createQueryBuilder query) d))))) \<and>
   (\<forall>gs. QueryMovieDto.genreIds query = Some gs \<and> gs \<noteq> [] \<longrightarrow>
      findAll totalPagesOf holds srt query d = Inl (Error [S ''QueryFailedError''])) \<and>
   (1 \<le> p \<and> 1 \<le> l \<longrightarrow>
      (\<exists>resp. movies_search totalPagesOf holds srt q p l d = Inr resp \<and>
         data resp =
           take (nat l) (drop (nat ((p - 1) * l))
             (srt (Some POPULARITY, Some DESC)
                (filter (holds (TitleILike q)) (movies d)))) \<and>
         int (length (data resp)) \<le> l \<and>
         totalItems (meta resp) =
           int (length (srt (Some POPULARITY, Some DESC)
                          (filter (holds (TitleILike q)) (movies d)))))) \<and>
   (p \<le> 0 \<and> 1 \<le> l \<longrightarrow>
      movies_search totalPagesOf holds srt q p l d = Inl (Error [S ''QueryFailedError''])) \<and>
   findByGenre totalPagesOf holds srt g p l d = Inl (Error [S ''QueryFailedError''])"
proof (intro conjI impI allI)
  { assume v: "validated query \<and> QueryMovieDto.page query = Some p \<and>
               QueryMovieDto.limit query = Some l"
    then have pl: "1 \<le> p" "1 \<le> l" and sb: "sortBy query \<noteq> None"
      by (auto simp: validated_def)
    then have nn: "0 \<le> (p - 1) * l" "0 \<le> l" by simp_all
    from v pl show sk: "skip_n (createQueryBuilder query) = (p - 1) * l"
      by (auto simp: createQueryBuilder_def or_number_def Let_def)
    from v pl show tk: "take_n (createQueryBuilder query) = l"
      by (auto simp: createQueryBuilder_def or_number_def Let_def)
    assume ng: "QueryMovieDto.genreIds query = None \<or> QueryMovieDto.genreIds query = Some []"
    have nr: "\<forall>c\<in>set (wheres (createQueryBuilder query)). \<not> refused c"
      using createQueryBuilder_wheres[of _ query] ng by auto
    have ob: "fst (orderBy (createQueryBuilder query)) \<noteq> None"
      using sb by (simp add: createQueryBuilder_def Let_def)
    have "getManyAndCount holds srt (createQueryBuilder query) d =
            Inr (take (nat l) (drop (nat ((p - 1) * l))
                   (matching holds srt (createQueryBuilder query) d)),
                 int (length (matching holds srt (createQueryBuilder query) d)))"
      using getManyAndCount_page[OF nr ob, of holds srt d] nn
      by (simp add: sk tk)
    then show "\<exists>resp. findAll totalPagesOf holds srt query d = Inr resp \<and>
            data resp =
              take (nat l) (drop (nat ((p - 1) * l))
                (matching holds srt (createQueryBuilder query) d)) \<and>
            int (length (data resp)) \<le> l \<and>
            totalItems (meta resp) =
              int (length (matching holds srt (createQueryBuilder query) d))"
      using nn by (auto simp: findAll_def new_PaginatedResponseDto_def) }
  { fix gs
    assume "QueryMovieDto.genreIds query = Some gs \<and> gs \<noteq> []"
    then have "\<exists>c\<in>set (wheres (createQueryBuilder query)). refused c"
      using createQueryBuilder_genres by blast
    then show "findAll totalPagesOf holds srt query d = Inl (Error [S ''QueryFailedError''])"
      by (simp add: findAll_def getManyAndCount_def) }
  { assume pl: "1 \<le> p \<and> 1 \<le> l"
    then have nn: "0 \<le> (p - 1) * l" "0 \<le> l" by simp_all
    show "\<exists>resp. movies_search totalPagesOf holds srt q p l d = Inr resp \<and>
         data resp =
           take (nat l) (drop (nat ((p - 1) * l))
             (srt (Some POPULARITY, Some DESC)
                (filter (holds (TitleILike q)) (movies d)))) \<and>
         int (length (data resp)) \<le> l \<and>
         totalItems (meta resp) =
           int (length (srt (Some POPULARITY, Some DESC)
                          (filter (holds (TitleILike q)) (movies d))))"
      using nn
      by (auto simp: movies_search_def getManyAndCount_def matching_def refused_def
          new_PaginatedResponseDto_def) }
  { assume "p \<le> 0 \<and> 1 \<le> l"
    then have "(p - 1) * l < 0" by (simp add: mult_neg_pos)
    then show "movies_search totalPagesOf holds srt q p l d = Inl (Error [S ''QueryFailedError''])"
      by (simp add: movies_search_def getManyAndCount_def) }
  show "findByGenre totalPagesOf holds srt g p l d = Inl (Error [S ''QueryFailedError''])"
    by (simp add: findByGenre_def getManyAndCount_def refused_def)
qed

theorem pagination_witness:
  "validated query21 \<and>
   QueryMovieDto.page query21 = Some 2 \<and> QueryMovieDto.limit query21 = Some 1 \<and>
   QueryMovieDto.genreIds query21 = None \<and>
   skip_n (createQueryBuilder query21) = 1 \<and>
   map_sum (\<lambda>e. e) (\<lambda>r. (map movie.id (data r), totalItems (meta r)))
     (findAll sample_pages sample_holds sample_sort query21 store1) = Inr ([2], 2) \<and>
   QueryMovieDto.genreIds query_genres = Some [18, 28] \<and>
   findAll sample_pages sample_holds sample_sort query_genres store1
     = Inl (Error [S ''QueryFailedError'']) \<and>
   map_sum (\<lambda>e. e) (\<lambda>r. (map movie.id (data r), totalItems (meta r)))
     (movies_search sample_pages sample_holds sample_sort ''club'' 2 1 store1) = Inr ([2], 2) \<and>
   movies_search sample_pages sample_holds sample_sort ''club'' 0 20 store1
     = Inl (Error [S ''QueryFailedError'']) \<and>
   findByGenre sample_pages sample_holds sample_sort 18 1 20 store1
     = Inl (Error [S ''QueryFailedError''])"
proof -
  note spec = pagination_offset_limit[where query = query21 and p = 2 and l = 1
      and totalPagesOf = sample_pages and holds = sample_holds and srt = sample_sort
      and d = store1 and q = "''club''"]
  note spec_g = pagination_offset_limit[where query = query_genres
      and totalPagesOf = sample_pages and holds = sample_holds and srt = sample_sort
      and d = store1]
  note spec_0 = pagination_offset_limit[where p = 0 and l = 20
      and totalPagesOf = sample_pages and holds = sample_holds and srt = sample_sort
      and d = store1 and q = "''club''"]
  note spec_18 = pagination_offset_limit[where p = 1 and l = 20 and g = 18
      and totalPagesOf = sample_pages and holds = sample_holds and srt = sample_sort
      and d = store1]
  have v: "validated query21" by (simp add: validated_def query21_def)
  have q: "QueryMovieDto.page query21 = Some 2" "QueryMovieDto.limit query21 = Some 1"
    "QueryMovieDto.genreIds query21 = None"
    "QueryMovieDto.genreIds query_genres = Some [18, 28]"
    by (simp_all add: query21_def query_genres_def)
  have m: "matching sample_holds sample_sort (createQueryBuilder query21) store1 = movies store1"
    by (simp add: matching_def createQueryBuilder_def sample_holds_def sample_sort_def
        truthy_string_def truthy_number_def or_number_def Let_def query21_def sample_defs)
  have s: "sample_sort (Some POPULARITY, Some DESC)
             (filter (sample_holds (TitleILike ''club'')) (movies store1)) = movies store1"
    by (simp add: sample_holds_def sample_sort_def)
  have mv: "map movie.id (movies store1) = [1, 2]" by (simp add: sample_defs)
  have sk: "skip_n (createQueryBuilder query21) = 1" using spec v q by simp
  obtain r where r: "findAll sample_pages sample_holds sample_sort query21 store1 = Inr r"
     "data r = take (nat 1) (drop (nat ((2 - 1) * 1)) (movies store1))"
     "totalItems (meta r) = int (length (movies store1))"
    using spec v q unfolding m by auto
  obtain r' where r': "movies_search sample_pages sample_holds sample_sort ''club'' 2 1 store1 = Inr r'"
     "data r' = take (nat 1) (drop (nat ((2 - 1) * 1)) (movies store1))"
     "totalItems (meta r') = int (length (movies store1))"
    using spec unfolding s by auto
  have l: "length (movies store1) = 2" using mv by (metis length_map length_Cons list.size(3) numeral_2_eq_2)
  have d: "map movie.id (take (nat 1) (drop (nat ((2 - 1) * 1)) (movies store1))) = [2]"
    using mv by (simp add: take_map[symmetric] drop_map[symmetric])
  have g: "findAll sample_pages sample_holds sample_sort query_genres store1
     = Inl (Error [S ''QueryFailedError''])"
    using spec_g q(4) by blast
  have z: "movies_search sample_pages sample_holds sample_sort ''club'' 0 20 store1
     = Inl (Error [S ''QueryFailedError''])"
    using spec_0 by simp
  have f: "findByGenre sample_pages sample_holds sample_sort 18 1 20 store1
     = Inl (Error [S ''QueryFailedError''])"
    using spec_18 by blast
  show ?thesis
    using v q sk d g z f by (simp add: r r' l)
qed

end
